theory Spec2Isabelle
  imports Complex_Main "HOL-Library.Char_ord" "HOL-Library.List_Lexorder" "HOL-Library.Log_Nat"
begin

section \<open>Exceptions and results\<close>

text \<open>
  The nine adapters of \<^verbatim>\<open>crypto_candles.exchanges\<close>. Each one declares its own
  exception class (\<^verbatim>\<open>BinanceAPIError\<close>, \<^verbatim>\<open>BitgetAPIError\<close>, ...), here \<open>APIError\<close>
  of the exchange.
\<close>

datatype exchange_id =
  Binance | Bitget | Bybit | CryptoCom | Foxbit | MercadoBitcoin | MEXC | Novadax | OKX

text \<open>
  A raised exception is a value: its class. The message text (\<^verbatim>\<open>str(e)\<close>) is not
  modelled. Every class here derives from Python's \<^verbatim>\<open>Exception\<close>;
  \<open>RequestException\<close> stands for \<^verbatim>\<open>requests.exceptions.RequestException\<close> and its
  subclasses, \<open>OtherError\<close> for any further \<^verbatim>\<open>Exception\<close> subclass a library may raise.
\<close>

datatype pyexn =
  RequestException | KeyError | IndexError | TypeError | ValueError
  | AttributeError | OverflowError | OtherError | APIError exchange_id

type_synonym 'a result = "pyexn + 'a"

definition bindE :: "'a result \<Rightarrow> ('a \<Rightarrow> 'b result) \<Rightarrow> 'b result" where
  "bindE m f = (case m of Inl e \<Rightarrow> Inl e | Inr a \<Rightarrow> f a)"

text \<open>A \<^verbatim>\<open>for\<close> loop that appends one built item per element and stops at the first raise.\<close>

fun mapE :: "('a \<Rightarrow> 'b result) \<Rightarrow> 'a list \<Rightarrow> 'b list result" where
  "mapE f [] = Inr []"
| "mapE f (x # xs) =
     (case f x of
        Inl e \<Rightarrow> Inl e
      | Inr y \<Rightarrow> (case mapE f xs of Inl e \<Rightarrow> Inl e | Inr ys \<Rightarrow> Inr (y # ys)))"

text \<open>\<^verbatim>\<open>try: ... except Exception as e: raise XAPIError(...)\<close>\<close>

definition except_Exception :: "exchange_id \<Rightarrow> 'a result \<Rightarrow> 'a result" where
  "except_Exception x r = (case r of Inl e \<Rightarrow> Inl (APIError x) | Inr a \<Rightarrow> Inr a)"

section \<open>Python floats\<close>

text \<open>
  A Python \<^verbatim>\<open>float\<close> is an IEEE 754 binary64 value: a finite value (kept as the rational it
  denotes), an infinity or a NaN. The sign of zero is not modelled (\<^verbatim>\<open>-0.0 == 0.0\<close>).
  Arithmetic computes the exact rational and rounds it to the nearest binary64 value, ties
  to even; a result of magnitude \<open>2^1024\<close> or more after rounding is an infinity.
\<close>

datatype pyfloat = Finite rat | PosInf | NegInf | NaN

definition pow2 :: "int \<Rightarrow> rat" where
  "pow2 e = (if 0 \<le> e then 2 ^ nat e else 1 / 2 ^ nat (- e))"

definition floor_log2 :: "rat \<Rightarrow> int" where
  "floor_log2 a =
     (let (p, q) = quotient_of a;
          d = bitlen p - bitlen q
      in if pow2 d \<le> a then d else d - 1)"

definition round_half_even :: "rat \<Rightarrow> int" where
  "round_half_even r =
     (let f = \<lfloor>r\<rfloor>; d = r - of_int f
      in if d < 1 / 2 then f else if 1 / 2 < d then f + 1 else if even f then f else f + 1)"

definition round_double :: "rat \<Rightarrow> pyfloat" where
  "round_double r =
     (if r = 0 then Finite 0
      else
        let a = \<bar>r\<bar>;
            e = max (floor_log2 a) (- 1022);
            q = pow2 (e - 52);
            v = of_int (round_half_even (a / q)) * q
        in if pow2 1024 \<le> v then (if r < 0 then NegInf else PosInf)
           else Finite (if r < 0 then - v else v))"

text \<open>\<^verbatim>\<open>x * y\<close> on floats.\<close>

fun fmul :: "pyfloat \<Rightarrow> pyfloat \<Rightarrow> pyfloat" where
  "fmul NaN _ = NaN"
| "fmul _ NaN = NaN"
| "fmul (Finite a) (Finite b) = round_double (a * b)"
| "fmul (Finite a) PosInf = (if a = 0 then NaN else if 0 < a then PosInf else NegInf)"
| "fmul (Finite a) NegInf = (if a = 0 then NaN else if 0 < a then NegInf else PosInf)"
| "fmul PosInf (Finite b) = (if b = 0 then NaN else if 0 < b then PosInf else NegInf)"
| "fmul NegInf (Finite b) = (if b = 0 then NaN else if 0 < b then NegInf else PosInf)"
| "fmul PosInf PosInf = PosInf"
| "fmul PosInf NegInf = NegInf"
| "fmul NegInf PosInf = NegInf"
| "fmul NegInf NegInf = PosInf"

text \<open>\<^verbatim>\<open>x + y\<close> on floats.\<close>

fun fadd :: "pyfloat \<Rightarrow> pyfloat \<Rightarrow> pyfloat" where
  "fadd NaN _ = NaN"
| "fadd _ NaN = NaN"
| "fadd (Finite a) (Finite b) = round_double (a + b)"
| "fadd (Finite a) PosInf = PosInf"
| "fadd (Finite a) NegInf = NegInf"
| "fadd PosInf (Finite b) = PosInf"
| "fadd NegInf (Finite b) = NegInf"
| "fadd PosInf PosInf = PosInf"
| "fadd PosInf NegInf = NaN"
| "fadd NegInf PosInf = NaN"
| "fadd NegInf NegInf = NegInf"

text \<open>\<^verbatim>\<open>x / d\<close> for a float \<open>x\<close> and a finite non-zero float constant \<open>d\<close>.\<close>

fun fdiv_const :: "pyfloat \<Rightarrow> rat \<Rightarrow> pyfloat" where
  "fdiv_const NaN d = NaN"
| "fdiv_const (Finite a) d = round_double (a / d)"
| "fdiv_const PosInf d = (if 0 < d then PosInf else NegInf)"
| "fdiv_const NegInf d = (if 0 < d then NegInf else PosInf)"

text \<open>\<^verbatim>\<open>float(n)\<close> for an int: OverflowError when \<open>n\<close> is too large for a float.\<close>

definition float_of_int :: "int \<Rightarrow> pyfloat result" where
  "float_of_int n =
     (case round_double (of_int n) of Finite r \<Rightarrow> Inr (Finite r) | _ \<Rightarrow> Inl OverflowError)"

text \<open>\<^verbatim>\<open>n / d\<close> for ints, \<open>d\<close> a non-zero constant: the correctly rounded quotient.\<close>

definition int_truediv :: "int \<Rightarrow> int \<Rightarrow> pyfloat result" where
  "int_truediv n d =
     (case round_double (of_int n / of_int d) of
        Finite r \<Rightarrow> Inr (Finite r) | _ \<Rightarrow> Inl OverflowError)"

text \<open>\<^verbatim>\<open>int(x)\<close> for a float: truncation towards zero.\<close>

fun int_of_float :: "pyfloat \<Rightarrow> int result" where
  "int_of_float (Finite r) = Inr (if 0 \<le> r then \<lfloor>r\<rfloor> else \<lceil>r\<rceil>)"
| "int_of_float NaN = Inl ValueError"
| "int_of_float _ = Inl OverflowError"

section \<open>Python strings\<close>

text \<open>
  Strings are modelled over ASCII: a \<open>string\<close> is a list of 8-bit characters, compared by
  code (\<^verbatim>\<open>sorted\<close> on ASCII strings is the lexicographic order on codes), and the case
  mappings below change the 26 ASCII letters only.
\<close>

definition is_digit :: "char \<Rightarrow> bool" where
  "is_digit c = (CHR ''0'' \<le> c \<and> c \<le> CHR ''9'')"

definition digit_val :: "char \<Rightarrow> int" where
  "digit_val c = of_char c - 48"

definition int_of_digits :: "string \<Rightarrow> int" where
  "int_of_digits ds = foldl (\<lambda>a c. 10 * a + digit_val c) 0 ds"

definition is_space :: "char \<Rightarrow> bool" where
  "is_space c = (c = CHR '' '' \<or> (CHR 0x09 \<le> c \<and> c \<le> CHR 0x0D))"

definition strip :: "string \<Rightarrow> string" where
  "strip s = rev (dropWhile is_space (rev (dropWhile is_space s)))"

definition char_upper :: "char \<Rightarrow> char" where
  "char_upper c =
     (if CHR ''a'' \<le> c \<and> c \<le> CHR ''z''
      then ''ABCDEFGHIJKLMNOPQRSTUVWXYZ'' ! (of_char c - 97) else c)"

definition char_lower :: "char \<Rightarrow> char" where
  "char_lower c =
     (if CHR ''A'' \<le> c \<and> c \<le> CHR ''Z''
      then ''abcdefghijklmnopqrstuvwxyz'' ! (of_char c - 65) else c)"

text \<open>\<^verbatim>\<open>s.upper()\<close>, \<^verbatim>\<open>s.lower()\<close>, \<^verbatim>\<open>s.endswith(suffix)\<close>.\<close>

definition upper :: "string \<Rightarrow> string" where
  "upper s = map char_upper s"

definition lower :: "string \<Rightarrow> string" where
  "lower s = map char_lower s"

definition endswith :: "string \<Rightarrow> string \<Rightarrow> bool" where
  "endswith s suf = (length suf \<le> length s \<and> drop (length s - length suf) s = suf)"

definition startswith :: "string \<Rightarrow> string \<Rightarrow> bool" where
  "startswith s pre = (take (length pre) s = pre)"

text \<open>
  \<^verbatim>\<open>s.replace(old, new)\<close> for a non-empty \<open>old\<close>: the occurrences are replaced from the
  left, without overlap. \<open>replace_from n\<close> skips the next \<open>n\<close> characters, which belong to
  an occurrence already replaced.
\<close>

fun replace_from :: "nat \<Rightarrow> string \<Rightarrow> string \<Rightarrow> string \<Rightarrow> string" where
  "replace_from n old new [] = []"
| "replace_from (Suc n) old new (c # cs) = replace_from n old new cs"
| "replace_from 0 old new (c # cs) =
     (if startswith (c # cs) old then new @ replace_from (length old - 1) old new cs
      else c # replace_from 0 old new cs)"

definition replace :: "string \<Rightarrow> string \<Rightarrow> string \<Rightarrow> string" where
  "replace s old new = replace_from 0 old new s"

subsection \<open>Numbers from strings\<close>

definition split_sign :: "string \<Rightarrow> bool \<times> string" where
  "split_sign s =
     (case s of
        [] \<Rightarrow> (False, [])
      | c # cs \<Rightarrow>
          if c = CHR ''-'' then (True, cs) else if c = CHR ''+'' then (False, cs) else (False, s))"

text \<open>
  Underscores in a numeric string are dropped; each must stand after a digit and before a
  digit. The first argument is the previous character.
\<close>

fun strip_underscores :: "char \<Rightarrow> string \<Rightarrow> string option" where
  "strip_underscores prev [] = (if prev = CHR ''_'' then None else Some [])"
| "strip_underscores prev (c # cs) =
     (if c = CHR ''_'' then (if is_digit prev then strip_underscores c cs else None)
      else if prev = CHR ''_'' \<and> \<not> is_digit c then None
      else map_option ((#) c) (strip_underscores c cs))"

definition pow10 :: "int \<Rightarrow> rat" where
  "pow10 e = (if 0 \<le> e then 10 ^ nat e else 1 / 10 ^ nat (- e))"

text \<open>An unsigned decimal: digits, an optional fraction, an optional exponent.\<close>

definition parse_exponent :: "string \<Rightarrow> int option" where
  "parse_exponent s =
     (case s of
        [] \<Rightarrow> Some 0
      | c # t \<Rightarrow>
          if c = CHR ''e'' \<or> c = CHR ''E'' then
            (let (neg, ds) = split_sign t
             in if ds \<noteq> [] \<and> list_all is_digit ds
                then Some (if neg then - int_of_digits ds else int_of_digits ds)
                else None)
          else None)"

definition parse_decimal :: "string \<Rightarrow> rat option" where
  "parse_decimal s =
     (let ip = takeWhile is_digit s;
          r1 = dropWhile is_digit s;
          (fp, r2) = (case r1 of
                        [] \<Rightarrow> ([], [])
                      | c # t \<Rightarrow> if c = CHR ''.''
                                 then (takeWhile is_digit t, dropWhile is_digit t)
                                 else ([], r1))
      in if ip = [] \<and> fp = [] then None
         else (case parse_exponent r2 of
                 None \<Rightarrow> None
               | Some ex \<Rightarrow>
                   Some (of_int (int_of_digits (ip @ fp)) * pow10 (ex - int (length fp)))))"

text \<open>\<^verbatim>\<open>float(s)\<close> for a string: ValueError unless the stripped text is a number.\<close>

definition float_of_string :: "string \<Rightarrow> pyfloat result" where
  "float_of_string s =
     (case strip_underscores (CHR 0x00) (strip s) of
        None \<Rightarrow> Inl ValueError
      | Some t \<Rightarrow>
          (let (neg, u) = split_sign t
           in if lower u = ''inf'' \<or> lower u = ''infinity''
              then Inr (if neg then NegInf else PosInf)
              else if lower u = ''nan'' then Inr NaN
              else (case parse_decimal u of
                      None \<Rightarrow> Inl ValueError
                    | Some r \<Rightarrow> Inr (round_double (if neg then - r else r)))))"

text \<open>
  \<^verbatim>\<open>int(s)\<close> for a string, base 10: sign, then digits that single underscores may
  separate. (The limit some Python versions put on the number of digits is not modelled.)
\<close>

definition int_of_string :: "string \<Rightarrow> int result" where
  "int_of_string s =
     (let (neg, u) = split_sign (strip s)
      in case strip_underscores (CHR 0x00) u of
           None \<Rightarrow> Inl ValueError
         | Some ds \<Rightarrow>
             if ds \<noteq> [] \<and> list_all is_digit ds
             then Inr (if neg then - int_of_digits ds else int_of_digits ds)
             else Inl ValueError)"

section \<open>Response payloads\<close>

text \<open>
  What \<^verbatim>\<open>response.json()\<close> returns: \<^verbatim>\<open>None\<close>, a bool, an int, a float, a str, a list or a
  dict with string keys (an association list in insertion order; a key is looked up at its
  first entry).
\<close>

datatype json =
  JNull | JBool bool | JInt int | JFloat pyfloat | JStr string
  | JList "json list" | JObj "(string \<times> json) list"

text \<open>\<^verbatim>\<open>x[i]\<close> with an int index \<open>i \<ge> 0\<close>.\<close>

fun getitem_idx :: "json \<Rightarrow> nat \<Rightarrow> json result" where
  "getitem_idx (JList xs) i = (if i < length xs then Inr (xs ! i) else Inl IndexError)"
| "getitem_idx (JStr s) i = (if i < length s then Inr (JStr [s ! i]) else Inl IndexError)"
| "getitem_idx (JObj kvs) i = Inl KeyError"
| "getitem_idx _ i = Inl TypeError"

text \<open>\<^verbatim>\<open>x[k]\<close> with a string key.\<close>

fun getitem_key :: "json \<Rightarrow> string \<Rightarrow> json result" where
  "getitem_key (JObj kvs) k = (case map_of kvs k of None \<Rightarrow> Inl KeyError | Some v \<Rightarrow> Inr v)"
| "getitem_key _ k = Inl TypeError"

text \<open>\<^verbatim>\<open>x.get(k, default)\<close>: only a dict has the method.\<close>

fun get_default :: "json \<Rightarrow> string \<Rightarrow> json \<Rightarrow> json result" where
  "get_default (JObj kvs) k d = (case map_of kvs k of None \<Rightarrow> Inr d | Some v \<Rightarrow> Inr v)"
| "get_default _ k d = Inl AttributeError"

text \<open>\<^verbatim>\<open>for item in x\<close>: the items, in order. A dict yields its keys, a str its characters.\<close>

fun iter_items :: "json \<Rightarrow> json list result" where
  "iter_items (JList xs) = Inr xs"
| "iter_items (JObj kvs) = Inr (map JStr (remdups (map fst kvs)))"
| "iter_items (JStr s) = Inr (map (\<lambda>c. JStr [c]) s)"
| "iter_items _ = Inl TypeError"

text \<open>\<^verbatim>\<open>len(x)\<close>\<close>

fun len :: "json \<Rightarrow> nat result" where
  "len (JList xs) = Inr (length xs)"
| "len (JObj kvs) = Inr (length (remdups (map fst kvs)))"
| "len (JStr s) = Inr (length s)"
| "len _ = Inl TypeError"

text \<open>\<^verbatim>\<open>float(x)\<close>\<close>

fun py_float :: "json \<Rightarrow> pyfloat result" where
  "py_float (JFloat f) = Inr f"
| "py_float (JInt n) = float_of_int n"
| "py_float (JBool b) = Inr (Finite (if b then 1 else 0))"
| "py_float (JStr s) = float_of_string s"
| "py_float _ = Inl TypeError"

text \<open>\<^verbatim>\<open>int(x)\<close>\<close>

fun py_int :: "json \<Rightarrow> int result" where
  "py_int (JInt n) = Inr n"
| "py_int (JBool b) = Inr (if b then 1 else 0)"
| "py_int (JFloat f) = int_of_float f"
| "py_int (JStr s) = int_of_string s"
| "py_int _ = Inl TypeError"

text \<open>\<^verbatim>\<open>x / 1000\<close>: true division of a payload value by an int constant.\<close>

fun truediv :: "json \<Rightarrow> int \<Rightarrow> pyfloat result" where
  "truediv (JInt n) d = int_truediv n d"
| "truediv (JBool b) d = int_truediv (if b then 1 else 0) d"
| "truediv (JFloat f) d = Inr (fdiv_const f (of_int d))"
| "truediv _ d = Inl TypeError"

text \<open>\<^verbatim>\<open>x.endswith(suffix)\<close> and \<^verbatim>\<open>x.replace(old, new)\<close>: only a str has the methods.\<close>

fun py_endswith :: "json \<Rightarrow> string \<Rightarrow> bool result" where
  "py_endswith (JStr s) suf = Inr (endswith s suf)"
| "py_endswith _ suf = Inl AttributeError"

fun py_replace :: "json \<Rightarrow> string \<Rightarrow> string \<Rightarrow> string result" where
  "py_replace (JStr s) old new = Inr (replace s old new)"
| "py_replace _ old new = Inl AttributeError"

fun is_JStr :: "json \<Rightarrow> bool" where
  "is_JStr (JStr s) = True"
| "is_JStr _ = False"

fun str_of :: "json \<Rightarrow> string" where
  "str_of (JStr s) = s"
| "str_of _ = []"

section \<open>The world outside an adapter\<close>

text \<open>
  An HTTP request as \<^verbatim>\<open>requests.request(method, url, params=params)\<close> receives it.
\<close>

record http_request =
  http_method :: string
  url :: string
  params :: "(string \<times> json) list"

text \<open>A pandas \<^verbatim>\<open>DataFrame\<close>: named columns of cells, all columns of one length.\<close>

type_synonym dataframe = "(string \<times> json list) list"

text \<open>
  What an adapter does not compute itself:
  \<^item> \<open>http\<close>: what \<^verbatim>\<open>requests.request\<close>, \<^verbatim>\<open>raise_for_status\<close> and \<^verbatim>\<open>response.json()\<close>
    together do for a request: raise, or return the decoded payload;
  \<^item> \<open>utcoffset\<close>: the offset in seconds of the process's local time zone from UTC, at a
    given POSIX time;
  \<^item> \<open>format_value\<close>: the text an f-string gives for a payload value that is not a str;
  \<^item> \<open>sorted_values\<close>: \<^verbatim>\<open>sorted\<close> on a list that holds a value that is not a str;
  \<^item> \<open>from_records\<close>: \<^verbatim>\<open>pandas.DataFrame.from_records\<close>;
  \<^item> \<open>sent\<close>: the requests issued so far, oldest first.
\<close>

record world =
  http :: "http_request \<Rightarrow> json result"
  utcoffset :: "int \<Rightarrow> int"
  format_value :: "json \<Rightarrow> string"
  sorted_values :: "json list \<Rightarrow> json list result"
  from_records :: "json \<Rightarrow> dataframe result"
  sent :: "http_request list"

text \<open>\<^verbatim>\<open>f"{x}"\<close> and \<^verbatim>\<open>sorted(xs)\<close>\<close>

definition format_str :: "world \<Rightarrow> json \<Rightarrow> string" where
  "format_str w x = (case x of JStr s \<Rightarrow> s | _ \<Rightarrow> format_value w x)"

definition py_sorted :: "world \<Rightarrow> json list \<Rightarrow> json list result" where
  "py_sorted w xs =
     (if list_all is_JStr xs then Inr (map JStr (sort (map str_of xs)))
      else sorted_values w xs)"

section \<open>Calendar time\<close>

text \<open>
  A naive \<^verbatim>\<open>datetime\<close> (no tzinfo). The \<^verbatim>\<open>fold\<close> attribute is not modelled: every
  datetime is read with \<^verbatim>\<open>fold = 0\<close>.
\<close>

record datetime =
  year :: int
  month :: int
  day :: int
  hour :: int
  minute :: int
  second :: int
  microsecond :: int

text \<open>Days since 1970-01-01 in the proleptic Gregorian calendar, and back.\<close>

definition days_from_civil :: "int \<Rightarrow> int \<Rightarrow> int \<Rightarrow> int" where
  "days_from_civil y m d =
     (let y1 = (if m \<le> 2 then y - 1 else y);
          era = y1 div 400;
          yoe = y1 - era * 400;
          doy = (153 * (if 2 < m then m - 3 else m + 9) + 2) div 5 + d - 1;
          doe = yoe * 365 + yoe div 4 - yoe div 100 + doy
      in era * 146097 + doe - 719468)"

definition civil_from_days :: "int \<Rightarrow> int \<times> int \<times> int" where
  "civil_from_days z0 =
     (let z = z0 + 719468;
          era = z div 146097;
          doe = z - era * 146097;
          yoe = (doe - doe div 1460 + doe div 36524 - doe div 146096) div 365;
          doy = doe - (365 * yoe + yoe div 4 - yoe div 100);
          mp = (5 * doy + 2) div 153;
          d = doy - (153 * mp + 2) div 5 + 1;
          m = (if mp < 10 then mp + 3 else mp - 9)
      in (if m \<le> 2 then yoe + era * 400 + 1 else yoe + era * 400, m, d))"

text \<open>Seconds from 1970-01-01T00:00:00 to a naive datetime and back, as on one clock.\<close>

definition naive_seconds :: "datetime \<Rightarrow> int" where
  "naive_seconds d =
     days_from_civil (year d) (month d) (day d) * 86400
       + hour d * 3600 + minute d * 60 + second d"

definition datetime_of_naive :: "int \<Rightarrow> int \<Rightarrow> datetime" where
  "datetime_of_naive t us =
     (let (y, m, d) = civil_from_days (t div 86400); r = t mod 86400
      in \<lparr>year = y, month = m, day = d, hour = r div 3600, minute = r mod 3600 div 60,
          second = r mod 60, microsecond = us\<rparr>)"

text \<open>The local wall clock at POSIX time \<open>u\<close>.\<close>

definition local_seconds :: "world \<Rightarrow> int \<Rightarrow> int" where
  "local_seconds w u = u + utcoffset w u"

definition year_of_seconds :: "int \<Rightarrow> int" where
  "year_of_seconds t = fst (civil_from_days (t div 86400))"

text \<open>
  The helper \<^verbatim>\<open>local(u)\<close> of the \<^verbatim>\<open>datetime\<close> module (CPython, on a POSIX platform): the
  local wall clock at \<open>u\<close> in seconds, OverflowError outside the platform's \<^verbatim>\<open>time_t\<close>,
  ValueError when the local year is outside 1..9999. The platform's \<^verbatim>\<open>localtime\<close> is taken
  to answer for every \<^verbatim>\<open>time_t\<close>.
\<close>

definition local_time :: "world \<Rightarrow> int \<Rightarrow> int result" where
  "local_time w u =
     (if u < - (2 ^ 63) \<or> 2 ^ 63 \<le> u then Inl OverflowError
      else
        let t = local_seconds w u
        in if year_of_seconds t < 1 \<or> 9999 < year_of_seconds t then Inl ValueError
           else Inr t)"

text \<open>
  \<^verbatim>\<open>datetime.fromtimestamp\<close> from whole seconds and microseconds: OverflowError outside the
  platform's \<^verbatim>\<open>time_t\<close>, ValueError for a year outside 1..9999. To find the \<^verbatim>\<open>fold\<close> it
  also reads the local clock one day earlier and, when the offset has grown in between, at
  the transition: each of the two can raise as \<^verbatim>\<open>local\<close> does.
\<close>

definition fromtimestamp_parts :: "world \<Rightarrow> int \<Rightarrow> int \<Rightarrow> datetime result" where
  "fromtimestamp_parts w sec us =
     (if sec < - (2 ^ 63) \<or> 2 ^ 63 \<le> sec then Inl OverflowError
      else
        let t = local_seconds w sec; d = datetime_of_naive t us
        in if year d < 1 \<or> 9999 < year d then Inl ValueError
           else
             bindE (local_time w (sec - 86400)) (\<lambda>probe.
             let transition = t - probe - 86400
             in bindE (if transition < 0 then local_time w (sec + transition) else Inr probe)
                  (\<lambda>_. Inr d)))"

definition fromtimestamp_int :: "world \<Rightarrow> int \<Rightarrow> datetime result" where
  "fromtimestamp_int w n = fromtimestamp_parts w n 0"

text \<open>
  For a float the fraction is scaled to microseconds in float arithmetic and rounded to an
  integer, ties to even.
\<close>

fun fromtimestamp :: "world \<Rightarrow> pyfloat \<Rightarrow> datetime result" where
  "fromtimestamp w NaN = Inl ValueError"
| "fromtimestamp w PosInf = Inl OverflowError"
| "fromtimestamp w NegInf = Inl OverflowError"
| "fromtimestamp w (Finite r) =
     (let ip = (if 0 \<le> r then \<lfloor>r\<rfloor> else \<lceil>r\<rceil>);
          us = (case fmul (Finite (r - of_int ip)) (Finite 1000000) of
                  Finite x \<Rightarrow> round_half_even x | _ \<Rightarrow> 0)
      in if 1000000 \<le> us then fromtimestamp_parts w (ip + 1) (us - 1000000)
         else if us < 0 then fromtimestamp_parts w (ip - 1) (us + 1000000)
         else fromtimestamp_parts w ip us)"

text \<open>
  \<^verbatim>\<open>d.timestamp()\<close> for a naive datetime: the POSIX time \<open>u\<close> whose local wall clock shows
  \<open>d\<close>, found from the offsets around \<open>d\<close> (the earlier one when two fit, the later of the two
  candidates when \<open>d\<close> falls in a gap), plus the microseconds. Each reading of the local
  clock can raise as \<^verbatim>\<open>local\<close> does: so does the one a day before a solution, which makes
  \<^verbatim>\<open>datetime.min.timestamp()\<close> a ValueError.
\<close>

definition mktime :: "world \<Rightarrow> datetime \<Rightarrow> int result" where
  "mktime w d =
     (let t = naive_seconds d
      in bindE (local_time w t) (\<lambda>lt.
         let a = lt - t; u1 = t - a
         in bindE (local_time w u1) (\<lambda>t1.
            bindE (if t1 = t
                   then bindE (local_time w (u1 - 86400)) (\<lambda>lt2. Inr (lt2 - (u1 - 86400)))
                   else Inr (t1 - u1)) (\<lambda>b.
            if t1 = t \<and> a = b then Inr u1
            else
              let u2 = t - b
              in bindE (local_time w u2) (\<lambda>t2.
                 Inr (if t2 = t then u2 else if t1 = t then u1 else max u1 u2))))))"

definition timestamp_of :: "world \<Rightarrow> datetime \<Rightarrow> pyfloat result" where
  "timestamp_of w d =
     bindE (mktime w d) (\<lambda>u.
     bindE (float_of_int u) (\<lambda>s.
     bindE (float_of_int (microsecond d)) (\<lambda>us.
     Inr (fadd s (fdiv_const us 1000000)))))"

text \<open>\<^verbatim>\<open>int(d.timestamp() * 1000)\<close> and \<^verbatim>\<open>int(d.timestamp())\<close>\<close>

definition epoch_ms :: "world \<Rightarrow> datetime \<Rightarrow> int result" where
  "epoch_ms w d = bindE (timestamp_of w d) (\<lambda>t. int_of_float (fmul t (Finite 1000)))"

definition epoch_s :: "world \<Rightarrow> datetime \<Rightarrow> int result" where
  "epoch_s w d = bindE (timestamp_of w d) int_of_float"

text \<open>\<^verbatim>\<open>"%0wd" % n\<close> for \<open>n \<ge> 0\<close>, and \<^verbatim>\<open>d.isoformat()\<close>.\<close>

definition digit_char :: "int \<Rightarrow> char" where
  "digit_char d = ''0123456789'' ! nat d"

function dec_digits :: "int \<Rightarrow> string" where
  "dec_digits n =
     (if n < 10 then [digit_char n]
      else dec_digits (n div 10) @ [digit_char (n mod 10)])"
  by pat_completeness auto
termination
  by (relation "measure nat") auto

definition zpad :: "nat \<Rightarrow> int \<Rightarrow> string" where
  "zpad wd n = replicate (wd - length (dec_digits n)) (CHR ''0'') @ dec_digits n"

definition isoformat :: "datetime \<Rightarrow> string" where
  "isoformat d =
     zpad 4 (year d) @ ''-'' @ zpad 2 (month d) @ ''-'' @ zpad 2 (day d) @ ''T''
       @ zpad 2 (hour d) @ '':'' @ zpad 2 (minute d) @ '':'' @ zpad 2 (second d)
       @ (if microsecond d \<noteq> 0 then ''.'' @ zpad 6 (microsecond d) else [])"

section \<open>The canonical candle\<close>

text \<open>\<^verbatim>\<open>models/candle.py\<close>: the dataclass \<^verbatim>\<open>Candle\<close> (field \<^verbatim>\<open>open\<close> is \<open>open_price\<close> here).\<close>

record candle =
  timestamp :: datetime
  open_price :: pyfloat
  high :: pyfloat
  low :: pyfloat
  close :: pyfloat
  volume :: pyfloat
  symbol :: string
  exchange :: string
  timeframe :: string
  quote_volume :: "pyfloat option"


section \<open>Shared shapes of the adapters\<close>

text \<open>
  \<^verbatim>\<open>_make_request\<close> is the same in the nine adapters but for the base URL and the
  exception class: the request is issued, a \<^verbatim>\<open>RequestException\<close> is re-raised as the
  adapter's error, any other exception passes through.
\<close>

definition make_request ::
  "exchange_id \<Rightarrow> string \<Rightarrow> world \<Rightarrow> string \<Rightarrow> string \<Rightarrow> (string \<times> json) list
     \<Rightarrow> json result \<times> world" where
  "make_request x base w meth endpoint ps =
     (let req = \<lparr>http_method = meth, url = base @ endpoint, params = ps\<rparr>
      in ((case http w req of
             Inl e \<Rightarrow> Inl (if e = RequestException then APIError x else e)
           | Inr payload \<Rightarrow> Inr payload),
          w\<lparr>sent := sent w @ [req]\<rparr>))"

text \<open>\<^verbatim>\<open>if timeframe not in table: raise ValueError(...)\<close>, else \<^verbatim>\<open>table[timeframe]\<close>.\<close>

definition lookup_timeframe :: "(string \<times> string) list \<Rightarrow> string \<Rightarrow> string result" where
  "lookup_timeframe table tf =
     (case map_of table tf of None \<Rightarrow> Inl ValueError | Some native \<Rightarrow> Inr native)"

text \<open>\<^verbatim>\<open>float(row[i])\<close> and \<^verbatim>\<open>float(row[k])\<close>\<close>

definition float_at :: "json \<Rightarrow> nat \<Rightarrow> pyfloat result" where
  "float_at row i = bindE (getitem_idx row i) py_float"

definition float_key :: "json \<Rightarrow> string \<Rightarrow> pyfloat result" where
  "float_key row k = bindE (getitem_key row k) py_float"

text \<open>
  \<^verbatim>\<open>Candle(timestamp=..., open=..., high=..., low=..., close=..., volume=...,
  quote_volume=..., symbol=symbol, exchange=..., timeframe=timeframe)\<close>: the arguments are
  evaluated in this order, and the first one that raises ends the construction.
\<close>

definition build_candle ::
  "datetime result \<Rightarrow> pyfloat result \<Rightarrow> pyfloat result \<Rightarrow> pyfloat result \<Rightarrow> pyfloat result
     \<Rightarrow> pyfloat result \<Rightarrow> pyfloat result \<Rightarrow> string \<Rightarrow> string \<Rightarrow> string \<Rightarrow> candle result" where
  "build_candle ts op hi lo cl vol qv symb ex tf =
     bindE ts (\<lambda>t. bindE op (\<lambda>p. bindE hi (\<lambda>h. bindE lo (\<lambda>l. bindE cl (\<lambda>c.
     bindE vol (\<lambda>v. bindE qv (\<lambda>q.
       Inr \<lparr>timestamp = t, open_price = p, high = h, low = l, close = c, volume = v,
            symbol = symb, exchange = ex, timeframe = tf, quote_volume = Some q\<rparr>)))))))"

text \<open>
  A loop \<^verbatim>\<open>for x in xs: if cond(x): out.append(item(x))\<close> (or the list comprehension):
  each element raises, is skipped, or gives one item.
\<close>

fun filter_mapE :: "('a \<Rightarrow> 'b option result) \<Rightarrow> 'a list \<Rightarrow> 'b list result" where
  "filter_mapE f [] = Inr []"
| "filter_mapE f (x # xs) =
     (case f x of
        Inl e \<Rightarrow> Inl e
      | Inr None \<Rightarrow> filter_mapE f xs
      | Inr (Some y) \<Rightarrow> (case filter_mapE f xs of Inl e \<Rightarrow> Inl e | Inr ys \<Rightarrow> Inr (y # ys)))"

text \<open>
  \<^verbatim>\<open>try: ... except XAPIError as e: raise XAPIError(...)\<close>: only the adapter's own error
  is caught (and raised again as the same class).
\<close>

definition except_APIError :: "exchange_id \<Rightarrow> 'a result \<Rightarrow> 'a result" where
  "except_APIError x r =
     (case r of Inl e \<Rightarrow> (if e = APIError x then Inl (APIError x) else Inl e) | Inr a \<Rightarrow> Inr a)"

section \<open>Binance\<close>

definition binance_supported_timeframes :: "(string \<times> string) list" where
  "binance_supported_timeframes =
     [(''1m'', ''1m''), (''3m'', ''3m''), (''5m'', ''5m''), (''15m'', ''15m''),
      (''30m'', ''30m''), (''1h'', ''1h''), (''2h'', ''2h''), (''4h'', ''4h''),
      (''6h'', ''6h''), (''8h'', ''8h''), (''12h'', ''12h''), (''1d'', ''1d''),
      (''3d'', ''3d''), (''1w'', ''1w''), (''1M'', ''1M'')]"

definition binance_make_request ::
  "world \<Rightarrow> string \<Rightarrow> string \<Rightarrow> (string \<times> json) list \<Rightarrow> json result \<times> world" where
  "binance_make_request = make_request Binance ''https://api.binance.com/api/v3/''"

definition binance_convert_timeframe :: "string \<Rightarrow> string" where
  "binance_convert_timeframe tf = tf"

definition binance_convert_symbol :: "string \<Rightarrow> string" where
  "binance_convert_symbol symb = upper (replace symb ''-'' [])"

definition binance_candle :: "world \<Rightarrow> string \<Rightarrow> string \<Rightarrow> json \<Rightarrow> candle result" where
  "binance_candle w symb tf candle_data =
     build_candle
       (bindE (getitem_idx candle_data 0) (\<lambda>x. bindE (truediv x 1000) (fromtimestamp w)))
       (float_at candle_data 1) (float_at candle_data 2) (float_at candle_data 3)
       (float_at candle_data 4) (float_at candle_data 5) (float_at candle_data 7)
       symb ''binance'' tf"

definition binance_get_candles ::
  "world \<Rightarrow> string \<Rightarrow> string \<Rightarrow> datetime \<Rightarrow> datetime \<Rightarrow> candle list result \<times> world" where
  "binance_get_candles w symb tf start_date end_date =
     (case bindE (epoch_ms w start_date) (\<lambda>start_ms.
           bindE (epoch_ms w end_date) (\<lambda>end_ms.
             Inr [(''symbol'', JStr (binance_convert_symbol symb)),
                  (''interval'', JStr (binance_convert_timeframe tf)),
                  (''startTime'', JInt start_ms),
                  (''endTime'', JInt end_ms)])) of
        Inl e \<Rightarrow> (Inl (APIError Binance), w)
      | Inr ps \<Rightarrow>
          (let (r, w') = binance_make_request w ''GET'' ''klines'' ps
           in (except_Exception Binance
                 (bindE r (\<lambda>response.
                  bindE (iter_items response) (mapE (binance_candle w' symb tf)))),
               w')))"

definition binance_pair :: "json \<Rightarrow> json option result" where
  "binance_pair entry =
     bindE (getitem_key entry ''symbol'') (\<lambda>s.
     bindE (py_endswith s ''BRL'') (\<lambda>brl.
       if \<not> brl then Inr None
       else bindE (getitem_key entry ''status'') (\<lambda>st.
         if st \<noteq> JStr ''TRADING'' then Inr None
         else bindE (getitem_key entry ''symbol'') (\<lambda>s'.
              bindE (py_replace s' ''BRL'' ''-BRL'') (\<lambda>p. Inr (Some (JStr p)))))))"

definition binance_get_supported_pairs :: "world \<Rightarrow> json list result \<times> world" where
  "binance_get_supported_pairs w =
     (let (r, w') = binance_make_request w ''GET'' ''exchangeInfo'' []
      in (except_APIError Binance
            (bindE r (\<lambda>exchange_info.
             bindE (getitem_key exchange_info ''symbols'') (\<lambda>symbols.
             bindE (iter_items symbols) (\<lambda>entries.
             bindE (filter_mapE binance_pair entries) (py_sorted w'))))),
          w'))"

definition binance_get_supported_timeframes :: "string list" where
  "binance_get_supported_timeframes = map fst binance_supported_timeframes"

section \<open>Bitget\<close>

definition bitget_supported_timeframes :: "(string \<times> string) list" where
  "bitget_supported_timeframes =
     [(''1m'', ''1m''), (''5m'', ''5m''), (''15m'', ''15m''), (''30m'', ''30m''),
      (''1h'', ''1h''), (''4h'', ''4h''), (''1d'', ''1day''), (''1w'', ''1week'')]"

definition bitget_make_request ::
  "world \<Rightarrow> string \<Rightarrow> string \<Rightarrow> (string \<times> json) list \<Rightarrow> json result \<times> world" where
  "bitget_make_request = make_request Bitget ''https://api.bitget.com/api/v2/''"

definition bitget_convert_timeframe :: "string \<Rightarrow> string result" where
  "bitget_convert_timeframe tf = lookup_timeframe bitget_supported_timeframes tf"

definition bitget_convert_symbol :: "string \<Rightarrow> string" where
  "bitget_convert_symbol symb = upper (replace symb ''-'' [])"

definition bitget_candle :: "world \<Rightarrow> string \<Rightarrow> string \<Rightarrow> json \<Rightarrow> candle result" where
  "bitget_candle w symb tf candle_data =
     build_candle
       (bindE (getitem_idx candle_data 0) (\<lambda>x. bindE (py_int x) (\<lambda>n.
        bindE (int_truediv n 1000) (fromtimestamp w))))
       (float_at candle_data 1) (float_at candle_data 2) (float_at candle_data 3)
       (float_at candle_data 4) (float_at candle_data 5) (float_at candle_data 6)
       symb ''bitget'' tf"

definition bitget_get_candles ::
  "world \<Rightarrow> string \<Rightarrow> string \<Rightarrow> datetime \<Rightarrow> datetime \<Rightarrow> candle list result \<times> world" where
  "bitget_get_candles w symb tf start_date end_date =
     (case bindE (bitget_convert_timeframe tf) (\<lambda>bitget_timeframe.
           bindE (epoch_ms w start_date) (\<lambda>start_ms.
           bindE (epoch_ms w end_date) (\<lambda>end_ms.
             Inr [(''symbol'', JStr (bitget_convert_symbol symb)),
                  (''granularity'', JStr bitget_timeframe),
                  (''startTime'', JInt start_ms),
                  (''endTime'', JInt end_ms)]))) of
        Inl e \<Rightarrow> (Inl (APIError Bitget), w)
      | Inr ps \<Rightarrow>
          (let (r, w') = bitget_make_request w ''GET'' ''spot/market/candles'' ps
           in (except_Exception Bitget
                 (bindE r (\<lambda>response.
                  bindE (getitem_key response ''data'') (\<lambda>rows.
                  bindE (iter_items rows) (mapE (bitget_candle w' symb tf))))),
               w')))"

text \<open>
  The pair loop of Bitget and Bybit: \<^verbatim>\<open>if symbol_data['quoteCoin'] == 'BRL'\<close>, then
  \<^verbatim>\<open>f"{symbol_data['baseCoin']}-{symbol_data['quoteCoin']}"\<close>.
\<close>

definition coin_pair :: "world \<Rightarrow> json \<Rightarrow> json option result" where
  "coin_pair w symbol_data =
     bindE (getitem_key symbol_data ''quoteCoin'') (\<lambda>q.
       if q \<noteq> JStr ''BRL'' then Inr None
       else bindE (getitem_key symbol_data ''baseCoin'') (\<lambda>b.
            bindE (getitem_key symbol_data ''quoteCoin'') (\<lambda>q'.
              Inr (Some (JStr (format_str w b @ ''-'' @ format_str w q'))))))"

definition bitget_get_supported_pairs :: "world \<Rightarrow> json list result \<times> world" where
  "bitget_get_supported_pairs w =
     (let (r, w') = bitget_make_request w ''GET'' ''spot/public/symbols'' []
      in (except_Exception Bitget
            (bindE r (\<lambda>response.
             bindE (getitem_key response ''data'') (\<lambda>rows.
             bindE (iter_items rows) (\<lambda>entries.
             bindE (filter_mapE (coin_pair w') entries) (py_sorted w'))))),
          w'))"

definition bitget_get_supported_timeframes :: "string list" where
  "bitget_get_supported_timeframes = map fst bitget_supported_timeframes"

section \<open>Bybit\<close>

definition bybit_supported_timeframes :: "(string \<times> string) list" where
  "bybit_supported_timeframes =
     [(''1m'', ''1''), (''3m'', ''3''), (''5m'', ''5''), (''15m'', ''15''), (''30m'', ''30''),
      (''1h'', ''60''), (''2h'', ''120''), (''4h'', ''240''), (''6h'', ''360''),
      (''12h'', ''720''), (''1d'', ''D''), (''1w'', ''W''), (''1M'', ''M'')]"

definition bybit_make_request ::
  "world \<Rightarrow> string \<Rightarrow> string \<Rightarrow> (string \<times> json) list \<Rightarrow> json result \<times> world" where
  "bybit_make_request = make_request Bybit ''https://api.bybit.com/v5/''"

definition bybit_convert_timeframe :: "string \<Rightarrow> string result" where
  "bybit_convert_timeframe tf = lookup_timeframe bybit_supported_timeframes tf"

definition bybit_convert_symbol :: "string \<Rightarrow> string" where
  "bybit_convert_symbol symb = upper (replace symb ''-'' [])"

definition bybit_candle :: "world \<Rightarrow> string \<Rightarrow> string \<Rightarrow> json \<Rightarrow> candle result" where
  "bybit_candle w symb tf candle_data =
     build_candle
       (bindE (getitem_idx candle_data 0) (\<lambda>x. bindE (py_int x) (\<lambda>n.
        bindE (int_truediv n 1000) (fromtimestamp w))))
       (float_at candle_data 1) (float_at candle_data 2) (float_at candle_data 3)
       (float_at candle_data 4) (float_at candle_data 5) (float_at candle_data 6)
       symb ''bybit'' tf"

definition bybit_get_candles ::
  "world \<Rightarrow> string \<Rightarrow> string \<Rightarrow> datetime \<Rightarrow> datetime \<Rightarrow> candle list result \<times> world" where
  "bybit_get_candles w symb tf start_date end_date =
     (case bindE (bybit_convert_timeframe tf) (\<lambda>bybit_timeframe.
           bindE (epoch_ms w start_date) (\<lambda>start_ms.
           bindE (epoch_ms w end_date) (\<lambda>end_ms.
             Inr [(''category'', JStr ''spot''),
                  (''symbol'', JStr (bybit_convert_symbol symb)),
                  (''interval'', JStr bybit_timeframe),
                  (''start'', JInt start_ms),
                  (''end'', JInt end_ms)]))) of
        Inl e \<Rightarrow> (Inl (APIError Bybit), w)
      | Inr ps \<Rightarrow>
          (let (r, w') = bybit_make_request w ''GET'' ''market/kline'' ps
           in (except_Exception Bybit
                 (bindE r (\<lambda>response.
                  bindE (getitem_key response ''result'') (\<lambda>res.
                  bindE (getitem_key res ''list'') (\<lambda>rows.
                  bindE (iter_items rows) (mapE (bybit_candle w' symb tf)))))),
               w')))"

definition bybit_get_supported_pairs :: "world \<Rightarrow> json list result \<times> world" where
  "bybit_get_supported_pairs w =
     (let (r, w') = bybit_make_request w ''GET'' ''market/instruments-info''
                      [(''category'', JStr ''spot'')]
      in (except_Exception Bybit
            (bindE r (\<lambda>response.
             bindE (getitem_key response ''result'') (\<lambda>res.
             bindE (getitem_key res ''list'') (\<lambda>rows.
             bindE (iter_items rows) (\<lambda>entries.
             bindE (filter_mapE (coin_pair w') entries) (py_sorted w')))))),
          w'))"

definition bybit_get_supported_timeframes :: "string list" where
  "bybit_get_supported_timeframes = map fst bybit_supported_timeframes"

section \<open>Crypto.com\<close>

definition crypto_com_supported_timeframes :: "(string \<times> string) list" where
  "crypto_com_supported_timeframes =
     [(''1m'', ''1m''), (''5m'', ''5m''), (''15m'', ''15m''), (''30m'', ''30m''),
      (''1h'', ''1h''), (''4h'', ''4h''), (''1d'', ''1d''), (''1w'', ''1w''), (''1M'', ''1M'')]"

definition crypto_com_make_request ::
  "world \<Rightarrow> string \<Rightarrow> string \<Rightarrow> (string \<times> json) list \<Rightarrow> json result \<times> world" where
  "crypto_com_make_request = make_request CryptoCom ''https://api.crypto.com/v2/''"

definition crypto_com_convert_timeframe :: "string \<Rightarrow> string result" where
  "crypto_com_convert_timeframe tf = lookup_timeframe crypto_com_supported_timeframes tf"

definition crypto_com_convert_symbol :: "string \<Rightarrow> string" where
  "crypto_com_convert_symbol symb = replace symb ''-'' ''_''"

definition crypto_com_candle :: "world \<Rightarrow> string \<Rightarrow> string \<Rightarrow> json \<Rightarrow> candle result" where
  "crypto_com_candle w symb tf candle_data =
     build_candle
       (bindE (getitem_key candle_data ''t'') (\<lambda>x. bindE (truediv x 1000) (fromtimestamp w)))
       (float_key candle_data ''o'') (float_key candle_data ''h'') (float_key candle_data ''l'')
       (float_key candle_data ''c'') (float_key candle_data ''v'')
       (bindE (float_key candle_data ''v'') (\<lambda>v.
        bindE (float_key candle_data ''c'') (\<lambda>c. Inr (fmul v c))))
       symb ''crypto_com'' tf"

definition crypto_com_get_candles ::
  "world \<Rightarrow> string \<Rightarrow> string \<Rightarrow> datetime \<Rightarrow> datetime \<Rightarrow> candle list result \<times> world" where
  "crypto_com_get_candles w symb tf start_date end_date =
     (case bindE (crypto_com_convert_timeframe tf) (\<lambda>cc_timeframe.
           bindE (epoch_ms w start_date) (\<lambda>start_ms.
           bindE (epoch_ms w end_date) (\<lambda>end_ms.
             Inr [(''instrument_name'', JStr (crypto_com_convert_symbol symb)),
                  (''timeframe'', JStr cc_timeframe),
                  (''start_ts'', JInt start_ms),
                  (''end_ts'', JInt end_ms)]))) of
        Inl e \<Rightarrow> (Inl (APIError CryptoCom), w)
      | Inr ps \<Rightarrow>
          (let (r, w') = crypto_com_make_request w ''GET'' ''public/get-candlestick'' ps
           in (except_Exception CryptoCom
                 (bindE r (\<lambda>response.
                  bindE (getitem_key response ''result'') (\<lambda>res.
                  bindE (getitem_key res ''data'') (\<lambda>rows.
                  bindE (iter_items rows) (mapE (crypto_com_candle w' symb tf)))))),
               w')))"

definition crypto_com_pair :: "json \<Rightarrow> json option result" where
  "crypto_com_pair ticker =
     bindE (getitem_key ticker ''i'') (\<lambda>i.
     bindE (py_endswith i ''_BRL'') (\<lambda>brl.
       if \<not> brl then Inr None
       else bindE (getitem_key ticker ''i'') (\<lambda>i'.
            bindE (py_replace i' ''_BRL'' []) (\<lambda>base. Inr (Some (JStr (base @ ''-BRL'')))))))"

definition crypto_com_get_supported_pairs :: "world \<Rightarrow> json list result \<times> world" where
  "crypto_com_get_supported_pairs w =
     (let (r, w') = crypto_com_make_request w ''GET'' ''public/get-ticker'' []
      in (except_Exception CryptoCom
            (bindE r (\<lambda>response.
             bindE (getitem_key response ''result'') (\<lambda>res.
             bindE (getitem_key res ''data'') (\<lambda>rows.
             bindE (iter_items rows) (\<lambda>entries.
             bindE (filter_mapE crypto_com_pair entries) (py_sorted w')))))),
          w'))"

definition crypto_com_get_supported_timeframes :: "string list" where
  "crypto_com_get_supported_timeframes = map fst crypto_com_supported_timeframes"

section \<open>Foxbit\<close>

definition foxbit_supported_timeframes :: "(string \<times> string) list" where
  "foxbit_supported_timeframes =
     [(''1m'', ''1m''), (''5m'', ''5m''), (''15m'', ''15m''), (''30m'', ''30m''),
      (''1h'', ''1h''), (''4h'', ''4h''), (''1d'', ''1d''), (''1w'', ''1w'')]"

definition foxbit_make_request ::
  "world \<Rightarrow> string \<Rightarrow> string \<Rightarrow> (string \<times> json) list \<Rightarrow> json result \<times> world" where
  "foxbit_make_request = make_request Foxbit ''https://api.foxbit.com.br/rest/v3/''"

definition foxbit_convert_timeframe :: "string \<Rightarrow> string" where
  "foxbit_convert_timeframe tf = tf"

definition foxbit_convert_symbol :: "string \<Rightarrow> string" where
  "foxbit_convert_symbol symb = lower (replace symb ''-'' [])"

definition foxbit_candle :: "world \<Rightarrow> string \<Rightarrow> string \<Rightarrow> json \<Rightarrow> candle result" where
  "foxbit_candle w symb tf candle_data =
     build_candle
       (bindE (getitem_idx candle_data 0) (\<lambda>x. bindE (py_int x) (\<lambda>n.
        bindE (int_truediv n 1000) (fromtimestamp w))))
       (float_at candle_data 1) (float_at candle_data 2) (float_at candle_data 3)
       (float_at candle_data 4) (float_at candle_data 6) (float_at candle_data 7)
       symb ''foxbit'' tf"

definition foxbit_get_candles ::
  "world \<Rightarrow> string \<Rightarrow> string \<Rightarrow> datetime \<Rightarrow> datetime \<Rightarrow> candle list result \<times> world" where
  "foxbit_get_candles w symb tf start_date end_date =
     (case bindE (epoch_ms w start_date) (\<lambda>start_ms.
           bindE (epoch_ms w end_date) (\<lambda>end_ms.
             Inr [(''interval'', JStr (foxbit_convert_timeframe tf)),
                  (''start_time'', JInt start_ms),
                  (''end_time'', JInt end_ms),
                  (''limit'', JInt 500)])) of
        Inl e \<Rightarrow> (Inl (APIError Foxbit), w)
      | Inr ps \<Rightarrow>
          (let (r, w') = foxbit_make_request w ''GET''
                           (''markets/'' @ foxbit_convert_symbol symb @ ''/candlesticks'') ps
           in (except_Exception Foxbit
                 (bindE r (\<lambda>response.
                  bindE (iter_items response) (mapE (foxbit_candle w' symb tf)))),
               w')))"

definition foxbit_get_supported_pairs :: "world \<Rightarrow> json list result \<times> world" where
  "foxbit_get_supported_pairs w =
     (let (r, w') = foxbit_make_request w ''GET'' ''markets'' []
      in (except_Exception Foxbit
            (bindE r (\<lambda>payload.
             bindE (getitem_key payload ''data'') (\<lambda>response.
             bindE (iter_items response) (\<lambda>markets.
             bindE (mapE (\<lambda>market. getitem_key market ''symbol'') markets) (py_sorted w'))))),
          w'))"

definition foxbit_get_supported_timeframes :: "string list" where
  "foxbit_get_supported_timeframes = map fst foxbit_supported_timeframes"

section \<open>Mercado Bitcoin\<close>

definition mercado_bitcoin_supported_timeframes :: "(string \<times> string) list" where
  "mercado_bitcoin_supported_timeframes =
     [(''1m'', ''1m''), (''5m'', ''5m''), (''15m'', ''15m''), (''30m'', ''30m''),
      (''1h'', ''1h''), (''4h'', ''4h''), (''1d'', ''1d''), (''1w'', ''1w'')]"

definition mercado_bitcoin_make_request ::
  "world \<Rightarrow> string \<Rightarrow> string \<Rightarrow> (string \<times> json) list \<Rightarrow> json result \<times> world" where
  "mercado_bitcoin_make_request =
     make_request MercadoBitcoin ''https://api.mercadobitcoin.net/api/v4/''"

definition mercado_bitcoin_convert_timeframe :: "string \<Rightarrow> string" where
  "mercado_bitcoin_convert_timeframe tf = tf"

definition mercado_bitcoin_convert_symbol :: "string \<Rightarrow> string" where
  "mercado_bitcoin_convert_symbol symb = symb"

definition mercado_bitcoin_candle ::
  "world \<Rightarrow> string \<Rightarrow> string \<Rightarrow> json \<Rightarrow> json \<Rightarrow> json \<Rightarrow> json \<Rightarrow> json \<Rightarrow> json \<Rightarrow> nat
     \<Rightarrow> candle result" where
  "mercado_bitcoin_candle w symb tf timestamps opens highs lows closes volumes i =
     build_candle
       (bindE (getitem_idx timestamps i) (\<lambda>x. bindE (py_int x) (fromtimestamp_int w)))
       (float_at opens i) (float_at highs i) (float_at lows i)
       (float_at closes i) (float_at volumes i) (float_at volumes i)
       symb ''mercado_bitcoin'' tf"

definition mercado_bitcoin_parse :: "world \<Rightarrow> string \<Rightarrow> string \<Rightarrow> json \<Rightarrow> candle list result" where
  "mercado_bitcoin_parse w symb tf response =
     bindE (get_default response ''t'' (JList [])) (\<lambda>timestamps.
     bindE (get_default response ''o'' (JList [])) (\<lambda>opens.
     bindE (get_default response ''h'' (JList [])) (\<lambda>highs.
     bindE (get_default response ''l'' (JList [])) (\<lambda>lows.
     bindE (get_default response ''c'' (JList [])) (\<lambda>closes.
     bindE (get_default response ''v'' (JList [])) (\<lambda>volumes.
     bindE (len timestamps) (\<lambda>n.
       mapE (mercado_bitcoin_candle w symb tf timestamps opens highs lows closes volumes)
         [0..<n])))))))"

definition mercado_bitcoin_get_candles ::
  "world \<Rightarrow> string \<Rightarrow> string \<Rightarrow> datetime \<Rightarrow> datetime \<Rightarrow> candle list result \<times> world" where
  "mercado_bitcoin_get_candles w symb tf start_date end_date =
     (case bindE (epoch_s w start_date) (\<lambda>start_ts.
           bindE (epoch_s w end_date) (\<lambda>end_ts.
             Inr [(''from'', JInt start_ts),
                  (''to'', JInt end_ts),
                  (''resolution'', JStr (mercado_bitcoin_convert_timeframe tf)),
                  (''symbol'', JStr (mercado_bitcoin_convert_symbol symb))])) of
        Inl e \<Rightarrow> (Inl (APIError MercadoBitcoin), w)
      | Inr ps \<Rightarrow>
          (let (r, w') = mercado_bitcoin_make_request w ''GET'' ''candles'' ps
           in (except_Exception MercadoBitcoin
                 (bindE r (mercado_bitcoin_parse w' symb tf)),
               w')))"

text \<open>
  \<^verbatim>\<open>df[name]\<close> (KeyError without the column), \<^verbatim>\<open>df[msk]\<close> (the rows where the msk
  holds) and \<^verbatim>\<open>series.tolist()\<close>.
\<close>

definition df_column :: "dataframe \<Rightarrow> string \<Rightarrow> json list result" where
  "df_column df name = (case map_of df name of None \<Rightarrow> Inl KeyError | Some cells \<Rightarrow> Inr cells)"

definition select_rows :: "bool list \<Rightarrow> 'a list \<Rightarrow> 'a list" where
  "select_rows msk cells = map snd (filter fst (zip msk cells))"

definition df_filter :: "dataframe \<Rightarrow> bool list \<Rightarrow> dataframe" where
  "df_filter df msk = map (\<lambda>(name, cells). (name, select_rows msk cells)) df"

definition mercado_bitcoin_get_supported_pairs :: "world \<Rightarrow> json list result \<times> world" where
  "mercado_bitcoin_get_supported_pairs w =
     (let (r, w') = mercado_bitcoin_make_request w ''GET'' ''symbols'' []
      in (except_Exception MercadoBitcoin
            (bindE r (\<lambda>response.
             bindE (from_records w' response) (\<lambda>response_df.
             bindE (df_column response_df ''type'') (\<lambda>types.
             bindE (df_column (df_filter response_df (map (\<lambda>c. c = JStr ''CRYPTO'') types))
                      ''symbol'') (\<lambda>pairs.
               py_sorted w' pairs))))),
          w'))"

definition mercado_bitcoin_get_supported_timeframes :: "string list" where
  "mercado_bitcoin_get_supported_timeframes = map fst mercado_bitcoin_supported_timeframes"

section \<open>MEXC\<close>

definition mexc_supported_timeframes :: "(string \<times> string) list" where
  "mexc_supported_timeframes =
     [(''1m'', ''1m''), (''5m'', ''5m''), (''15m'', ''15m''), (''30m'', ''30m''),
      (''1h'', ''60m''), (''4h'', ''4h''), (''1d'', ''1d''), (''1w'', ''1W''), (''1M'', ''1M'')]"

definition mexc_make_request ::
  "world \<Rightarrow> string \<Rightarrow> string \<Rightarrow> (string \<times> json) list \<Rightarrow> json result \<times> world" where
  "mexc_make_request = make_request MEXC ''https://api.mexc.com/api/v3/''"

definition mexc_convert_timeframe :: "string \<Rightarrow> string result" where
  "mexc_convert_timeframe tf = lookup_timeframe mexc_supported_timeframes tf"

definition mexc_convert_symbol :: "string \<Rightarrow> string" where
  "mexc_convert_symbol symb = upper (replace symb ''-'' [])"

definition mexc_candle :: "world \<Rightarrow> string \<Rightarrow> string \<Rightarrow> json \<Rightarrow> candle result" where
  "mexc_candle w symb tf candle_data =
     build_candle
       (bindE (getitem_idx candle_data 0) (\<lambda>x. bindE (py_int x) (\<lambda>n.
        bindE (int_truediv n 1000) (fromtimestamp w))))
       (float_at candle_data 1) (float_at candle_data 2) (float_at candle_data 3)
       (float_at candle_data 4) (float_at candle_data 5) (float_at candle_data 7)
       symb ''mexc'' tf"

definition mexc_get_candles ::
  "world \<Rightarrow> string \<Rightarrow> string \<Rightarrow> datetime \<Rightarrow> datetime \<Rightarrow> candle list result \<times> world" where
  "mexc_get_candles w symb tf start_date end_date =
     (case bindE (mexc_convert_timeframe tf) (\<lambda>mexc_timeframe.
           bindE (epoch_ms w start_date) (\<lambda>start_ms.
           bindE (epoch_ms w end_date) (\<lambda>end_ms.
             Inr [(''symbol'', JStr (mexc_convert_symbol symb)),
                  (''interval'', JStr mexc_timeframe),
                  (''startTime'', JInt start_ms),
                  (''endTime'', JInt end_ms)]))) of
        Inl e \<Rightarrow> (Inl (APIError MEXC), w)
      | Inr ps \<Rightarrow>
          (let (r, w') = mexc_make_request w ''GET'' ''klines'' ps
           in (except_Exception MEXC
                 (bindE r (\<lambda>response.
                  bindE (iter_items response) (mapE (mexc_candle w' symb tf)))),
               w')))"

definition mexc_pair :: "world \<Rightarrow> json \<Rightarrow> json option result" where
  "mexc_pair w symbol_data =
     bindE (getitem_key symbol_data ''status'') (\<lambda>st.
       if st \<noteq> JStr ''1'' then Inr None
       else bindE (getitem_key symbol_data ''quoteAsset'') (\<lambda>q.
         if q \<noteq> JStr ''BRL'' then Inr None
         else bindE (getitem_key symbol_data ''baseAsset'') (\<lambda>b.
              bindE (getitem_key symbol_data ''quoteAsset'') (\<lambda>q'.
                Inr (Some (JStr (format_str w b @ ''-'' @ format_str w q')))))))"

definition mexc_get_supported_pairs :: "world \<Rightarrow> json list result \<times> world" where
  "mexc_get_supported_pairs w =
     (let (r, w') = mexc_make_request w ''GET'' ''exchangeInfo'' []
      in (except_Exception MEXC
            (bindE r (\<lambda>response.
             bindE (getitem_key response ''symbols'') (\<lambda>rows.
             bindE (iter_items rows) (\<lambda>entries.
             bindE (filter_mapE (mexc_pair w') entries) (py_sorted w'))))),
          w'))"

definition mexc_get_supported_timeframes :: "string list" where
  "mexc_get_supported_timeframes = map fst mexc_supported_timeframes"

section \<open>Novadax\<close>

definition novadax_supported_timeframes :: "(string \<times> string) list" where
  "novadax_supported_timeframes =
     [(''1m'', ''ONE_MIN''), (''5m'', ''FIVE_MIN''), (''15m'', ''FIFTEEN_MIN''),
      (''30m'', ''HALF_HOU''), (''1h'', ''ONE_HOU''), (''1d'', ''ONE_DAY''),
      (''1w'', ''ONE_WEE'')]"

definition novadax_make_request ::
  "world \<Rightarrow> string \<Rightarrow> string \<Rightarrow> (string \<times> json) list \<Rightarrow> json result \<times> world" where
  "novadax_make_request = make_request Novadax ''https://api.novadax.com/v1/''"

definition novadax_convert_timeframe :: "string \<Rightarrow> string result" where
  "novadax_convert_timeframe tf = lookup_timeframe novadax_supported_timeframes tf"

definition novadax_convert_symbol :: "string \<Rightarrow> string" where
  "novadax_convert_symbol symb = replace symb ''-'' ''_''"

definition novadax_candle :: "world \<Rightarrow> string \<Rightarrow> string \<Rightarrow> json \<Rightarrow> candle result" where
  "novadax_candle w symb tf candle_data =
     build_candle
       (bindE (getitem_key candle_data ''score'') (\<lambda>x.
        bindE (py_int x) (fromtimestamp_int w)))
       (float_key candle_data ''openPrice'') (float_key candle_data ''highPrice'')
       (float_key candle_data ''lowPrice'') (float_key candle_data ''closePrice'')
       (float_key candle_data ''amount'') (float_key candle_data ''vol'')
       symb ''novadax'' tf"

definition novadax_get_candles ::
  "world \<Rightarrow> string \<Rightarrow> string \<Rightarrow> datetime \<Rightarrow> datetime \<Rightarrow> candle list result \<times> world" where
  "novadax_get_candles w symb tf start_date end_date =
     (case bindE (novadax_convert_timeframe tf) (\<lambda>novadax_timeframe.
           bindE (epoch_s w start_date) (\<lambda>start_ms.
           bindE (epoch_s w end_date) (\<lambda>end_ms.
             Inr [(''symbol'', JStr (novadax_convert_symbol symb)),
                  (''from'', JInt start_ms),
                  (''to'', JInt end_ms),
                  (''unit'', JStr novadax_timeframe)]))) of
        Inl e \<Rightarrow> (Inl (APIError Novadax), w)
      | Inr ps \<Rightarrow>
          (let (r, w') = novadax_make_request w ''GET'' ''market/kline/history'' ps
           in (except_Exception Novadax
                 (bindE r (\<lambda>response.
                  bindE (getitem_key response ''data'') (\<lambda>rows.
                  bindE (iter_items rows) (mapE (novadax_candle w' symb tf))))),
               w')))"

definition novadax_pair :: "json \<Rightarrow> json result" where
  "novadax_pair symbol_data =
     bindE (getitem_key symbol_data ''symbol'') (\<lambda>s.
     bindE (py_replace s ''_'' ''-'') (\<lambda>p. Inr (JStr p)))"

definition novadax_get_supported_pairs :: "world \<Rightarrow> json list result \<times> world" where
  "novadax_get_supported_pairs w =
     (let (r, w') = novadax_make_request w ''GET'' ''common/symbols'' []
      in (except_Exception Novadax
            (bindE r (\<lambda>response.
             bindE (getitem_key response ''data'') (\<lambda>rows.
             bindE (iter_items rows) (\<lambda>entries.
             bindE (mapE novadax_pair entries) (py_sorted w'))))),
          w'))"

definition novadax_get_supported_timeframes :: "string list" where
  "novadax_get_supported_timeframes = map fst novadax_supported_timeframes"

section \<open>OKX\<close>

definition okx_supported_timeframes :: "(string \<times> string) list" where
  "okx_supported_timeframes =
     [(''1m'', ''1m''), (''5m'', ''5m''), (''15m'', ''15m''), (''30m'', ''30m''),
      (''1h'', ''1H''), (''4h'', ''4H''), (''1d'', ''1D''), (''1w'', ''1W'')]"

definition okx_make_request ::
  "world \<Rightarrow> string \<Rightarrow> string \<Rightarrow> (string \<times> json) list \<Rightarrow> json result \<times> world" where
  "okx_make_request = make_request OKX ''https://www.okx.com/api/v5/''"

definition okx_convert_timeframe :: "string \<Rightarrow> string result" where
  "okx_convert_timeframe tf = lookup_timeframe okx_supported_timeframes tf"

definition okx_convert_symbol :: "string \<Rightarrow> string" where
  "okx_convert_symbol symb = symb"

definition okx_candle :: "world \<Rightarrow> string \<Rightarrow> string \<Rightarrow> json \<Rightarrow> candle result" where
  "okx_candle w symb tf candle_data =
     build_candle
       (bindE (getitem_idx candle_data 0) (\<lambda>x. bindE (py_int x) (\<lambda>n.
        bindE (int_truediv n 1000) (fromtimestamp w))))
       (float_at candle_data 1) (float_at candle_data 2) (float_at candle_data 3)
       (float_at candle_data 4) (float_at candle_data 5) (float_at candle_data 6)
       symb ''okx'' tf"

definition okx_get_candles ::
  "world \<Rightarrow> string \<Rightarrow> string \<Rightarrow> datetime \<Rightarrow> datetime \<Rightarrow> candle list result \<times> world" where
  "okx_get_candles w symb tf start_date end_date =
     (case bindE (okx_convert_timeframe tf) (\<lambda>okx_timeframe.
           bindE (epoch_ms w start_date) (\<lambda>start_ms.
           bindE (epoch_ms w end_date) (\<lambda>end_ms.
             Inr [(''instId'', JStr (okx_convert_symbol symb)),
                  (''bar'', JStr okx_timeframe),
                  (''after'', JInt end_ms),
                  (''before'', JInt start_ms)]))) of
        Inl e \<Rightarrow> (Inl (APIError OKX), w)
      | Inr ps \<Rightarrow>
          (let (r, w') = okx_make_request w ''GET'' ''market/history-candles'' ps
           in (except_Exception OKX
                 (bindE r (\<lambda>response.
                  bindE (getitem_key response ''data'') (\<lambda>rows.
                  bindE (iter_items rows) (mapE (okx_candle w' symb tf))))),
               w')))"

definition okx_pair :: "world \<Rightarrow> json \<Rightarrow> json option result" where
  "okx_pair w instrument =
     bindE (getitem_key instrument ''quoteCcy'') (\<lambda>q.
       if q \<noteq> JStr ''BRL'' then Inr None
       else bindE (getitem_key instrument ''baseCcy'') (\<lambda>b.
            bindE (getitem_key instrument ''quoteCcy'') (\<lambda>q'.
              Inr (Some (JStr (format_str w b @ ''-'' @ format_str w q'))))))"

definition okx_get_supported_pairs :: "world \<Rightarrow> json list result \<times> world" where
  "okx_get_supported_pairs w =
     (let (r, w') = okx_make_request w ''GET'' ''public/instruments''
                      [(''instType'', JStr ''SPOT'')]
      in (except_Exception OKX
            (bindE r (\<lambda>response.
             bindE (getitem_key response ''data'') (\<lambda>rows.
             bindE (iter_items rows) (\<lambda>entries.
             bindE (filter_mapE (okx_pair w') entries) (py_sorted w'))))),
          w'))"

definition okx_get_supported_timeframes :: "string list" where
  "okx_get_supported_timeframes = map fst okx_supported_timeframes"

section \<open>The adapter contract\<close>

text \<open>
  \<^verbatim>\<open>BaseExchange\<close>: the three abstract operations, resolved by the adapter's class, and the
  two validations every adapter inherits.
\<close>

fun get_candles ::
  "exchange_id \<Rightarrow> world \<Rightarrow> string \<Rightarrow> string \<Rightarrow> datetime \<Rightarrow> datetime
     \<Rightarrow> candle list result \<times> world" where
  "get_candles Binance = binance_get_candles"
| "get_candles Bitget = bitget_get_candles"
| "get_candles Bybit = bybit_get_candles"
| "get_candles CryptoCom = crypto_com_get_candles"
| "get_candles Foxbit = foxbit_get_candles"
| "get_candles MercadoBitcoin = mercado_bitcoin_get_candles"
| "get_candles MEXC = mexc_get_candles"
| "get_candles Novadax = novadax_get_candles"
| "get_candles OKX = okx_get_candles"

fun get_supported_pairs :: "exchange_id \<Rightarrow> world \<Rightarrow> json list result \<times> world" where
  "get_supported_pairs Binance = binance_get_supported_pairs"
| "get_supported_pairs Bitget = bitget_get_supported_pairs"
| "get_supported_pairs Bybit = bybit_get_supported_pairs"
| "get_supported_pairs CryptoCom = crypto_com_get_supported_pairs"
| "get_supported_pairs Foxbit = foxbit_get_supported_pairs"
| "get_supported_pairs MercadoBitcoin = mercado_bitcoin_get_supported_pairs"
| "get_supported_pairs MEXC = mexc_get_supported_pairs"
| "get_supported_pairs Novadax = novadax_get_supported_pairs"
| "get_supported_pairs OKX = okx_get_supported_pairs"

fun get_supported_timeframes :: "exchange_id \<Rightarrow> string list" where
  "get_supported_timeframes Binance = binance_get_supported_timeframes"
| "get_supported_timeframes Bitget = bitget_get_supported_timeframes"
| "get_supported_timeframes Bybit = bybit_get_supported_timeframes"
| "get_supported_timeframes CryptoCom = crypto_com_get_supported_timeframes"
| "get_supported_timeframes Foxbit = foxbit_get_supported_timeframes"
| "get_supported_timeframes MercadoBitcoin = mercado_bitcoin_get_supported_timeframes"
| "get_supported_timeframes MEXC = mexc_get_supported_timeframes"
| "get_supported_timeframes Novadax = novadax_get_supported_timeframes"
| "get_supported_timeframes OKX = okx_get_supported_timeframes"

text \<open>\<^verbatim>\<open>return symbol in self.get_supported_pairs()\<close>\<close>

definition validate_symbol :: "exchange_id \<Rightarrow> world \<Rightarrow> string \<Rightarrow> bool result \<times> world" where
  "validate_symbol x w symb =
     (let (r, w') = get_supported_pairs x w
      in (bindE r (\<lambda>pairs. Inr (JStr symb \<in> set pairs)), w'))"

text \<open>\<^verbatim>\<open>return timeframe in self.get_supported_timeframes()\<close>\<close>

definition validate_timeframe :: "exchange_id \<Rightarrow> string \<Rightarrow> bool" where
  "validate_timeframe x tf = (tf \<in> set (get_supported_timeframes x))"

section \<open>Names and scenarios used in the statements\<close>

text \<open>The literal each adapter writes into the \<open>exchange\<close> field of the candles it builds.\<close>

fun exchange_name :: "exchange_id \<Rightarrow> string" where
  "exchange_name Binance = ''binance''"
| "exchange_name Bitget = ''bitget''"
| "exchange_name Bybit = ''bybit''"
| "exchange_name CryptoCom = ''crypto_com''"
| "exchange_name Foxbit = ''foxbit''"
| "exchange_name MercadoBitcoin = ''mercado_bitcoin''"
| "exchange_name MEXC = ''mexc''"
| "exchange_name Novadax = ''novadax''"
| "exchange_name OKX = ''okx''"

text \<open>
  A world whose local time zone is UTC and whose remote side answers every request by \<open>h\<close>;
  nothing has been sent yet.
\<close>

definition utc_world :: "(http_request \<Rightarrow> json result) \<Rightarrow> world" where
  "utc_world h =
     \<lparr>http = h, utcoffset = (\<lambda>u. 0), format_value = (\<lambda>x. ''?''),
      sorted_values = (\<lambda>xs. Inl TypeError), from_records = (\<lambda>x. Inl TypeError), sent = []\<rparr>"

text \<open>The kline row of the Binance scenario, and two request dates.\<close>

definition kline_row :: json where
  "kline_row =
     JList [JInt 1625097600000, JStr ''35000.0'', JStr ''36000.0'', JStr ''34000.0'',
            JStr ''35500.0'', JStr ''100.0'', JInt 1625097899999, JStr ''3500000.0'',
            JInt 100, JStr ''50.0'', JStr ''1750000.0'', JStr ''0'']"

definition date_2021_07_01 :: datetime where
  "date_2021_07_01 =
     \<lparr>year = 2021, month = 7, day = 1, hour = 0, minute = 0, second = 0, microsecond = 0\<rparr>"

definition date_2021_07_02 :: datetime where
  "date_2021_07_02 =
     \<lparr>year = 2021, month = 7, day = 2, hour = 0, minute = 0, second = 0, microsecond = 0\<rparr>"

text \<open>The candle of the Binance scenario and the request that fetches it.\<close>

definition kline_candle :: candle where
  "kline_candle =
     \<lparr>timestamp = date_2021_07_01, open_price = Finite 35000, high = Finite 36000,
      low = Finite 34000, close = Finite 35500, volume = Finite 100, symbol = ''BTC-BRL'',
      exchange = ''binance'', timeframe = ''1h'', quote_volume = Some (Finite 3500000)\<rparr>"

definition kline_request :: http_request where
  "kline_request =
     \<lparr>http_method = ''GET'', url = ''https://api.binance.com/api/v3/klines'',
      params = [(''symbol'', JStr ''BTCBRL''), (''interval'', JStr ''1h''),
                (''startTime'', JInt 1625097600000), (''endTime'', JInt 1625184000000)]\<rparr>"

text \<open>
  The Crypto.com scenario: one candlestick object with volume 10.0 and close 50.0, the
  payload that carries it, and the request that fetches it.
\<close>

definition crypto_com_row :: json where
  "crypto_com_row =
     JObj [(''t'', JInt 1625097600000), (''o'', JFloat (Finite 48)), (''h'', JFloat (Finite 52)),
           (''l'', JFloat (Finite 47)), (''c'', JFloat (Finite 50)), (''v'', JFloat (Finite 10))]"

definition crypto_com_payload :: json where
  "crypto_com_payload = JObj [(''result'', JObj [(''data'', JList [crypto_com_row])])]"

definition crypto_com_candle_500 :: candle where
  "crypto_com_candle_500 =
     \<lparr>timestamp = date_2021_07_01, open_price = Finite 48, high = Finite 52,
      low = Finite 47, close = Finite 50, volume = Finite 10, symbol = ''BTC-BRL'',
      exchange = ''crypto_com'', timeframe = ''1h'', quote_volume = Some (Finite 500)\<rparr>"

definition crypto_com_request :: http_request where
  "crypto_com_request =
     \<lparr>http_method = ''GET'', url = ''https://api.crypto.com/v2/public/get-candlestick'',
      params = [(''instrument_name'', JStr ''BTC_BRL''), (''timeframe'', JStr ''1h''),
                (''start_ts'', JInt 1625097600000), (''end_ts'', JInt 1625184000000)]\<rparr>"




text \<open>\<^verbatim>\<open>datetime.min\<close>, the first instant a \<^verbatim>\<open>datetime\<close> can hold.\<close>

definition datetime_min :: datetime where
  "datetime_min =
     \<lparr>year = 1, month = 1, day = 1, hour = 0, minute = 0, second = 0, microsecond = 0\<rparr>"

text \<open>
  The translation strategies in the words of the specification: strip the hyphen, replace
  the hyphen by an underscore, upper-case, lower-case.
\<close>

definition strip_hyphen :: "string \<Rightarrow> string" where
  "strip_hyphen s = filter (\<lambda>c. c \<noteq> CHR ''-'') s"

definition hyphen_to_underscore :: "string \<Rightarrow> string" where
  "hyphen_to_underscore s = map (\<lambda>c. if c = CHR ''-'' then CHR ''_'' else c) s"

text \<open>
  Upper-casing and lower-casing, said with a table: each of the 26 small letters beside its
  capital. A character outside the table is left as it is.
\<close>

definition letters :: "(char \<times> char) list" where
  "letters = zip ''abcdefghijklmnopqrstuvwxyz'' ''ABCDEFGHIJKLMNOPQRSTUVWXYZ''"

definition to_upper_case :: "string \<Rightarrow> string" where
  "to_upper_case s = map (\<lambda>c. case map_of letters c of Some u \<Rightarrow> u | None \<Rightarrow> c) s"

definition to_lower_case :: "string \<Rightarrow> string" where
  "to_lower_case s =
     map (\<lambda>c. case map_of (map prod.swap letters) c of Some l \<Rightarrow> l | None \<Rightarrow> c) s"


text \<open>A world in UTC whose remote side cannot be reached.\<close>

definition offline_world :: world where
  "offline_world = utc_world (\<lambda>r. Inl RequestException)"

text \<open>A world in UTC whose remote side answers every request with the empty JSON object.\<close>

definition empty_object_world :: world where
  "empty_object_world = utc_world (\<lambda>r. Inr (JObj []))"

text \<open>
  Three Mercado Bitcoin payloads: one without the key \<open>t\<close>, one whose \<open>t\<close> array is longer
  than its \<open>o\<close> array, and one with parallel arrays of one element each; and the request
  that fetches them.
\<close>

definition payload_without_t :: "(string \<times> json) list" where
  "payload_without_t = [(''o'', JList [JFloat (Finite 1)])]"

definition payload_short_o :: "(string \<times> json) list" where
  "payload_short_o =
     [(''t'', JList [JInt 1625097600, JInt 1625101200]),
      (''o'', JList [JFloat (Finite 1)]),
      (''h'', JList [JFloat (Finite 2), JFloat (Finite 2)]),
      (''l'', JList [JFloat (Finite 1), JFloat (Finite 1)]),
      (''c'', JList [JFloat (Finite 2), JFloat (Finite 2)]),
      (''v'', JList [JFloat (Finite 3), JFloat (Finite 3)])]"

definition payload_parallel :: "(string \<times> json) list" where
  "payload_parallel =
     [(''t'', JList [JInt 1625097600]), (''o'', JList [JFloat (Finite 1)]),
      (''h'', JList [JFloat (Finite 2)]), (''l'', JList [JFloat (Finite 1)]),
      (''c'', JList [JFloat (Finite 2)]), (''v'', JList [JFloat (Finite 3)])]"

definition mercado_bitcoin_request :: http_request where
  "mercado_bitcoin_request =
     \<lparr>http_method = ''GET'', url = ''https://api.mercadobitcoin.net/api/v4/candles'',
      params = [(''from'', JInt 1625097600), (''to'', JInt 1625184000),
                (''resolution'', JStr ''1h''), (''symbol'', JStr ''BTC-BRL'')]\<rparr>"

definition parallel_candle :: candle where
  "parallel_candle =
     \<lparr>timestamp = date_2021_07_01, open_price = Finite 1, high = Finite 2, low = Finite 1,
      close = Finite 2, volume = Finite 3, symbol = ''BTC-BRL'',
      exchange = ''mercado_bitcoin'', timeframe = ''1h'', quote_volume = Some (Finite 3)\<rparr>"

section \<open>Pair discovery in the words of the claim\<close>

text \<open>A field of a catalog entry: its value when the entry is an object that has the field.\<close>

definition field :: "json \<Rightarrow> string \<Rightarrow> json option" where
  "field e k = (case e of JObj kvs \<Rightarrow> map_of kvs k | _ \<Rightarrow> None)"

definition the_field :: "json \<Rightarrow> string \<Rightarrow> json" where
  "the_field e k = (case field e k of None \<Rightarrow> JNull | Some v \<Rightarrow> v)"

text \<open>
  The catalog an adapter reads from the payload of its catalog endpoint: a list of entries.
  For Mercado Bitcoin the entries are the rows of the data frame, with its \<open>type\<close> and
  \<open>symbol\<close> cells.
\<close>

definition df_row :: "json \<times> json \<Rightarrow> json" where
  "df_row cells = JObj [(''type'', fst cells), (''symbol'', snd cells)]"

fun catalog :: "exchange_id \<Rightarrow> world \<Rightarrow> json \<Rightarrow> json list result" where
  "catalog Binance w payload = bindE (getitem_key payload ''symbols'') iter_items"
| "catalog Bitget w payload = bindE (getitem_key payload ''data'') iter_items"
| "catalog Bybit w payload =
     bindE (getitem_key payload ''result'') (\<lambda>res. bindE (getitem_key res ''list'') iter_items)"
| "catalog CryptoCom w payload =
     bindE (getitem_key payload ''result'') (\<lambda>res. bindE (getitem_key res ''data'') iter_items)"
| "catalog Foxbit w payload = bindE (getitem_key payload ''data'') iter_items"
| "catalog MercadoBitcoin w payload =
     bindE (from_records w payload) (\<lambda>df.
     bindE (df_column df ''type'') (\<lambda>types.
     bindE (df_column df ''symbol'') (\<lambda>symbols. Inr (map df_row (zip types symbols)))))"
| "catalog MEXC w payload = bindE (getitem_key payload ''symbols'') iter_items"
| "catalog Novadax w payload = bindE (getitem_key payload ''data'') iter_items"
| "catalog OKX w payload = bindE (getitem_key payload ''data'') iter_items"

text \<open>Which catalog entries an adapter keeps.\<close>

fun keeps :: "exchange_id \<Rightarrow> json \<Rightarrow> bool" where
  "keeps Binance e =
     ((case field e ''symbol'' of Some (JStr s) \<Rightarrow> endswith s ''BRL'' | _ \<Rightarrow> False)
      \<and> field e ''status'' = Some (JStr ''TRADING''))"
| "keeps Bitget e = (field e ''quoteCoin'' = Some (JStr ''BRL''))"
| "keeps Bybit e = (field e ''quoteCoin'' = Some (JStr ''BRL''))"
| "keeps CryptoCom e =
     (case field e ''i'' of Some (JStr s) \<Rightarrow> endswith s ''_BRL'' | _ \<Rightarrow> False)"
| "keeps Foxbit e = True"
| "keeps MercadoBitcoin e = (field e ''type'' = Some (JStr ''CRYPTO''))"
| "keeps MEXC e =
     (field e ''status'' = Some (JStr ''1'') \<and> field e ''quoteAsset'' = Some (JStr ''BRL''))"
| "keeps Novadax e = True"
| "keeps OKX e = (field e ''quoteCcy'' = Some (JStr ''BRL''))"

text \<open>The pair an adapter returns for an entry it keeps.\<close>

fun canonical :: "exchange_id \<Rightarrow> world \<Rightarrow> json \<Rightarrow> json" where
  "canonical Binance w e = JStr (replace (str_of (the_field e ''symbol'')) ''BRL'' ''-BRL'')"
| "canonical Bitget w e = JStr (format_str w (the_field e ''baseCoin'') @ ''-BRL'')"
| "canonical Bybit w e = JStr (format_str w (the_field e ''baseCoin'') @ ''-BRL'')"
| "canonical CryptoCom w e = JStr (replace (str_of (the_field e ''i'')) ''_BRL'' [] @ ''-BRL'')"
| "canonical Foxbit w e = the_field e ''symbol''"
| "canonical MercadoBitcoin w e = the_field e ''symbol''"
| "canonical MEXC w e = JStr (format_str w (the_field e ''baseAsset'') @ ''-BRL'')"
| "canonical Novadax w e = JStr (replace (str_of (the_field e ''symbol'')) ''_'' ''-'')"
| "canonical OKX w e = JStr (format_str w (the_field e ''baseCcy'') @ ''-BRL'')"

text \<open>
  Two catalogs: Novadax's with a pair quoted in USDT, and Bitget's with the quote
  currencies BRL, USDT, BRL.
\<close>

definition btc_usdt_entry :: json where
  "btc_usdt_entry =
     JObj [(''symbol'', JStr ''BTC_USDT''), (''baseCurrency'', JStr ''BTC''),
           (''quoteCurrency'', JStr ''USDT'')]"

definition eth_brl_entry :: json where
  "eth_brl_entry =
     JObj [(''symbol'', JStr ''ETH_BRL''), (''baseCurrency'', JStr ''ETH''),
           (''quoteCurrency'', JStr ''BRL'')]"

definition novadax_catalog :: json where
  "novadax_catalog = JObj [(''data'', JList [eth_brl_entry, btc_usdt_entry])]"

definition bitget_entries :: "json list" where
  "bitget_entries =
     [JObj [(''baseCoin'', JStr ''ETH''), (''quoteCoin'', JStr ''BRL'')],
      JObj [(''baseCoin'', JStr ''BTC''), (''quoteCoin'', JStr ''USDT'')],
      JObj [(''baseCoin'', JStr ''BTC''), (''quoteCoin'', JStr ''BRL'')]]"

definition bitget_catalog :: json where
  "bitget_catalog = JObj [(''data'', JList bitget_entries)]"

definition novadax_world :: world where
  "novadax_world = utc_world (\<lambda>r. Inr novadax_catalog)"

definition bitget_world :: world where
  "bitget_world = utc_world (\<lambda>r. Inr bitget_catalog)"

definition bitget_pairs_request :: http_request where
  "bitget_pairs_request =
     \<lparr>http_method = ''GET'', url = ''https://api.bitget.com/api/v2/spot/public/symbols'',
      params = []\<rparr>"

section \<open>Basic facts about results and loops\<close>

lemma bindE_Inr_iff: "bindE m f = Inr y \<longleftrightarrow> (\<exists>a. m = Inr a \<and> f a = Inr y)"
  by (cases m) (simp_all add: bindE_def)

lemma bindE_Inl_iff: "bindE m f = Inl e \<longleftrightarrow> m = Inl e \<or> (\<exists>a. m = Inr a \<and> f a = Inl e)"
  by (cases m) (simp_all add: bindE_def)

lemma bindE_simps [simp]: "bindE (Inl e) f = Inl e" "bindE (Inr a) f = f a"
  by (simp_all add: bindE_def)

lemma except_Exception_Inr_iff: "except_Exception x r = Inr a \<longleftrightarrow> r = Inr a"
  by (cases r) (simp_all add: except_Exception_def)

lemma except_Exception_cases:
  "except_Exception x r = Inl (APIError x) \<or> (\<exists>a. except_Exception x r = Inr a)"
  by (cases r) (simp_all add: except_Exception_def)

lemma except_Exception_simps [simp]:
  "except_Exception x (Inl e) = Inl (APIError x)" "except_Exception x (Inr a) = Inr a"
  by (simp_all add: except_Exception_def)

lemma mapE_Inr_all2: "mapE f xs = Inr ys \<Longrightarrow> list_all2 (\<lambda>x y. f x = Inr y) xs ys"
proof (induction xs arbitrary: ys)
  case Nil
  then show ?case by simp
next
  case (Cons x xs)
  then show ?case by (auto split: sum.splits)
qed

lemma all2_mapE_Inr: "list_all2 (\<lambda>x y. f x = Inr y) xs ys \<Longrightarrow> mapE f xs = Inr ys"
  by (induction xs ys rule: list_all2_induct) simp_all

lemma mapE_Inr_length: "mapE f xs = Inr ys \<Longrightarrow> length ys = length xs"
  by (drule mapE_Inr_all2) (simp add: list_all2_lengthD)

lemma mapE_Inr_set: "mapE f xs = Inr ys \<Longrightarrow> y \<in> set ys \<Longrightarrow> \<exists>x\<in>set xs. f x = Inr y"
proof (induction xs arbitrary: ys)
  case Nil
  then show ?case by simp
next
  case (Cons x xs)
  then show ?case by (auto split: sum.splits)
qed

lemma mapE_Inl_if: "x \<in> set xs \<Longrightarrow> f x = Inl e \<Longrightarrow> \<exists>e'. mapE f xs = Inl e'"
proof (induction xs)
  case Nil
  then show ?case by simp
next
  case (Cons a xs)
  then show ?case by (cases "f a"; cases "mapE f xs") auto
qed

lemma build_candle_Inr:
  assumes "build_candle ts op hi lo cl vol qv symb ex tf = Inr c"
  shows "ts = Inr (timestamp c) \<and> op = Inr (open_price c) \<and> hi = Inr (high c)
         \<and> lo = Inr (low c) \<and> cl = Inr (close c) \<and> vol = Inr (volume c)
         \<and> (\<exists>q. qv = Inr q \<and> quote_volume c = Some q)
         \<and> symbol c = symb \<and> exchange c = ex \<and> timeframe c = tf"
  using assms unfolding build_candle_def by (auto simp: bindE_Inr_iff)

lemma make_request_sent:
  "make_request x base w meth endpoint ps = (r, w') \<Longrightarrow>
     w' = w\<lparr>sent := sent w @ [\<lparr>http_method = meth, url = base @ endpoint, params = ps\<rparr>]\<rparr>"
  by (auto simp: make_request_def Let_def)

lemma make_request_result:
  "make_request x base w meth endpoint ps = (Inr payload, w') \<Longrightarrow>
     http w \<lparr>http_method = meth, url = base @ endpoint, params = ps\<rparr> = Inr payload"
  by (auto simp: make_request_def Let_def split: sum.splits)

section \<open>Integers below \<open>2^53\<close> are floats\<close>

lemma round_half_even_of_int: "round_half_even (of_int k) = k"
  by (simp add: round_half_even_def)

lemma floor_log2_of_int:
  assumes "0 < m"
  shows "floor_log2 (of_int m) = bitlen m - 1"
proof -
  have b1: "1 \<le> bitlen m"
    using assms by (simp add: bitlen_alt_def)
  have "(2::int) ^ nat (bitlen m - 1) \<le> m"
    using bitlen_bounds [OF assms] by simp
  then have "(of_int ((2::int) ^ nat (bitlen m - 1)) :: rat) \<le> of_int m"
    by (simp only: of_int_le_iff)
  then have "pow2 (bitlen m - 1) \<le> of_int m"
    using b1 by (simp add: pow2_def)
  moreover have "bitlen 1 = 1"
    by (simp add: bitlen_alt_def)
  ultimately show ?thesis
    by (simp add: floor_log2_def)
qed

lemma round_double_pos_int:
  assumes "0 < m" and "m < 2 ^ 53"
  shows "round_double (of_int m) = Finite (of_int m)"
    and "round_double (- of_int m) = Finite (- of_int m)"
proof -
  define e where "e = bitlen m - 1"
  have e0: "0 \<le> e"
    using assms(1) by (simp add: e_def bitlen_alt_def)
  have e52: "e \<le> 52"
    using assms bitlen_le_iff_power [of m 53] by (simp add: e_def)
  define k where "k = nat (52 - e)"
  have q: "pow2 (e - 52) = 1 / 2 ^ k"
    using e52 by (cases "e = 52") (simp_all add: pow2_def k_def)
  have aq: "(of_int m :: rat) / pow2 (e - 52) = of_int (m * 2 ^ k)"
    by (simp add: q)
  have v: "of_int (round_half_even ((of_int m :: rat) / pow2 (e - 52))) * pow2 (e - 52)
             = (of_int m :: rat)"
    by (simp only: aq round_half_even_of_int) (simp add: q)
  have "(of_int m :: rat) < of_int (2 ^ 53)"
    using assms(2) by (simp only: of_int_less_iff)
  also have "(of_int (2 ^ 53) :: rat) \<le> pow2 1024"
    by (simp add: pow2_def)
  finally have small: "\<not> pow2 1024 \<le> (of_int m :: rat)"
    by simp
  have fl: "floor_log2 (of_int m) = e"
    using assms(1) by (simp add: floor_log2_of_int e_def)
  have mx: "max e (- 1022) = e"
    using e0 by simp
  have nz: "(of_int m :: rat) \<noteq> 0" "\<bar>of_int m :: rat\<bar> = of_int m" "\<not> (of_int m :: rat) < 0"
    using assms(1) by simp_all
  show "round_double (of_int m) = Finite (of_int m)"
    unfolding round_double_def Let_def using nz small by (simp only: fl mx v if_False)
  have nz': "- (of_int m :: rat) \<noteq> 0" "\<bar>- of_int m :: rat\<bar> = of_int m" "- (of_int m :: rat) < 0"
    using assms(1) by simp_all
  show "round_double (- of_int m) = Finite (- of_int m)"
    unfolding round_double_def Let_def using nz' small by (simp only: fl mx v if_False if_True)
qed

lemma round_double_numeral:
  "(numeral k :: int) < 2 ^ 53 \<Longrightarrow> round_double (numeral k) = Finite (numeral k)"
  using round_double_pos_int(1) [of "numeral k"] by simp

lemma round_double_zero: "round_double 0 = Finite 0"
  by (simp add: round_double_def)

lemma round_double_one: "round_double 1 = Finite 1"
  using round_double_pos_int(1) [of 1] by simp

section \<open>Every candle carries the request's symbol and timeframe and the adapter's name\<close>

text \<open>
  A successful \<open>get_candles\<close> is a successful loop over the rows of the payload; each candle
  is built by the adapter's row function, which copies the two request strings and writes
  the adapter's literal.
\<close>

lemma binance_get_candles_rows:
  assumes "binance_get_candles w symb tf sd ed = (Inr cs, w')"
  shows "\<exists>rows. mapE (binance_candle w' symb tf) rows = Inr cs"
  using assms unfolding binance_get_candles_def
  by (auto simp: Let_def except_Exception_Inr_iff bindE_Inr_iff split: sum.splits prod.splits)

lemma binance_get_candles_fields:
  assumes "binance_get_candles w symb tf sd ed = (Inr cs, w')" and "c \<in> set cs"
  shows "symbol c = symb \<and> exchange c = ''binance'' \<and> timeframe c = tf"
proof -
  from binance_get_candles_rows [OF assms(1)] obtain rows
    where "mapE (binance_candle w' symb tf) rows = Inr cs" by blast
  from mapE_Inr_set [OF this assms(2)] obtain row where "binance_candle w' symb tf row = Inr c"
    by blast
  then show ?thesis
    unfolding binance_candle_def by (blast dest: build_candle_Inr)
qed

lemma bitget_get_candles_rows:
  assumes "bitget_get_candles w symb tf sd ed = (Inr cs, w')"
  shows "\<exists>rows. mapE (bitget_candle w' symb tf) rows = Inr cs"
  using assms unfolding bitget_get_candles_def
  by (auto simp: Let_def except_Exception_Inr_iff bindE_Inr_iff split: sum.splits prod.splits)

lemma bitget_get_candles_fields:
  assumes "bitget_get_candles w symb tf sd ed = (Inr cs, w')" and "c \<in> set cs"
  shows "symbol c = symb \<and> exchange c = ''bitget'' \<and> timeframe c = tf"
proof -
  from bitget_get_candles_rows [OF assms(1)] obtain rows
    where "mapE (bitget_candle w' symb tf) rows = Inr cs" by blast
  from mapE_Inr_set [OF this assms(2)] obtain row where "bitget_candle w' symb tf row = Inr c"
    by blast
  then show ?thesis
    unfolding bitget_candle_def by (blast dest: build_candle_Inr)
qed

lemma bybit_get_candles_rows:
  assumes "bybit_get_candles w symb tf sd ed = (Inr cs, w')"
  shows "\<exists>rows. mapE (bybit_candle w' symb tf) rows = Inr cs"
  using assms unfolding bybit_get_candles_def
  by (auto simp: Let_def except_Exception_Inr_iff bindE_Inr_iff split: sum.splits prod.splits)

lemma bybit_get_candles_fields:
  assumes "bybit_get_candles w symb tf sd ed = (Inr cs, w')" and "c \<in> set cs"
  shows "symbol c = symb \<and> exchange c = ''bybit'' \<and> timeframe c = tf"
proof -
  from bybit_get_candles_rows [OF assms(1)] obtain rows
    where "mapE (bybit_candle w' symb tf) rows = Inr cs" by blast
  from mapE_Inr_set [OF this assms(2)] obtain row where "bybit_candle w' symb tf row = Inr c"
    by blast
  then show ?thesis
    unfolding bybit_candle_def by (blast dest: build_candle_Inr)
qed

lemma crypto_com_get_candles_rows:
  assumes "crypto_com_get_candles w symb tf sd ed = (Inr cs, w')"
  shows "\<exists>rows. mapE (crypto_com_candle w' symb tf) rows = Inr cs"
  using assms unfolding crypto_com_get_candles_def
  by (auto simp: Let_def except_Exception_Inr_iff bindE_Inr_iff split: sum.splits prod.splits)

lemma crypto_com_get_candles_fields:
  assumes "crypto_com_get_candles w symb tf sd ed = (Inr cs, w')" and "c \<in> set cs"
  shows "symbol c = symb \<and> exchange c = ''crypto_com'' \<and> timeframe c = tf"
proof -
  from crypto_com_get_candles_rows [OF assms(1)] obtain rows
    where "mapE (crypto_com_candle w' symb tf) rows = Inr cs" by blast
  from mapE_Inr_set [OF this assms(2)] obtain row where "crypto_com_candle w' symb tf row = Inr c"
    by blast
  then show ?thesis
    unfolding crypto_com_candle_def by (blast dest: build_candle_Inr)
qed

lemma foxbit_get_candles_rows:
  assumes "foxbit_get_candles w symb tf sd ed = (Inr cs, w')"
  shows "\<exists>rows. mapE (foxbit_candle w' symb tf) rows = Inr cs"
  using assms unfolding foxbit_get_candles_def
  by (auto simp: Let_def except_Exception_Inr_iff bindE_Inr_iff split: sum.splits prod.splits)

lemma foxbit_get_candles_fields:
  assumes "foxbit_get_candles w symb tf sd ed = (Inr cs, w')" and "c \<in> set cs"
  shows "symbol c = symb \<and> exchange c = ''foxbit'' \<and> timeframe c = tf"
proof -
  from foxbit_get_candles_rows [OF assms(1)] obtain rows
    where "mapE (foxbit_candle w' symb tf) rows = Inr cs" by blast
  from mapE_Inr_set [OF this assms(2)] obtain row where "foxbit_candle w' symb tf row = Inr c"
    by blast
  then show ?thesis
    unfolding foxbit_candle_def by (blast dest: build_candle_Inr)
qed

lemma mexc_get_candles_rows:
  assumes "mexc_get_candles w symb tf sd ed = (Inr cs, w')"
  shows "\<exists>rows. mapE (mexc_candle w' symb tf) rows = Inr cs"
  using assms unfolding mexc_get_candles_def
  by (auto simp: Let_def except_Exception_Inr_iff bindE_Inr_iff split: sum.splits prod.splits)

lemma mexc_get_candles_fields:
  assumes "mexc_get_candles w symb tf sd ed = (Inr cs, w')" and "c \<in> set cs"
  shows "symbol c = symb \<and> exchange c = ''mexc'' \<and> timeframe c = tf"
proof -
  from mexc_get_candles_rows [OF assms(1)] obtain rows
    where "mapE (mexc_candle w' symb tf) rows = Inr cs" by blast
  from mapE_Inr_set [OF this assms(2)] obtain row where "mexc_candle w' symb tf row = Inr c"
    by blast
  then show ?thesis
    unfolding mexc_candle_def by (blast dest: build_candle_Inr)
qed

lemma novadax_get_candles_rows:
  assumes "novadax_get_candles w symb tf sd ed = (Inr cs, w')"
  shows "\<exists>rows. mapE (novadax_candle w' symb tf) rows = Inr cs"
  using assms unfolding novadax_get_candles_def
  by (auto simp: Let_def except_Exception_Inr_iff bindE_Inr_iff split: sum.splits prod.splits)

lemma novadax_get_candles_fields:
  assumes "novadax_get_candles w symb tf sd ed = (Inr cs, w')" and "c \<in> set cs"
  shows "symbol c = symb \<and> exchange c = ''novadax'' \<and> timeframe c = tf"
proof -
  from novadax_get_candles_rows [OF assms(1)] obtain rows
    where "mapE (novadax_candle w' symb tf) rows = Inr cs" by blast
  from mapE_Inr_set [OF this assms(2)] obtain row where "novadax_candle w' symb tf row = Inr c"
    by blast
  then show ?thesis
    unfolding novadax_candle_def by (blast dest: build_candle_Inr)
qed

lemma okx_get_candles_rows:
  assumes "okx_get_candles w symb tf sd ed = (Inr cs, w')"
  shows "\<exists>rows. mapE (okx_candle w' symb tf) rows = Inr cs"
  using assms unfolding okx_get_candles_def
  by (auto simp: Let_def except_Exception_Inr_iff bindE_Inr_iff split: sum.splits prod.splits)

lemma okx_get_candles_fields:
  assumes "okx_get_candles w symb tf sd ed = (Inr cs, w')" and "c \<in> set cs"
  shows "symbol c = symb \<and> exchange c = ''okx'' \<and> timeframe c = tf"
proof -
  from okx_get_candles_rows [OF assms(1)] obtain rows
    where "mapE (okx_candle w' symb tf) rows = Inr cs" by blast
  from mapE_Inr_set [OF this assms(2)] obtain row where "okx_candle w' symb tf row = Inr c"
    by blast
  then show ?thesis
    unfolding okx_candle_def by (blast dest: build_candle_Inr)
qed

lemma mercado_bitcoin_get_candles_rows:
  assumes "mercado_bitcoin_get_candles w symb tf sd ed = (Inr cs, w')"
  shows "\<exists>payload. mercado_bitcoin_parse w' symb tf payload = Inr cs"
  using assms unfolding mercado_bitcoin_get_candles_def
  by (auto simp: Let_def except_Exception_Inr_iff bindE_Inr_iff split: sum.splits prod.splits)

lemma mercado_bitcoin_parse_rows:
  assumes "mercado_bitcoin_parse w symb tf payload = Inr cs"
  shows "\<exists>ts os hs ls cls vs n. len ts = Inr n
           \<and> mapE (mercado_bitcoin_candle w symb tf ts os hs ls cls vs) [0..<n] = Inr cs"
  using assms unfolding mercado_bitcoin_parse_def bindE_Inr_iff by blast

lemma mercado_bitcoin_get_candles_fields:
  assumes "mercado_bitcoin_get_candles w symb tf sd ed = (Inr cs, w')" and "c \<in> set cs"
  shows "symbol c = symb \<and> exchange c = ''mercado_bitcoin'' \<and> timeframe c = tf"
proof -
  from mercado_bitcoin_get_candles_rows [OF assms(1)] obtain payload
    where "mercado_bitcoin_parse w' symb tf payload = Inr cs" by blast
  from mercado_bitcoin_parse_rows [OF this] obtain ts os hs ls cls vs n
    where "mapE (mercado_bitcoin_candle w' symb tf ts os hs ls cls vs) [0..<n] = Inr cs"
    by blast
  from mapE_Inr_set [OF this assms(2)] obtain i
    where "mercado_bitcoin_candle w' symb tf ts os hs ls cls vs i = Inr c" by blast
  then show ?thesis
    unfolding mercado_bitcoin_candle_def by (blast dest: build_candle_Inr)
qed

section \<open>Evaluating the model on the scenarios\<close>

lemmas string_eval =
  strip_def is_space_def is_digit_def split_sign_def lower_def upper_def char_lower_def
  char_upper_def replace_def startswith_def endswith_def

lemmas number_eval =
  float_of_string_def int_of_string_def parse_decimal_def parse_exponent_def int_of_digits_def
  digit_val_def pow10_def float_of_int_def int_truediv_def round_double_numeral
  round_double_zero round_half_even_def

lemma civil_from_days_18809: "civil_from_days 18809 = (2021, 7, 1)"
  unfolding civil_from_days_def Let_def by simp

lemma civil_from_days_18808: "civil_from_days 18808 = (2021, 6, 30)"
  unfolding civil_from_days_def Let_def by simp

lemma civil_from_days_18810: "civil_from_days 18810 = (2021, 7, 2)"
  unfolding civil_from_days_def Let_def by simp

lemma days_from_civil_2021_07_01: "days_from_civil 2021 7 1 = 18809"
  unfolding days_from_civil_def Let_def by simp

lemma days_from_civil_2021_07_02: "days_from_civil 2021 7 2 = 18810"
  unfolding days_from_civil_def Let_def by simp

lemma utc_world_sel [simp]:
  "http (utc_world h) = h" "utcoffset (utc_world h) = (\<lambda>u. 0)" "sent (utc_world h) = []"
  "format_value (utc_world h) = (\<lambda>x. ''?'')"
  by (simp_all add: utc_world_def)

lemma local_seconds_utc: "utcoffset w = (\<lambda>u. 0) \<Longrightarrow> local_seconds w u = u"
  by (simp add: local_seconds_def)

lemma local_time_2021:
  assumes "utcoffset w = (\<lambda>u. 0)"
  shows "local_time w 1625011200 = Inr 1625011200" "local_time w 1625097600 = Inr 1625097600"
    "local_time w 1625184000 = Inr 1625184000"
  unfolding local_time_def year_of_seconds_def Let_def
  by (simp_all add: local_seconds_utc [OF assms] civil_from_days_18808 civil_from_days_18809
      civil_from_days_18810)

lemma naive_seconds_2021_07_01: "naive_seconds date_2021_07_01 = 1625097600"
  by (simp add: naive_seconds_def date_2021_07_01_def days_from_civil_2021_07_01)

lemma naive_seconds_2021_07_02: "naive_seconds date_2021_07_02 = 1625184000"
  by (simp add: naive_seconds_def date_2021_07_02_def days_from_civil_2021_07_02)

lemma mktime_2021_07_01:
  "utcoffset w = (\<lambda>u. 0) \<Longrightarrow> mktime w date_2021_07_01 = Inr 1625097600"
  unfolding mktime_def Let_def by (simp add: naive_seconds_2021_07_01 local_time_2021)

lemma mktime_2021_07_02:
  "utcoffset w = (\<lambda>u. 0) \<Longrightarrow> mktime w date_2021_07_02 = Inr 1625184000"
  unfolding mktime_def Let_def by (simp add: naive_seconds_2021_07_02 local_time_2021)

lemma timestamp_of_2021_07_01:
  "utcoffset w = (\<lambda>u. 0) \<Longrightarrow> timestamp_of w date_2021_07_01 = Inr (Finite 1625097600)"
  by (simp add: timestamp_of_def mktime_2021_07_01 number_eval)
     (simp add: date_2021_07_01_def number_eval)

lemma timestamp_of_2021_07_02:
  "utcoffset w = (\<lambda>u. 0) \<Longrightarrow> timestamp_of w date_2021_07_02 = Inr (Finite 1625184000)"
  by (simp add: timestamp_of_def mktime_2021_07_02 number_eval)
     (simp add: date_2021_07_02_def number_eval)

lemma epoch_ms_2021_07_01:
  "utcoffset w = (\<lambda>u. 0) \<Longrightarrow> epoch_ms w date_2021_07_01 = Inr 1625097600000"
  by (simp add: epoch_ms_def timestamp_of_2021_07_01 number_eval)

lemma epoch_ms_2021_07_02:
  "utcoffset w = (\<lambda>u. 0) \<Longrightarrow> epoch_ms w date_2021_07_02 = Inr 1625184000000"
  by (simp add: epoch_ms_def timestamp_of_2021_07_02 number_eval)

lemma epoch_s_2021_07_01:
  "utcoffset w = (\<lambda>u. 0) \<Longrightarrow> epoch_s w date_2021_07_01 = Inr 1625097600"
  by (simp add: epoch_s_def timestamp_of_2021_07_01)

lemma epoch_s_2021_07_02:
  "utcoffset w = (\<lambda>u. 0) \<Longrightarrow> epoch_s w date_2021_07_02 = Inr 1625184000"
  by (simp add: epoch_s_def timestamp_of_2021_07_02)

lemma fromtimestamp_parts_2021_07_01:
  "utcoffset w = (\<lambda>u. 0) \<Longrightarrow> fromtimestamp_parts w 1625097600 0 = Inr date_2021_07_01"
  unfolding fromtimestamp_parts_def datetime_of_naive_def Let_def
  by (simp add: local_seconds_utc civil_from_days_18809 date_2021_07_01_def local_time_2021)

lemma fromtimestamp_whole: "fromtimestamp w (Finite (of_int n)) = fromtimestamp_parts w n 0"
  unfolding fromtimestamp.simps Let_def by (simp add: round_double_zero round_half_even_def)

declare fromtimestamp.simps(4) [simp del]

lemma fromtimestamp_2021_07_01:
  "utcoffset w = (\<lambda>u. 0) \<Longrightarrow> fromtimestamp w (Finite 1625097600) = Inr date_2021_07_01"
  using fromtimestamp_whole [of w 1625097600] by (simp add: fromtimestamp_parts_2021_07_01)

lemma kline_row_floats:
  "float_at kline_row (Suc 0) = Inr (Finite 35000)" "float_at kline_row 2 = Inr (Finite 36000)"
  "float_at kline_row 3 = Inr (Finite 34000)" "float_at kline_row 4 = Inr (Finite 35500)"
  "float_at kline_row 5 = Inr (Finite 100)" "float_at kline_row 7 = Inr (Finite 3500000)"
  by (simp_all add: kline_row_def float_at_def string_eval number_eval)

lemma kline_row_time:
  "bindE (getitem_idx kline_row 0) (\<lambda>x. truediv x 1000) = Inr (Finite 1625097600)"
  by (simp add: kline_row_def number_eval)

lemma binance_candle_kline_row:
  "binance_candle w symb tf kline_row =
     bindE (fromtimestamp w (Finite 1625097600)) (\<lambda>t.
       Inr (kline_candle\<lparr>timestamp := t, symbol := symb, timeframe := tf\<rparr>))"
proof -
  have "bindE (getitem_idx kline_row 0) (\<lambda>x. bindE (truediv x 1000) (fromtimestamp w))
          = bindE (bindE (getitem_idx kline_row 0) (\<lambda>x. truediv x 1000)) (fromtimestamp w)"
    by (cases "getitem_idx kline_row 0") simp_all
  then show ?thesis
    by (simp add: binance_candle_def build_candle_def kline_row_floats kline_row_time
        kline_candle_def)
qed

lemma binance_convert_symbol_BTC_BRL: "binance_convert_symbol ''BTC-BRL'' = ''BTCBRL''"
  by (simp add: binance_convert_symbol_def string_eval)

lemma binance_scenario_run:
  "binance_get_candles (utc_world (\<lambda>r. Inr (JList [kline_row]))) ''BTC-BRL'' ''1h''
       date_2021_07_01 date_2021_07_02
     = (Inr [kline_candle],
        (utc_world (\<lambda>r. Inr (JList [kline_row])))\<lparr>sent := [kline_request]\<rparr>)"
  by (simp add: binance_get_candles_def epoch_ms_2021_07_01 epoch_ms_2021_07_02
      binance_convert_symbol_BTC_BRL binance_convert_timeframe_def binance_make_request_def
      make_request_def binance_candle_kline_row fromtimestamp_2021_07_01 kline_request_def
      kline_candle_def)

lemma crypto_com_candle_row:
  "crypto_com_candle w symb tf crypto_com_row =
     bindE (fromtimestamp w (Finite 1625097600)) (\<lambda>t.
       Inr (crypto_com_candle_500\<lparr>timestamp := t, symbol := symb, timeframe := tf\<rparr>))"
  by (simp add: crypto_com_candle_def build_candle_def crypto_com_row_def float_key_def
      number_eval crypto_com_candle_500_def)

lemma crypto_com_scenario_run:
  "crypto_com_get_candles (utc_world (\<lambda>r. Inr crypto_com_payload)) ''BTC-BRL'' ''1h''
       date_2021_07_01 date_2021_07_02
     = (Inr [crypto_com_candle_500],
        (utc_world (\<lambda>r. Inr crypto_com_payload))\<lparr>sent := [crypto_com_request]\<rparr>)"
  by (simp add: crypto_com_get_candles_def crypto_com_convert_timeframe_def
      lookup_timeframe_def crypto_com_supported_timeframes_def crypto_com_convert_symbol_def
      string_eval epoch_ms_2021_07_01 epoch_ms_2021_07_02 crypto_com_make_request_def
      make_request_def crypto_com_payload_def crypto_com_candle_row fromtimestamp_2021_07_01
      crypto_com_request_def crypto_com_candle_500_def)

section \<open>The log of requests does not influence the clock\<close>

lemma local_seconds_sent [simp]: "local_seconds (w\<lparr>sent := s\<rparr>) = local_seconds w"
  by (rule ext) (simp add: local_seconds_def)

lemma local_time_sent [simp]: "local_time (w\<lparr>sent := s\<rparr>) = local_time w"
  by (rule ext) (simp add: local_time_def)

lemma fromtimestamp_parts_sent [simp]:
  "fromtimestamp_parts (w\<lparr>sent := s\<rparr>) = fromtimestamp_parts w"
  unfolding fromtimestamp_parts_def by (rule ext)+ (simp only: local_seconds_sent local_time_sent)

lemma fromtimestamp_sent [simp]: "fromtimestamp (w\<lparr>sent := s\<rparr>) f = fromtimestamp w f"
  by (cases f) (simp_all add: fromtimestamp.simps(4) Let_def)

lemma fromtimestamp_int_sent [simp]: "fromtimestamp_int (w\<lparr>sent := s\<rparr>) = fromtimestamp_int w"
  by (rule ext) (simp add: fromtimestamp_int_def)

section \<open>The ends of the calendar\<close>

text \<open>
  Both conversions look one day back to settle the \<^verbatim>\<open>fold\<close>, so neither works on the first
  day of year 1, where the day before has no year: in UTC, \<^verbatim>\<open>datetime.min.timestamp()\<close> and
  \<^verbatim>\<open>datetime.fromtimestamp(-62135596800)\<close> raise ValueError, and an adapter given such a date
  raises its own error before any request.
\<close>

lemma naive_seconds_datetime_min: "naive_seconds datetime_min = - 62135596800"
  unfolding naive_seconds_def days_from_civil_def datetime_min_def Let_def by simp

lemma mktime_datetime_min: "mktime (utc_world h) datetime_min = Inl ValueError"
  unfolding mktime_def naive_seconds_datetime_min local_time_def year_of_seconds_def
    civil_from_days_def local_seconds_def Let_def
  by simp

lemma timestamp_of_datetime_min: "timestamp_of (utc_world h) datetime_min = Inl ValueError"
  by (simp add: timestamp_of_def mktime_datetime_min)

lemma epoch_datetime_min:
  "epoch_ms (utc_world h) datetime_min = Inl ValueError"
  "epoch_s (utc_world h) datetime_min = Inl ValueError"
  by (simp_all add: epoch_ms_def epoch_s_def timestamp_of_datetime_min)

lemma fromtimestamp_int_datetime_min:
  "fromtimestamp_int (utc_world h) (- 62135596800) = Inl ValueError"
  unfolding fromtimestamp_int_def fromtimestamp_parts_def datetime_of_naive_def local_time_def
    year_of_seconds_def civil_from_days_def local_seconds_def Let_def
  by simp

lemma binance_get_candles_datetime_min:
  "binance_get_candles (utc_world h) symb tf datetime_min ed
     = (Inl (APIError Binance), utc_world h)"
  by (simp add: binance_get_candles_def epoch_datetime_min)

section \<open>Claims about the candles an adapter returns\<close>

text \<open>
  Claim C1. For every adapter and every request (symbol, timeframe, start date, end date),
  every candle in the list that \<open>get_candles\<close> returns has its \<open>symbol\<close> field equal to the
  request's symbol, its \<open>exchange\<close> field equal to the adapter's fixed lowercase identifier
  and its \<open>timeframe\<close> field equal to the request's timeframe, whatever the payload holds.
\<close>

theorem get_candles_echoes_request:
  assumes "get_candles x w symb tf start_date end_date = (Inr cs, w')" and "c \<in> set cs"
  shows "symbol c = symb \<and> exchange c = exchange_name x \<and> timeframe c = tf"
proof (cases x)
  case Binance
  with assms show ?thesis by (simp add: binance_get_candles_fields)
next
  case Bitget
  with assms show ?thesis by (simp add: bitget_get_candles_fields)
next
  case Bybit
  with assms show ?thesis by (simp add: bybit_get_candles_fields)
next
  case CryptoCom
  with assms show ?thesis by (simp add: crypto_com_get_candles_fields)
next
  case Foxbit
  with assms show ?thesis by (simp add: foxbit_get_candles_fields)
next
  case MercadoBitcoin
  with assms show ?thesis by (simp add: mercado_bitcoin_get_candles_fields)
next
  case MEXC
  with assms show ?thesis by (simp add: mexc_get_candles_fields)
next
  case Novadax
  with assms show ?thesis by (simp add: novadax_get_candles_fields)
next
  case OKX
  with assms show ?thesis by (simp add: okx_get_candles_fields)
qed

theorem get_candles_echoes_request_witness:
  "get_candles Binance (utc_world (\<lambda>r. Inr (JList [kline_row]))) ''BTC-BRL'' ''1h''
       date_2021_07_01 date_2021_07_02
     = (Inr [kline_candle],
        (utc_world (\<lambda>r. Inr (JList [kline_row])))\<lparr>sent := [kline_request]\<rparr>)
   \<and> kline_candle \<in> set [kline_candle]
   \<and> symbol kline_candle = ''BTC-BRL'' \<and> exchange kline_candle = exchange_name Binance
   \<and> timeframe kline_candle = ''1h''"
proof -
  have run: "get_candles Binance (utc_world (\<lambda>r. Inr (JList [kline_row]))) ''BTC-BRL'' ''1h''
       date_2021_07_01 date_2021_07_02
     = (Inr [kline_candle],
        (utc_world (\<lambda>r. Inr (JList [kline_row])))\<lparr>sent := [kline_request]\<rparr>)"
    by (simp add: binance_scenario_run)
  have mem: "kline_candle \<in> set [kline_candle]"
    by simp
  from get_candles_echoes_request [OF run mem] run mem show ?thesis
    by blast
qed

text \<open>
  Claim C6. For the Binance adapter, the raw kline row \<open>kline_row\<close>, returned for the request
  with symbol \<open>BTC-BRL\<close> and timeframe \<open>1h\<close>, gives exactly one candle: its timestamp is the
  calendar instant for epoch milliseconds 1625097600000 (index 0 divided by 1000, in the
  local time zone), open 35000.0, high 36000.0, low 34000.0, close 35500.0, volume 100.0,
  quote volume 3500000.0 (index 7), symbol \<open>BTC-BRL\<close>, exchange \<open>binance\<close>,
  timeframe \<open>1h\<close>.
\<close>

theorem binance_kline_scenario:
  assumes "epoch_ms w start_date = Inr start_ms" and "epoch_ms w end_date = Inr end_ms"
    and "http w \<lparr>http_method = ''GET'', url = ''https://api.binance.com/api/v3/klines'',
                 params = [(''symbol'', JStr ''BTCBRL''), (''interval'', JStr ''1h''),
                           (''startTime'', JInt start_ms), (''endTime'', JInt end_ms)]\<rparr>
           = Inr (JList [kline_row])"
    and "bindE (bindE (getitem_idx kline_row 0) (\<lambda>x. truediv x 1000)) (fromtimestamp w) = Inr t"
  shows "fst (binance_get_candles w ''BTC-BRL'' ''1h'' start_date end_date)
           = Inr [\<lparr>timestamp = t, open_price = Finite 35000, high = Finite 36000,
                   low = Finite 34000, close = Finite 35500, volume = Finite 100,
                   symbol = ''BTC-BRL'', exchange = ''binance'', timeframe = ''1h'',
                   quote_volume = Some (Finite 3500000)\<rparr>]"
proof -
  from assms(4) have "fromtimestamp w (Finite 1625097600) = Inr t"
    by (simp add: kline_row_time)
  with assms(1-3) show ?thesis
    by (simp add: binance_get_candles_def binance_convert_symbol_BTC_BRL
        binance_convert_timeframe_def binance_make_request_def make_request_def
        binance_candle_kline_row kline_candle_def)
qed

theorem binance_kline_scenario_witness:
  "epoch_ms (utc_world (\<lambda>r. Inr (JList [kline_row]))) date_2021_07_01 = Inr 1625097600000
   \<and> epoch_ms (utc_world (\<lambda>r. Inr (JList [kline_row]))) date_2021_07_02 = Inr 1625184000000
   \<and> bindE (bindE (getitem_idx kline_row 0) (\<lambda>x. truediv x 1000))
        (fromtimestamp (utc_world (\<lambda>r. Inr (JList [kline_row])))) = Inr date_2021_07_01
   \<and> isoformat date_2021_07_01 = ''2021-07-01T00:00:00''
   \<and> fst (binance_get_candles (utc_world (\<lambda>r. Inr (JList [kline_row]))) ''BTC-BRL'' ''1h''
            date_2021_07_01 date_2021_07_02)
        = Inr [\<lparr>timestamp = date_2021_07_01, open_price = Finite 35000, high = Finite 36000,
                low = Finite 34000, close = Finite 35500, volume = Finite 100,
                symbol = ''BTC-BRL'', exchange = ''binance'', timeframe = ''1h'',
                quote_volume = Some (Finite 3500000)\<rparr>]"
proof -
  let ?w = "utc_world (\<lambda>r. Inr (JList [kline_row]))"
  have s: "epoch_ms ?w date_2021_07_01 = Inr 1625097600000"
    by (simp add: epoch_ms_2021_07_01)
  have e: "epoch_ms ?w date_2021_07_02 = Inr 1625184000000"
    by (simp add: epoch_ms_2021_07_02)
  have h: "http ?w \<lparr>http_method = ''GET'', url = ''https://api.binance.com/api/v3/klines'',
                 params = [(''symbol'', JStr ''BTCBRL''), (''interval'', JStr ''1h''),
                           (''startTime'', JInt 1625097600000),
                           (''endTime'', JInt 1625184000000)]\<rparr>
           = Inr (JList [kline_row])"
    by simp
  have t: "bindE (bindE (getitem_idx kline_row 0) (\<lambda>x. truediv x 1000)) (fromtimestamp ?w)
             = Inr date_2021_07_01"
    by (simp add: kline_row_time fromtimestamp_2021_07_01)
  have iso: "isoformat date_2021_07_01 = ''2021-07-01T00:00:00''"
    by (simp add: isoformat_def zpad_def digit_char_def date_2021_07_01_def)
  from binance_kline_scenario [OF s e h t] s e t iso show ?thesis
    by blast
qed

text \<open>
  Claim C7. For the Crypto.com adapter, the quote volume of every candle produced is the
  product of the payload row's volume field \<open>v\<close> and close field \<open>c\<close> (it is computed, not
  read from the exchange); in particular a row with volume 10.0 and close 50.0 gives a
  candle whose quote volume is exactly 500.0.
\<close>

theorem crypto_com_quote_volume_is_product:
  assumes "crypto_com_get_candles w symb tf start_date end_date = (Inr cs, w')"
  shows "\<exists>ps payload res data rows.
           http w \<lparr>http_method = ''GET'',
                   url = ''https://api.crypto.com/v2/public/get-candlestick'',
                   params = ps\<rparr> = Inr payload
           \<and> getitem_key payload ''result'' = Inr res \<and> getitem_key res ''data'' = Inr data
           \<and> iter_items data = Inr rows \<and> length rows = length cs
           \<and> (\<forall>i<length cs.
                 float_key (rows ! i) ''v'' = Inr (volume (cs ! i))
                 \<and> float_key (rows ! i) ''c'' = Inr (close (cs ! i))
                 \<and> quote_volume (cs ! i) = Some (fmul (volume (cs ! i)) (close (cs ! i)))
                 \<and> (volume (cs ! i) = Finite 10 \<and> close (cs ! i) = Finite 50
                      \<longrightarrow> quote_volume (cs ! i) = Some (Finite 500)))"
proof -
  from assms obtain ps payload res data rows
    where req: "crypto_com_make_request w ''GET'' ''public/get-candlestick'' ps
                  = (Inr payload, w')"
      and res: "getitem_key payload ''result'' = Inr res"
      and data: "getitem_key res ''data'' = Inr data"
      and rows: "iter_items data = Inr rows"
      and loop: "mapE (crypto_com_candle w' symb tf) rows = Inr cs"
    unfolding crypto_com_get_candles_def
    by (auto simp: Let_def except_Exception_Inr_iff bindE_Inr_iff split: sum.splits prod.splits)
  from req have http: "http w \<lparr>http_method = ''GET'',
                   url = ''https://api.crypto.com/v2/public/get-candlestick'',
                   params = ps\<rparr> = Inr payload"
    unfolding crypto_com_make_request_def using make_request_result by fastforce
  from loop have all2: "list_all2 (\<lambda>row c. crypto_com_candle w' symb tf row = Inr c) rows cs"
    by (rule mapE_Inr_all2)
  then have len: "length rows = length cs"
    by (rule list_all2_lengthD)
  have each: "float_key (rows ! i) ''v'' = Inr (volume (cs ! i))
                 \<and> float_key (rows ! i) ''c'' = Inr (close (cs ! i))
                 \<and> quote_volume (cs ! i) = Some (fmul (volume (cs ! i)) (close (cs ! i)))
                 \<and> (volume (cs ! i) = Finite 10 \<and> close (cs ! i) = Finite 50
                      \<longrightarrow> quote_volume (cs ! i) = Some (Finite 500))"
    if "i < length cs" for i
  proof -
    from all2 that have "crypto_com_candle w' symb tf (rows ! i) = Inr (cs ! i)"
      by (simp add: list_all2_conv_all_nth)
    from build_candle_Inr [OF this [unfolded crypto_com_candle_def]]
    have v: "float_key (rows ! i) ''v'' = Inr (volume (cs ! i))"
      and c: "float_key (rows ! i) ''c'' = Inr (close (cs ! i))"
      and q: "\<exists>q. bindE (float_key (rows ! i) ''v'') (\<lambda>v.
                   bindE (float_key (rows ! i) ''c'') (\<lambda>c. Inr (fmul v c))) = Inr q
                 \<and> quote_volume (cs ! i) = Some q"
      by blast+
    from q have qv: "quote_volume (cs ! i) = Some (fmul (volume (cs ! i)) (close (cs ! i)))"
      by (auto simp: v c)
    have "fmul (Finite 10) (Finite 50) = Finite 500"
      by (simp add: round_double_numeral)
    with v c qv show ?thesis
      by simp
  qed
  from http res data rows len each show ?thesis
    by blast
qed

theorem crypto_com_quote_volume_is_product_witness:
  "crypto_com_get_candles (utc_world (\<lambda>r. Inr crypto_com_payload)) ''BTC-BRL'' ''1h''
       date_2021_07_01 date_2021_07_02
     = (Inr [crypto_com_candle_500],
        (utc_world (\<lambda>r. Inr crypto_com_payload))\<lparr>sent := [crypto_com_request]\<rparr>)
   \<and> volume crypto_com_candle_500 = Finite 10 \<and> close crypto_com_candle_500 = Finite 50
   \<and> quote_volume ([crypto_com_candle_500] ! 0) = Some (Finite 500)"
proof -
  have run: "crypto_com_get_candles (utc_world (\<lambda>r. Inr crypto_com_payload)) ''BTC-BRL'' ''1h''
       date_2021_07_01 date_2021_07_02
     = (Inr [crypto_com_candle_500],
        (utc_world (\<lambda>r. Inr crypto_com_payload))\<lparr>sent := [crypto_com_request]\<rparr>)"
    by (rule crypto_com_scenario_run)
  have vc: "volume crypto_com_candle_500 = Finite 10" "close crypto_com_candle_500 = Finite 50"
    by (simp_all add: crypto_com_candle_500_def)
  from crypto_com_quote_volume_is_product [OF run]
  have "volume ([crypto_com_candle_500] ! 0) = Finite 10
          \<and> close ([crypto_com_candle_500] ! 0) = Finite 50
        \<longrightarrow> quote_volume ([crypto_com_candle_500] ! 0) = Some (Finite 500)"
    by auto
  with vc have "quote_volume ([crypto_com_candle_500] ! 0) = Some (Finite 500)"
    by simp
  with run vc show ?thesis
    by blast
qed

section \<open>Serialising a candle\<close>

declare dec_digits.simps [simp del]














section \<open>Symbol translation\<close>

lemma replace_single:
  "replace s [a] new = concat (map (\<lambda>c. if c = a then new else [c]) s)"
  unfolding replace_def by (induction s) (simp_all add: startswith_def)

lemma replace_hyphen_empty: "replace s ''-'' [] = strip_hyphen s"
  unfolding replace_single strip_hyphen_def by (induction s) simp_all

lemma replace_hyphen_underscore: "replace s ''-'' ''_'' = hyphen_to_underscore s"
  unfolding replace_single hyphen_to_underscore_def by (induction s) simp_all

lemma char_upper_not_hyphen: "c \<noteq> CHR ''-'' \<Longrightarrow> char_upper c \<noteq> CHR ''-''"
proof -
  assume c: "c \<noteq> CHR ''-''"
  show ?thesis
  proof (cases "CHR ''a'' \<le> c \<and> c \<le> CHR ''z''")
    case True
    then have "(97::nat) \<le> of_char c" "of_char c \<le> (122::nat)"
      by (simp_all add: less_eq_char_def)
    then have "of_char c - 97 < (26::nat)"
      by linarith
    then have "''ABCDEFGHIJKLMNOPQRSTUVWXYZ'' ! (of_char c - 97) \<in> set ''ABCDEFGHIJKLMNOPQRSTUVWXYZ''"
      by (intro nth_mem) simp
    then have "''ABCDEFGHIJKLMNOPQRSTUVWXYZ'' ! (of_char c - 97) \<noteq> CHR ''-''"
      by auto
    moreover have "char_upper c = ''ABCDEFGHIJKLMNOPQRSTUVWXYZ'' ! (of_char c - 97)"
      unfolding char_upper_def using True by (rule if_P)
    ultimately show ?thesis
      by metis
  next
    case False
    have "char_upper c = c"
      unfolding char_upper_def using False by (rule if_not_P)
    with c show ?thesis
      by metis
  qed
qed

lemma char_lower_not_hyphen: "c \<noteq> CHR ''-'' \<Longrightarrow> char_lower c \<noteq> CHR ''-''"
proof -
  assume c: "c \<noteq> CHR ''-''"
  show ?thesis
  proof (cases "CHR ''A'' \<le> c \<and> c \<le> CHR ''Z''")
    case True
    then have "(65::nat) \<le> of_char c" "of_char c \<le> (90::nat)"
      by (simp_all add: less_eq_char_def)
    then have "of_char c - 65 < (26::nat)"
      by linarith
    then have "''abcdefghijklmnopqrstuvwxyz'' ! (of_char c - 65) \<in> set ''abcdefghijklmnopqrstuvwxyz''"
      by (intro nth_mem) simp
    then have "''abcdefghijklmnopqrstuvwxyz'' ! (of_char c - 65) \<noteq> CHR ''-''"
      by auto
    moreover have "char_lower c = ''abcdefghijklmnopqrstuvwxyz'' ! (of_char c - 65)"
      unfolding char_lower_def using True by (rule if_P)
    ultimately show ?thesis
      by metis
  next
    case False
    have "char_lower c = c"
      unfolding char_lower_def using False by (rule if_not_P)
    with c show ?thesis
      by metis
  qed
qed

lemma mapped_filter_avoids:
  assumes "\<And>c. c \<noteq> x \<Longrightarrow> f c \<noteq> x"
  shows "x \<notin> set (map f (filter (\<lambda>c. c \<noteq> x) s))"
  using assms by (induction s) auto

lemma no_hyphen_after_upper: "CHR ''-'' \<notin> set (upper (strip_hyphen s))"
  unfolding upper_def strip_hyphen_def by (rule mapped_filter_avoids) (rule char_upper_not_hyphen)

lemma no_hyphen_after_lower: "CHR ''-'' \<notin> set (lower (strip_hyphen s))"
  unfolding lower_def strip_hyphen_def by (rule mapped_filter_avoids) (rule char_lower_not_hyphen)

lemma small_letter:
  assumes "CHR ''a'' \<le> c" "c \<le> CHR ''z''"
  shows "c \<in> set ''abcdefghijklmnopqrstuvwxyz''"
proof -
  from assms have "(97::nat) \<le> of_char c" "of_char c \<le> (122::nat)"
    by (simp_all add: less_eq_char_def)
  then have "of_char c \<in> (of_char :: char \<Rightarrow> nat) ` set ''abcdefghijklmnopqrstuvwxyz''"
    by simp arith
  then show ?thesis
    by (auto dest: of_char_eqI simp del: set_simps)
qed

lemma capital_letter:
  assumes "CHR ''A'' \<le> c" "c \<le> CHR ''Z''"
  shows "c \<in> set ''ABCDEFGHIJKLMNOPQRSTUVWXYZ''"
proof -
  from assms have "(65::nat) \<le> of_char c" "of_char c \<le> (90::nat)"
    by (simp_all add: less_eq_char_def)
  then have "of_char c \<in> (of_char :: char \<Rightarrow> nat) ` set ''ABCDEFGHIJKLMNOPQRSTUVWXYZ''"
    by simp arith
  then show ?thesis
    by (auto dest: of_char_eqI simp del: set_simps)
qed

lemma char_upper_table:
  "char_upper c = (case map_of letters c of Some u \<Rightarrow> u | None \<Rightarrow> c)"
proof (cases "c \<in> set ''abcdefghijklmnopqrstuvwxyz''")
  case True
  then show ?thesis
    by (auto simp: char_upper_def letters_def)
next
  case False
  with small_letter have "\<not> (CHR ''a'' \<le> c \<and> c \<le> CHR ''z'')"
    by blast
  then have "char_upper c = c"
    unfolding char_upper_def by (rule if_not_P)
  moreover from False have "map_of letters c = None"
    by (simp add: letters_def)
  ultimately show ?thesis
    by simp
qed

lemma char_lower_table:
  "char_lower c = (case map_of (map prod.swap letters) c of Some l \<Rightarrow> l | None \<Rightarrow> c)"
proof (cases "c \<in> set ''ABCDEFGHIJKLMNOPQRSTUVWXYZ''")
  case True
  then show ?thesis
    by (auto simp: char_lower_def letters_def)
next
  case False
  with capital_letter have "\<not> (CHR ''A'' \<le> c \<and> c \<le> CHR ''Z'')"
    by blast
  then have "char_lower c = c"
    unfolding char_lower_def by (rule if_not_P)
  moreover from False have "map_of (map prod.swap letters) c = None"
    by (simp add: letters_def)
  ultimately show ?thesis
    by simp
qed

lemma upper_is_to_upper_case: "upper s = to_upper_case s"
  unfolding upper_def to_upper_case_def by (simp add: char_upper_table)

lemma lower_is_to_lower_case: "lower s = to_lower_case s"
  unfolding lower_def to_lower_case_def by (simp add: char_lower_table)

lemma char_upper_not_small: "char_upper c \<notin> set ''abcdefghijklmnopqrstuvwxyz''"
proof (cases "c \<in> set ''abcdefghijklmnopqrstuvwxyz''")
  case True
  then show ?thesis
    by (auto simp: char_upper_def)
next
  case False
  with small_letter have "\<not> (CHR ''a'' \<le> c \<and> c \<le> CHR ''z'')"
    by blast
  then have "char_upper c = c"
    unfolding char_upper_def by (rule if_not_P)
  with False show ?thesis
    by metis
qed

lemma char_lower_not_capital: "char_lower c \<notin> set ''ABCDEFGHIJKLMNOPQRSTUVWXYZ''"
proof (cases "c \<in> set ''ABCDEFGHIJKLMNOPQRSTUVWXYZ''")
  case True
  then show ?thesis
    by (auto simp: char_lower_def)
next
  case False
  with capital_letter have "\<not> (CHR ''A'' \<le> c \<and> c \<le> CHR ''Z'')"
    by blast
  then have "char_lower c = c"
    unfolding char_lower_def by (rule if_not_P)
  with False show ?thesis
    by metis
qed

lemma no_small_letter_after_upper: "set (upper s) \<inter> set ''abcdefghijklmnopqrstuvwxyz'' = {}"
proof -
  have "c \<notin> set ''abcdefghijklmnopqrstuvwxyz''" if "c \<in> set (upper s)" for c
  proof -
    from that obtain d where "c = char_upper d"
      unfolding upper_def by auto
    with char_upper_not_small [of d] show ?thesis
      by metis
  qed
  then show ?thesis
    by blast
qed

lemma no_capital_letter_after_lower: "set (lower s) \<inter> set ''ABCDEFGHIJKLMNOPQRSTUVWXYZ'' = {}"
proof -
  have "c \<notin> set ''ABCDEFGHIJKLMNOPQRSTUVWXYZ''" if "c \<in> set (lower s)" for c
  proof -
    from that obtain d where "c = char_lower d"
      unfolding lower_def by auto
    with char_lower_not_capital [of d] show ?thesis
      by metis
  qed
  then show ?thesis
    by blast
qed

text \<open>
  Claim C9. Each adapter's symbol translation is a function of the input string alone and
  follows its strategy: Binance, Bitget, Bybit and MEXC strip the hyphen and upper-case;
  Foxbit strips the hyphen and lower-cases; Crypto.com and Novadax replace the hyphen by an
  underscore; OKX and Mercado Bitcoin pass the symbol through unchanged. (A HOL function
  gives the same token each time it is applied to the same string.) The strategies are the
  ones of the specification, written without the string operations of the adapters:
  \<open>strip_hyphen\<close> drops the hyphens, \<open>hyphen_to_underscore\<close> exchanges them, and
  \<open>to_upper_case\<close> and \<open>to_lower_case\<close> read each letter's other case from a table. So the
  tokens of the first group hold no hyphen and no small letter, Foxbit's no hyphen and no
  capital letter, and Crypto.com's token is as long as the symbol.
\<close>

theorem convert_symbol_strategies:
  "binance_convert_symbol s = to_upper_case (strip_hyphen s)
   \<and> bitget_convert_symbol s = to_upper_case (strip_hyphen s)
   \<and> bybit_convert_symbol s = to_upper_case (strip_hyphen s)
   \<and> mexc_convert_symbol s = to_upper_case (strip_hyphen s)
   \<and> foxbit_convert_symbol s = to_lower_case (strip_hyphen s)
   \<and> crypto_com_convert_symbol s = hyphen_to_underscore s
   \<and> novadax_convert_symbol s = hyphen_to_underscore s
   \<and> okx_convert_symbol s = s
   \<and> mercado_bitcoin_convert_symbol s = s
   \<and> CHR ''-'' \<notin> set (binance_convert_symbol s)
   \<and> CHR ''-'' \<notin> set (foxbit_convert_symbol s)
   \<and> CHR ''-'' \<notin> set (crypto_com_convert_symbol s)
   \<and> length (crypto_com_convert_symbol s) = length s
   \<and> set (binance_convert_symbol s) \<inter> set ''abcdefghijklmnopqrstuvwxyz'' = {}
   \<and> set (foxbit_convert_symbol s) \<inter> set ''ABCDEFGHIJKLMNOPQRSTUVWXYZ'' = {}"
proof -
  have u: "CHR ''-'' \<notin> set (hyphen_to_underscore s)"
    by (auto simp: hyphen_to_underscore_def)
  have l: "length (hyphen_to_underscore s) = length s"
    by (simp add: hyphen_to_underscore_def)
  have b: "binance_convert_symbol s = upper (strip_hyphen s)"
    by (simp add: binance_convert_symbol_def replace_hyphen_empty)
  have g: "bitget_convert_symbol s = upper (strip_hyphen s)"
    by (simp add: bitget_convert_symbol_def replace_hyphen_empty)
  have y: "bybit_convert_symbol s = upper (strip_hyphen s)"
    by (simp add: bybit_convert_symbol_def replace_hyphen_empty)
  have m: "mexc_convert_symbol s = upper (strip_hyphen s)"
    by (simp add: mexc_convert_symbol_def replace_hyphen_empty)
  have f: "foxbit_convert_symbol s = lower (strip_hyphen s)"
    by (simp add: foxbit_convert_symbol_def replace_hyphen_empty)
  have c: "crypto_com_convert_symbol s = hyphen_to_underscore s"
    by (simp add: crypto_com_convert_symbol_def replace_hyphen_underscore)
  have n: "novadax_convert_symbol s = hyphen_to_underscore s"
    by (simp add: novadax_convert_symbol_def replace_hyphen_underscore)
  have o: "okx_convert_symbol s = s" "mercado_bitcoin_convert_symbol s = s"
    by (simp_all add: okx_convert_symbol_def mercado_bitcoin_convert_symbol_def)
  note case_table = upper_is_to_upper_case [of "strip_hyphen s", symmetric]
    lower_is_to_lower_case [of "strip_hyphen s", symmetric]
  from b g y m f c n o u l no_hyphen_after_upper [of s] no_hyphen_after_lower [of s]
    no_small_letter_after_upper [of "strip_hyphen s"]
    no_capital_letter_after_lower [of "strip_hyphen s"]
  show ?thesis
    by (simp only: simp_thms case_table)
qed

theorem convert_symbol_strategies_witness:
  "binance_convert_symbol ''btc-brl'' = ''BTCBRL''
   \<and> bitget_convert_symbol ''btc-brl'' = ''BTCBRL''
   \<and> bybit_convert_symbol ''btc-brl'' = ''BTCBRL''
   \<and> mexc_convert_symbol ''btc-brl'' = ''BTCBRL''
   \<and> foxbit_convert_symbol ''BTC-BRL'' = ''btcbrl''
   \<and> crypto_com_convert_symbol ''BTC-BRL'' = ''BTC_BRL''
   \<and> novadax_convert_symbol ''BTC-BRL'' = ''BTC_BRL''
   \<and> okx_convert_symbol ''BTC-BRL'' = ''BTC-BRL''
   \<and> mercado_bitcoin_convert_symbol ''BTC-BRL'' = ''BTC-BRL''"
proof -
  have up: "to_upper_case (strip_hyphen ''btc-brl'') = ''BTCBRL''"
    by (simp add: to_upper_case_def strip_hyphen_def letters_def)
  have low: "to_lower_case (strip_hyphen ''BTC-BRL'') = ''btcbrl''"
    by (simp add: to_lower_case_def strip_hyphen_def letters_def)
  have und: "hyphen_to_underscore ''BTC-BRL'' = ''BTC_BRL''"
    by (simp add: hyphen_to_underscore_def)
  from convert_symbol_strategies [of "''btc-brl''"] convert_symbol_strategies [of "''BTC-BRL''"]
  show ?thesis
    by (simp only: up low und simp_thms)
qed

lemma convert_symbol_examples:
  "binance_convert_symbol ''btc-brl'' = ''BTCBRL''"
  "foxbit_convert_symbol ''BTC-BRL'' = ''btcbrl''"
  "crypto_com_convert_symbol ''BTC-BRL'' = ''BTC_BRL''"
  by (simp_all add: binance_convert_symbol_def foxbit_convert_symbol_def
      crypto_com_convert_symbol_def string_eval)

section \<open>The inherited validations\<close>

lemma make_request_snd:
  "snd (make_request x base w meth endpoint ps)
     = w\<lparr>sent := sent w @ [\<lparr>http_method = meth, url = base @ endpoint, params = ps\<rparr>]\<rparr>"
  by (simp add: make_request_def Let_def)

lemma get_supported_pairs_sends_one:
  "\<exists>req. snd (get_supported_pairs x w) = w\<lparr>sent := sent w @ [req]\<rparr>"
proof (cases x)
  case Binance
  then show ?thesis
    by (simp add: binance_get_supported_pairs_def binance_make_request_def split_def
        make_request_snd) (rule exI, rule refl)
next
  case Bitget
  then show ?thesis
    by (simp add: bitget_get_supported_pairs_def bitget_make_request_def split_def
        make_request_snd) (rule exI, rule refl)
next
  case Bybit
  then show ?thesis
    by (simp add: bybit_get_supported_pairs_def bybit_make_request_def split_def
        make_request_snd) (rule exI, rule refl)
next
  case CryptoCom
  then show ?thesis
    by (simp add: crypto_com_get_supported_pairs_def crypto_com_make_request_def split_def
        make_request_snd) (rule exI, rule refl)
next
  case Foxbit
  then show ?thesis
    by (simp add: foxbit_get_supported_pairs_def foxbit_make_request_def split_def
        make_request_snd) (rule exI, rule refl)
next
  case MercadoBitcoin
  then show ?thesis
    by (simp add: mercado_bitcoin_get_supported_pairs_def mercado_bitcoin_make_request_def
        split_def make_request_snd) (rule exI, rule refl)
next
  case MEXC
  then show ?thesis
    by (simp add: mexc_get_supported_pairs_def mexc_make_request_def split_def
        make_request_snd) (rule exI, rule refl)
next
  case Novadax
  then show ?thesis
    by (simp add: novadax_get_supported_pairs_def novadax_make_request_def split_def
        make_request_snd) (rule exI, rule refl)
next
  case OKX
  then show ?thesis
    by (simp add: okx_get_supported_pairs_def okx_make_request_def split_def
        make_request_snd) (rule exI, rule refl)
qed

text \<open>
  Claim C5. For every adapter, \<open>validate_symbol s\<close> is true exactly when \<open>s\<close> is a member of
  the list that \<open>get_supported_pairs\<close> returns, and that network-backed operation is invoked
  again on every call (each call issues one more request, and fails when the operation
  fails); \<open>validate_timeframe t\<close> is true exactly when \<open>t\<close> is a member of the list that
  \<open>get_supported_timeframes\<close> returns, a local lookup. The two defaults are the base
  contract's, the same for the nine adapters.
\<close>

theorem validate_defaults:
  "fst (validate_symbol x w symb)
     = map_sum id (\<lambda>pairs. JStr symb \<in> set pairs) (fst (get_supported_pairs x w))
   \<and> snd (validate_symbol x w symb) = snd (get_supported_pairs x w)
   \<and> length (sent (snd (validate_symbol x w symb))) = Suc (length (sent w))
   \<and> validate_timeframe x tf = (tf \<in> set (get_supported_timeframes x))"
proof -
  have r: "fst (validate_symbol x w symb)
     = map_sum id (\<lambda>pairs. JStr symb \<in> set pairs) (fst (get_supported_pairs x w))"
    by (cases "fst (get_supported_pairs x w)")
       (simp_all add: validate_symbol_def split_def Let_def)
  have s: "snd (validate_symbol x w symb) = snd (get_supported_pairs x w)"
    by (simp add: validate_symbol_def split_def Let_def)
  from get_supported_pairs_sends_one [of x w] obtain req
    where "snd (get_supported_pairs x w) = w\<lparr>sent := sent w @ [req]\<rparr>"
    by blast
  with s have n: "length (sent (snd (validate_symbol x w symb))) = Suc (length (sent w))"
    by simp
  have t: "validate_timeframe x tf = (tf \<in> set (get_supported_timeframes x))"
    by (simp add: validate_timeframe_def)
  from r s n t show ?thesis
    by blast
qed

section \<open>Unsupported timeframes\<close>

lemma lookup_timeframe_unknown:
  "tf \<notin> set (map fst table) \<Longrightarrow> lookup_timeframe table tf = Inl ValueError"
proof -
  assume "tf \<notin> set (map fst table)"
  then have "map_of table tf = None"
    by (simp add: map_of_eq_None_iff)
  then show ?thesis
    by (simp add: lookup_timeframe_def)
qed

lemma bitget_rejects_unknown_timeframe:
  "tf \<notin> set bitget_get_supported_timeframes \<Longrightarrow>
     bitget_get_candles w symb tf sd ed = (Inl (APIError Bitget), w)"
  by (simp add: bitget_get_candles_def bitget_convert_timeframe_def
      bitget_get_supported_timeframes_def lookup_timeframe_unknown)

lemma bybit_rejects_unknown_timeframe:
  "tf \<notin> set bybit_get_supported_timeframes \<Longrightarrow>
     bybit_get_candles w symb tf sd ed = (Inl (APIError Bybit), w)"
  by (simp add: bybit_get_candles_def bybit_convert_timeframe_def
      bybit_get_supported_timeframes_def lookup_timeframe_unknown)

lemma crypto_com_rejects_unknown_timeframe:
  "tf \<notin> set crypto_com_get_supported_timeframes \<Longrightarrow>
     crypto_com_get_candles w symb tf sd ed = (Inl (APIError CryptoCom), w)"
  by (simp add: crypto_com_get_candles_def crypto_com_convert_timeframe_def
      crypto_com_get_supported_timeframes_def lookup_timeframe_unknown)

lemma mexc_rejects_unknown_timeframe:
  "tf \<notin> set mexc_get_supported_timeframes \<Longrightarrow>
     mexc_get_candles w symb tf sd ed = (Inl (APIError MEXC), w)"
  by (simp add: mexc_get_candles_def mexc_convert_timeframe_def
      mexc_get_supported_timeframes_def lookup_timeframe_unknown)

lemma novadax_rejects_unknown_timeframe:
  "tf \<notin> set novadax_get_supported_timeframes \<Longrightarrow>
     novadax_get_candles w symb tf sd ed = (Inl (APIError Novadax), w)"
  by (simp add: novadax_get_candles_def novadax_convert_timeframe_def
      novadax_get_supported_timeframes_def lookup_timeframe_unknown)

lemma okx_rejects_unknown_timeframe:
  "tf \<notin> set okx_get_supported_timeframes \<Longrightarrow>
     okx_get_candles w symb tf sd ed = (Inl (APIError OKX), w)"
  by (simp add: okx_get_candles_def okx_convert_timeframe_def
      okx_get_supported_timeframes_def lookup_timeframe_unknown)

lemma binance_sends_timeframe:
  assumes "epoch_ms w sd = Inr s" and "epoch_ms w ed = Inr e"
  shows "sent (snd (binance_get_candles w symb tf sd ed))
           = sent w @ [\<lparr>http_method = ''GET'', url = ''https://api.binance.com/api/v3/klines'',
                         params = [(''symbol'', JStr (binance_convert_symbol symb)),
                                   (''interval'', JStr tf),
                                   (''startTime'', JInt s), (''endTime'', JInt e)]\<rparr>]"
  using assms
  by (simp add: binance_get_candles_def binance_convert_timeframe_def binance_make_request_def
      split_def make_request_snd)

lemma foxbit_sends_timeframe:
  assumes "epoch_ms w sd = Inr s" and "epoch_ms w ed = Inr e"
  shows "sent (snd (foxbit_get_candles w symb tf sd ed))
           = sent w @ [\<lparr>http_method = ''GET'',
                         url = ''https://api.foxbit.com.br/rest/v3/markets/''
                                 @ foxbit_convert_symbol symb @ ''/candlesticks'',
                         params = [(''interval'', JStr tf), (''start_time'', JInt s),
                                   (''end_time'', JInt e), (''limit'', JInt 500)]\<rparr>]"
  using assms
  by (simp add: foxbit_get_candles_def foxbit_convert_timeframe_def foxbit_make_request_def
      split_def make_request_snd)

lemma mercado_bitcoin_sends_timeframe:
  assumes "epoch_s w sd = Inr s" and "epoch_s w ed = Inr e"
  shows "sent (snd (mercado_bitcoin_get_candles w symb tf sd ed))
           = sent w @ [\<lparr>http_method = ''GET'',
                         url = ''https://api.mercadobitcoin.net/api/v4/candles'',
                         params = [(''from'', JInt s), (''to'', JInt e),
                                   (''resolution'', JStr tf), (''symbol'', JStr symb)]\<rparr>]"
  using assms
  by (simp add: mercado_bitcoin_get_candles_def mercado_bitcoin_convert_timeframe_def
      mercado_bitcoin_convert_symbol_def mercado_bitcoin_make_request_def split_def
      make_request_snd)

text \<open>
  Claim C3. For the adapters that look the timeframe up in their translation table (Bitget,
  Bybit, Crypto.com, MEXC, Novadax, OKX), \<open>get_candles\<close> with a timeframe that is not in the
  table raises the adapter's error before any HTTP request is issued (the world, and with it
  the log of requests, is unchanged). The adapters that pass the timeframe through
  (Binance, Foxbit, Mercado Bitcoin) reject no timeframe before the request: whenever the
  two dates convert, the request is issued and carries the timeframe string unchanged.
\<close>

theorem unsupported_timeframe_handling:
  "(x \<in> {Bitget, Bybit, CryptoCom, MEXC, Novadax, OKX} \<and> tf \<notin> set (get_supported_timeframes x)
      \<longrightarrow> get_candles x w symb tf start_date end_date = (Inl (APIError x), w))
   \<and> (epoch_ms w start_date = Inr s \<and> epoch_ms w end_date = Inr e
      \<longrightarrow> sent (snd (get_candles Binance w symb tf start_date end_date))
            = sent w @ [\<lparr>http_method = ''GET'', url = ''https://api.binance.com/api/v3/klines'',
                          params = [(''symbol'', JStr (binance_convert_symbol symb)),
                                    (''interval'', JStr tf),
                                    (''startTime'', JInt s), (''endTime'', JInt e)]\<rparr>]
        \<and> sent (snd (get_candles Foxbit w symb tf start_date end_date))
            = sent w @ [\<lparr>http_method = ''GET'',
                          url = ''https://api.foxbit.com.br/rest/v3/markets/''
                                  @ foxbit_convert_symbol symb @ ''/candlesticks'',
                          params = [(''interval'', JStr tf), (''start_time'', JInt s),
                                    (''end_time'', JInt e), (''limit'', JInt 500)]\<rparr>])
   \<and> (epoch_s w start_date = Inr s' \<and> epoch_s w end_date = Inr e'
      \<longrightarrow> sent (snd (get_candles MercadoBitcoin w symb tf start_date end_date))
            = sent w @ [\<lparr>http_method = ''GET'',
                          url = ''https://api.mercadobitcoin.net/api/v4/candles'',
                          params = [(''from'', JInt s'), (''to'', JInt e'),
                                    (''resolution'', JStr tf), (''symbol'', JStr symb)]\<rparr>])"
proof (intro conjI impI)
  assume "x \<in> {Bitget, Bybit, CryptoCom, MEXC, Novadax, OKX} \<and> tf \<notin> set (get_supported_timeframes x)"
  then show "get_candles x w symb tf start_date end_date = (Inl (APIError x), w)"
    by (cases x)
       (simp_all add: bitget_rejects_unknown_timeframe bybit_rejects_unknown_timeframe
          crypto_com_rejects_unknown_timeframe mexc_rejects_unknown_timeframe
          novadax_rejects_unknown_timeframe okx_rejects_unknown_timeframe)
next
  assume "epoch_ms w start_date = Inr s \<and> epoch_ms w end_date = Inr e"
  then show "sent (snd (get_candles Binance w symb tf start_date end_date))
            = sent w @ [\<lparr>http_method = ''GET'', url = ''https://api.binance.com/api/v3/klines'',
                          params = [(''symbol'', JStr (binance_convert_symbol symb)),
                                    (''interval'', JStr tf),
                                    (''startTime'', JInt s), (''endTime'', JInt e)]\<rparr>]"
    by (simp add: binance_sends_timeframe)
next
  assume "epoch_ms w start_date = Inr s \<and> epoch_ms w end_date = Inr e"
  then show "sent (snd (get_candles Foxbit w symb tf start_date end_date))
            = sent w @ [\<lparr>http_method = ''GET'',
                          url = ''https://api.foxbit.com.br/rest/v3/markets/''
                                  @ foxbit_convert_symbol symb @ ''/candlesticks'',
                          params = [(''interval'', JStr tf), (''start_time'', JInt s),
                                    (''end_time'', JInt e), (''limit'', JInt 500)]\<rparr>]"
    by (simp add: foxbit_sends_timeframe)
next
  assume "epoch_s w start_date = Inr s' \<and> epoch_s w end_date = Inr e'"
  then show "sent (snd (get_candles MercadoBitcoin w symb tf start_date end_date))
            = sent w @ [\<lparr>http_method = ''GET'',
                          url = ''https://api.mercadobitcoin.net/api/v4/candles'',
                          params = [(''from'', JInt s'), (''to'', JInt e'),
                                    (''resolution'', JStr tf), (''symbol'', JStr symb)]\<rparr>]"
    by (simp add: mercado_bitcoin_sends_timeframe)
qed

theorem unsupported_timeframe_handling_witness:
  "OKX \<in> {Bitget, Bybit, CryptoCom, MEXC, Novadax, OKX}
   \<and> ''2w'' \<notin> set (get_supported_timeframes OKX)
   \<and> get_candles OKX offline_world ''BTC-BRL'' ''2w'' date_2021_07_01 date_2021_07_02
       = (Inl (APIError OKX), offline_world)
   \<and> epoch_ms offline_world date_2021_07_01 = Inr 1625097600000
   \<and> epoch_ms offline_world date_2021_07_02 = Inr 1625184000000
   \<and> sent (snd (get_candles Binance offline_world ''BTC-BRL'' ''2w''
                  date_2021_07_01 date_2021_07_02))
       = sent offline_world
           @ [\<lparr>http_method = ''GET'', url = ''https://api.binance.com/api/v3/klines'',
                params = [(''symbol'', JStr (binance_convert_symbol ''BTC-BRL'')),
                          (''interval'', JStr ''2w''),
                          (''startTime'', JInt 1625097600000),
                          (''endTime'', JInt 1625184000000)]\<rparr>]
   \<and> epoch_s offline_world date_2021_07_01 = Inr 1625097600
   \<and> epoch_s offline_world date_2021_07_02 = Inr 1625184000
   \<and> sent (snd (get_candles MercadoBitcoin offline_world ''BTC-BRL'' ''2w''
                  date_2021_07_01 date_2021_07_02))
       = sent offline_world
           @ [\<lparr>http_method = ''GET'', url = ''https://api.mercadobitcoin.net/api/v4/candles'',
                params = [(''from'', JInt 1625097600), (''to'', JInt 1625184000),
                          (''resolution'', JStr ''2w''), (''symbol'', JStr ''BTC-BRL'')]\<rparr>]"
proof -
  have utc: "utcoffset offline_world = (\<lambda>u. 0)"
    by (simp add: offline_world_def)
  have a: "OKX \<in> {Bitget, Bybit, CryptoCom, MEXC, Novadax, OKX}
             \<and> ''2w'' \<notin> set (get_supported_timeframes OKX)"
    by (simp add: okx_get_supported_timeframes_def okx_supported_timeframes_def)
  have b: "epoch_ms offline_world date_2021_07_01 = Inr 1625097600000
             \<and> epoch_ms offline_world date_2021_07_02 = Inr 1625184000000"
    by (simp add: epoch_ms_2021_07_01 [OF utc] epoch_ms_2021_07_02 [OF utc])
  have c: "epoch_s offline_world date_2021_07_01 = Inr 1625097600
             \<and> epoch_s offline_world date_2021_07_02 = Inr 1625184000"
    by (simp add: epoch_s_2021_07_01 [OF utc] epoch_s_2021_07_02 [OF utc])
  note inst = unsupported_timeframe_handling
    [where x = OKX and tf = "''2w''" and w = offline_world and symb = "''BTC-BRL''"
       and start_date = date_2021_07_01 and end_date = date_2021_07_02
       and s = 1625097600000 and e = 1625184000000 and s' = 1625097600 and e' = 1625184000]
  from inst a b c show ?thesis
    by blast
qed

section \<open>Which exceptions leave an adapter\<close>

lemma except_Exception_Inl: "except_Exception x r = Inl e \<Longrightarrow> e = APIError x"
  by (cases r) (simp_all add: except_Exception_def)

lemma get_candles_raises_own_error:
  assumes "fst (get_candles x w symb tf sd ed) = Inl e"
  shows "e = APIError x"
proof (cases x)
  case Binance
  with assms show ?thesis
    by (auto simp: binance_get_candles_def split_def Let_def split: sum.splits
        dest: except_Exception_Inl)
next
  case Bitget
  with assms show ?thesis
    by (auto simp: bitget_get_candles_def split_def Let_def split: sum.splits
        dest: except_Exception_Inl)
next
  case Bybit
  with assms show ?thesis
    by (auto simp: bybit_get_candles_def split_def Let_def split: sum.splits
        dest: except_Exception_Inl)
next
  case CryptoCom
  with assms show ?thesis
    by (auto simp: crypto_com_get_candles_def split_def Let_def split: sum.splits
        dest: except_Exception_Inl)
next
  case Foxbit
  with assms show ?thesis
    by (auto simp: foxbit_get_candles_def split_def Let_def split: sum.splits
        dest: except_Exception_Inl)
next
  case MercadoBitcoin
  with assms show ?thesis
    by (auto simp: mercado_bitcoin_get_candles_def split_def Let_def split: sum.splits
        dest: except_Exception_Inl)
next
  case MEXC
  with assms show ?thesis
    by (auto simp: mexc_get_candles_def split_def Let_def split: sum.splits
        dest: except_Exception_Inl)
next
  case Novadax
  with assms show ?thesis
    by (auto simp: novadax_get_candles_def split_def Let_def split: sum.splits
        dest: except_Exception_Inl)
next
  case OKX
  with assms show ?thesis
    by (auto simp: okx_get_candles_def split_def Let_def split: sum.splits
        dest: except_Exception_Inl)
qed

lemma get_supported_pairs_raises_own_error:
  assumes "fst (get_supported_pairs x w) = Inl e" and "x \<noteq> Binance"
  shows "e = APIError x"
proof (cases x)
  case Binance
  with assms(2) show ?thesis by simp
next
  case Bitget
  with assms show ?thesis
    by (auto simp: bitget_get_supported_pairs_def split_def Let_def dest: except_Exception_Inl)
next
  case Bybit
  with assms show ?thesis
    by (auto simp: bybit_get_supported_pairs_def split_def Let_def dest: except_Exception_Inl)
next
  case CryptoCom
  with assms show ?thesis
    by (auto simp: crypto_com_get_supported_pairs_def split_def Let_def
        dest: except_Exception_Inl)
next
  case Foxbit
  with assms show ?thesis
    by (auto simp: foxbit_get_supported_pairs_def split_def Let_def dest: except_Exception_Inl)
next
  case MercadoBitcoin
  with assms show ?thesis
    by (auto simp: mercado_bitcoin_get_supported_pairs_def split_def Let_def
        dest: except_Exception_Inl)
next
  case MEXC
  with assms show ?thesis
    by (auto simp: mexc_get_supported_pairs_def split_def Let_def dest: except_Exception_Inl)
next
  case Novadax
  with assms show ?thesis
    by (auto simp: novadax_get_supported_pairs_def split_def Let_def dest: except_Exception_Inl)
next
  case OKX
  with assms show ?thesis
    by (auto simp: okx_get_supported_pairs_def split_def Let_def dest: except_Exception_Inl)
qed

text \<open>
  Claim C4. For every adapter and both operations (\<open>get_candles\<close> and
  \<open>get_supported_pairs\<close>), an exception raised while indexing into the payload is caught and
  raised again as the adapter's own error, and never leaves as an exception of another
  type. The two lemmas above show this for all nine \<open>get_candles\<close> and for eight of the
  nine \<open>get_supported_pairs\<close>. Binance's \<open>get_supported_pairs\<close> catches its own error class
  only: on a payload without the key \<open>symbols\<close> the KeyError leaves the adapter as it is.
\<close>

theorem binance_get_supported_pairs_leaks_KeyError:
  "fst (get_supported_pairs Binance empty_object_world) = Inl KeyError
   \<and> KeyError \<noteq> APIError Binance"
  by (simp add: empty_object_world_def binance_get_supported_pairs_def
      binance_make_request_def make_request_def except_APIError_def Let_def)

section \<open>Mercado Bitcoin's parallel arrays\<close>

lemma build_candle_fails:
  assumes "ts = Inl e \<or> op = Inl e \<or> hi = Inl e \<or> lo = Inl e \<or> cl = Inl e \<or> vol = Inl e
           \<or> qv = Inl e"
  shows "\<exists>e'. build_candle ts op hi lo cl vol qv symb ex tf = Inl e'"
proof (cases "build_candle ts op hi lo cl vol qv symb ex tf")
  case (Inl e')
  then show ?thesis by blast
next
  case (Inr c)
  from build_candle_Inr [OF this] assms show ?thesis
    by auto
qed

lemma get_default_object:
  "get_default (JObj kvs) k d = Inr (case map_of kvs k of None \<Rightarrow> d | Some v \<Rightarrow> v)"
  by (cases "map_of kvs k") simp_all

lemma float_at_out_of_range: "length xs \<le> i \<Longrightarrow> float_at (JList xs) i = Inl IndexError"
  by (simp add: float_at_def)

lemma mercado_bitcoin_get_candles_payload:
  assumes "epoch_s w sd = Inr s" and "epoch_s w ed = Inr e"
    and "http w \<lparr>http_method = ''GET'', url = ''https://api.mercadobitcoin.net/api/v4/candles'',
                 params = [(''from'', JInt s), (''to'', JInt e),
                           (''resolution'', JStr tf), (''symbol'', JStr symb)]\<rparr> = Inr payload"
  shows "\<exists>w'. fst (mercado_bitcoin_get_candles w symb tf sd ed)
                = except_Exception MercadoBitcoin (mercado_bitcoin_parse w' symb tf payload)"
  using assms
  by (simp add: mercado_bitcoin_get_candles_def mercado_bitcoin_convert_timeframe_def
      mercado_bitcoin_convert_symbol_def mercado_bitcoin_make_request_def make_request_def
      Let_def) blast

lemma mercado_bitcoin_parse_object:
  "mercado_bitcoin_parse w symb tf (JObj kvs) =
     bindE (len (case map_of kvs ''t'' of None \<Rightarrow> JList [] | Some v \<Rightarrow> v)) (\<lambda>n.
       mapE (mercado_bitcoin_candle w symb tf
               (case map_of kvs ''t'' of None \<Rightarrow> JList [] | Some v \<Rightarrow> v)
               (case map_of kvs ''o'' of None \<Rightarrow> JList [] | Some v \<Rightarrow> v)
               (case map_of kvs ''h'' of None \<Rightarrow> JList [] | Some v \<Rightarrow> v)
               (case map_of kvs ''l'' of None \<Rightarrow> JList [] | Some v \<Rightarrow> v)
               (case map_of kvs ''c'' of None \<Rightarrow> JList [] | Some v \<Rightarrow> v)
               (case map_of kvs ''v'' of None \<Rightarrow> JList [] | Some v \<Rightarrow> v))
         [0..<n])"
  by (simp add: mercado_bitcoin_parse_def get_default_object del: get_default.simps)

lemma mercado_bitcoin_parse_short_array:
  assumes t: "map_of kvs ''t'' = Some (JList ts)"
    and k: "k \<in> {''o'', ''h'', ''l'', ''c'', ''v''}"
    and xs: "get_default (JObj kvs) k (JList []) = Inr (JList xs)"
    and short: "length xs < length ts"
  shows "\<exists>e'. mercado_bitcoin_parse w symb tf (JObj kvs) = Inl e'"
proof -
  let ?d = "\<lambda>key. case map_of kvs key of None \<Rightarrow> JList [] | Some v \<Rightarrow> v"
  let ?f = "mercado_bitcoin_candle w symb tf (JList ts) (?d ''o'') (?d ''h'') (?d ''l'')
              (?d ''c'') (?d ''v'')"
  from xs have arr: "?d k = JList xs"
    by (simp add: get_default_object del: get_default.simps)
  have oor: "float_at (JList xs) (length xs) = Inl IndexError"
    by (simp add: float_at_out_of_range)
  from k arr oor have "\<exists>e'. ?f (length xs) = Inl e'"
    unfolding mercado_bitcoin_candle_def
    by (intro build_candle_fails [where e = IndexError]) auto
  then obtain e' where "?f (length xs) = Inl e'"
    by blast
  moreover from short have "length xs \<in> set [0..<length ts]"
    by simp
  ultimately have "\<exists>e''. mapE ?f [0..<length ts] = Inl e''"
    by (rule mapE_Inl_if [rotated])
  with t show ?thesis
    by (simp add: mercado_bitcoin_parse_object)
qed

text \<open>
  Claim C10. For the Mercado Bitcoin adapter, \<open>get_candles\<close> builds exactly one candle per
  element of the payload's \<open>t\<close> array, each of the keys \<open>t\<close>, \<open>o\<close>, \<open>h\<close>, \<open>l\<close>, \<open>c\<close>, \<open>v\<close>
  defaulting to an empty list when the payload object lacks it. So a payload without the key
  \<open>t\<close> yields the empty list of candles and no error, while a \<open>t\<close> array longer than one
  of the parallel arrays makes the call fail with the adapter's error (the IndexError is
  caught and wrapped).
\<close>

theorem mercado_bitcoin_parallel_arrays:
  assumes "epoch_s w start_date = Inr s" and "epoch_s w end_date = Inr e"
    and "http w \<lparr>http_method = ''GET'', url = ''https://api.mercadobitcoin.net/api/v4/candles'',
                 params = [(''from'', JInt s), (''to'', JInt e),
                           (''resolution'', JStr tf), (''symbol'', JStr symb)]\<rparr>
           = Inr (JObj kvs)"
  shows "(map_of kvs ''t'' = None
            \<longrightarrow> fst (mercado_bitcoin_get_candles w symb tf start_date end_date) = Inr [])
         \<and> (\<forall>cs ts. fst (mercado_bitcoin_get_candles w symb tf start_date end_date) = Inr cs
                     \<and> map_of kvs ''t'' = Some (JList ts)
              \<longrightarrow> length cs = length ts)
         \<and> (\<forall>ts k xs. map_of kvs ''t'' = Some (JList ts) \<and> k \<in> {''o'', ''h'', ''l'', ''c'', ''v''}
                       \<and> get_default (JObj kvs) k (JList []) = Inr (JList xs)
                       \<and> length xs < length ts
              \<longrightarrow> fst (mercado_bitcoin_get_candles w symb tf start_date end_date)
                    = Inl (APIError MercadoBitcoin))"
proof -
  from mercado_bitcoin_get_candles_payload [OF assms] obtain w'
    where run: "fst (mercado_bitcoin_get_candles w symb tf start_date end_date)
                  = except_Exception MercadoBitcoin
                      (mercado_bitcoin_parse w' symb tf (JObj kvs))"
    by blast
  have a: "fst (mercado_bitcoin_get_candles w symb tf start_date end_date) = Inr []"
    if "map_of kvs ''t'' = None"
    using that by (simp add: run mercado_bitcoin_parse_object)
  have b: "length cs = length ts"
    if "fst (mercado_bitcoin_get_candles w symb tf start_date end_date) = Inr cs"
      and "map_of kvs ''t'' = Some (JList ts)" for cs ts
  proof -
    from that have "mapE (mercado_bitcoin_candle w' symb tf (JList ts)
               (case map_of kvs ''o'' of None \<Rightarrow> JList [] | Some v \<Rightarrow> v)
               (case map_of kvs ''h'' of None \<Rightarrow> JList [] | Some v \<Rightarrow> v)
               (case map_of kvs ''l'' of None \<Rightarrow> JList [] | Some v \<Rightarrow> v)
               (case map_of kvs ''c'' of None \<Rightarrow> JList [] | Some v \<Rightarrow> v)
               (case map_of kvs ''v'' of None \<Rightarrow> JList [] | Some v \<Rightarrow> v))
         [0..<length ts] = Inr cs"
      by (simp add: run mercado_bitcoin_parse_object except_Exception_Inr_iff)
    from mapE_Inr_length [OF this] show ?thesis
      by simp
  qed
  have c: "fst (mercado_bitcoin_get_candles w symb tf start_date end_date)
             = Inl (APIError MercadoBitcoin)"
    if "map_of kvs ''t'' = Some (JList ts)" and "k \<in> {''o'', ''h'', ''l'', ''c'', ''v''}"
      and "get_default (JObj kvs) k (JList []) = Inr (JList xs)" and "length xs < length ts"
    for ts k xs
  proof -
    from mercado_bitcoin_parse_short_array [OF that] obtain e'
      where "mercado_bitcoin_parse w' symb tf (JObj kvs) = Inl e'"
      by blast
    then show ?thesis
      by (simp add: run)
  qed
  from a b c show ?thesis
    by blast
qed

lemma mercado_bitcoin_parallel_run:
  "fst (mercado_bitcoin_get_candles (utc_world (\<lambda>r. Inr (JObj payload_parallel)))
          ''BTC-BRL'' ''1h'' date_2021_07_01 date_2021_07_02) = Inr [parallel_candle]"
  by (simp add: mercado_bitcoin_get_candles_def epoch_s_2021_07_01 epoch_s_2021_07_02
      mercado_bitcoin_make_request_def make_request_def mercado_bitcoin_parse_def
      payload_parallel_def mercado_bitcoin_candle_def build_candle_def float_at_def
      fromtimestamp_int_def fromtimestamp_parts_2021_07_01 parallel_candle_def)

theorem mercado_bitcoin_parallel_arrays_witness:
  "epoch_s (utc_world (\<lambda>r. Inr (JObj payload_parallel))) date_2021_07_01 = Inr 1625097600
   \<and> epoch_s (utc_world (\<lambda>r. Inr (JObj payload_parallel))) date_2021_07_02 = Inr 1625184000
   \<and> map_of payload_without_t ''t'' = None
   \<and> fst (mercado_bitcoin_get_candles (utc_world (\<lambda>r. Inr (JObj payload_without_t)))
            ''BTC-BRL'' ''1h'' date_2021_07_01 date_2021_07_02) = Inr []
   \<and> map_of payload_parallel ''t'' = Some (JList [JInt 1625097600])
   \<and> fst (mercado_bitcoin_get_candles (utc_world (\<lambda>r. Inr (JObj payload_parallel)))
            ''BTC-BRL'' ''1h'' date_2021_07_01 date_2021_07_02) = Inr [parallel_candle]
   \<and> length [parallel_candle] = length [JInt 1625097600]
   \<and> map_of payload_short_o ''t'' = Some (JList [JInt 1625097600, JInt 1625101200])
   \<and> get_default (JObj payload_short_o) ''o'' (JList []) = Inr (JList [JFloat (Finite 1)])
   \<and> fst (mercado_bitcoin_get_candles (utc_world (\<lambda>r. Inr (JObj payload_short_o)))
            ''BTC-BRL'' ''1h'' date_2021_07_01 date_2021_07_02)
        = Inl (APIError MercadoBitcoin)"
proof -
  have s: "epoch_s (utc_world g) date_2021_07_01 = Inr 1625097600" for g
    by (simp add: epoch_s_2021_07_01)
  have e: "epoch_s (utc_world g) date_2021_07_02 = Inr 1625184000" for g
    by (simp add: epoch_s_2021_07_02)
  have h: "http (utc_world (\<lambda>r. Inr (JObj kvs)))
             \<lparr>http_method = ''GET'', url = ''https://api.mercadobitcoin.net/api/v4/candles'',
              params = [(''from'', JInt 1625097600), (''to'', JInt 1625184000),
                        (''resolution'', JStr ''1h''), (''symbol'', JStr ''BTC-BRL'')]\<rparr>
           = Inr (JObj kvs)" for kvs
    by simp
  have t1: "map_of payload_without_t ''t'' = None"
    by (simp add: payload_without_t_def)
  have t2: "map_of payload_parallel ''t'' = Some (JList [JInt 1625097600])"
    by (simp add: payload_parallel_def)
  have t3: "map_of payload_short_o ''t'' = Some (JList [JInt 1625097600, JInt 1625101200])"
    by (simp add: payload_short_o_def)
  have o3: "get_default (JObj payload_short_o) ''o'' (JList []) = Inr (JList [JFloat (Finite 1)])"
    by (simp add: payload_short_o_def)
  have k3: "''o'' \<in> {''o'', ''h'', ''l'', ''c'', ''v''}"
    by simp
  have l3: "length [JFloat (Finite 1)] < length [JInt 1625097600, JInt 1625101200]"
    by simp
  note run2 = mercado_bitcoin_parallel_run
  from mercado_bitcoin_parallel_arrays [OF s e h, of payload_without_t] t1
  have r1: "fst (mercado_bitcoin_get_candles (utc_world (\<lambda>r. Inr (JObj payload_without_t)))
            ''BTC-BRL'' ''1h'' date_2021_07_01 date_2021_07_02) = Inr []"
    by blast
  from mercado_bitcoin_parallel_arrays [OF s e h, of payload_parallel] run2 t2
  have r2: "length [parallel_candle] = length [JInt 1625097600]"
    by blast
  from mercado_bitcoin_parallel_arrays [OF s e h, of payload_short_o] t3 o3 k3 l3
  have r3: "fst (mercado_bitcoin_get_candles (utc_world (\<lambda>r. Inr (JObj payload_short_o)))
            ''BTC-BRL'' ''1h'' date_2021_07_01 date_2021_07_02)
        = Inl (APIError MercadoBitcoin)"
    by blast
  from s e t1 r1 t2 run2 r2 t3 o3 r3 show ?thesis
    by blast
qed

section \<open>Pair discovery\<close>

lemma getitem_key_field: "getitem_key e k = Inr v \<longleftrightarrow> field e k = Some v"
  by (cases e) (simp_all add: field_def split: option.splits)

lemma py_endswith_Inr: "py_endswith j suf = Inr b \<Longrightarrow> \<exists>s. j = JStr s \<and> b = endswith s suf"
  by (cases j) simp_all

lemma py_replace_Inr: "py_replace j old new = Inr t \<Longrightarrow> \<exists>s. j = JStr s \<and> t = replace s old new"
  by (cases j) simp_all

lemma except_APIError_Inr_iff: "except_APIError x r = Inr a \<longleftrightarrow> r = Inr a"
  by (cases r) (simp_all add: except_APIError_def)

lemma make_request_Inr:
  assumes "make_request x base w meth endpoint ps = (Inr payload, w')"
  shows "\<exists>req. w' = w\<lparr>sent := sent w @ [req]\<rparr> \<and> http w req = Inr payload"
  using make_request_sent [OF assms] make_request_result [OF assms] by blast

lemma filter_mapE_characterise:
  assumes "filter_mapE f xs = Inr ys"
    and "\<And>x y. f x = Inr (Some y) \<Longrightarrow> P x \<and> y = g x"
    and "\<And>x. f x = Inr None \<Longrightarrow> \<not> P x"
  shows "ys = map g (filter P xs)"
  using assms(1)
proof (induction xs arbitrary: ys)
  case Nil
  then show ?case by simp
next
  case (Cons a xs)
  show ?case
  proof (cases "f a")
    case (Inl e)
    with Cons.prems show ?thesis by simp
  next
    case (Inr r)
    show ?thesis
    proof (cases r)
      case None
      with Inr Cons.prems have "filter_mapE f xs = Inr ys"
        by simp
      moreover from None Inr assms(3) have "\<not> P a"
        by simp
      ultimately show ?thesis
        using Cons.IH by simp
    next
      case (Some y)
      with Inr Cons.prems obtain ys' where "filter_mapE f xs = Inr ys'" and "ys = y # ys'"
        by (auto split: sum.splits)
      moreover from Some Inr assms(2) have "P a \<and> y = g a"
        by simp
      ultimately show ?thesis
        using Cons.IH by simp
    qed
  qed
qed

lemma mapE_characterise:
  assumes "mapE f xs = Inr ys" and "\<And>x y. f x = Inr y \<Longrightarrow> y = g x"
  shows "ys = map g xs"
  using assms(1)
proof (induction xs arbitrary: ys)
  case Nil
  then show ?case by simp
next
  case (Cons a xs)
  then show ?case
    using assms(2) by (auto split: sum.splits)
qed

subsection \<open>What each adapter does with one entry\<close>

lemma coin_pair_Some:
  assumes "coin_pair w e = Inr (Some y)"
  shows "field e ''quoteCoin'' = Some (JStr ''BRL'')
         \<and> y = JStr (format_str w (the_field e ''baseCoin'') @ ''-BRL'')"
proof -
  from assms obtain q where q: "field e ''quoteCoin'' = Some q"
    unfolding coin_pair_def by (auto simp: bindE_Inr_iff getitem_key_field)
  with assms have brl: "q = JStr ''BRL''"
    unfolding coin_pair_def by (cases "q = JStr ''BRL''") (simp_all add: getitem_key_field [THEN iffD2])
  with assms q obtain b where "field e ''baseCoin'' = Some b"
    and "y = JStr (format_str w b @ ''-'' @ format_str w q)"
    unfolding coin_pair_def
    by (auto simp: bindE_Inr_iff getitem_key_field getitem_key_field [THEN iffD2])
  with q brl show ?thesis
    by (simp add: the_field_def format_str_def)
qed

lemma coin_pair_None:
  assumes "coin_pair w e = Inr None"
  shows "field e ''quoteCoin'' \<noteq> Some (JStr ''BRL'')"
proof
  assume "field e ''quoteCoin'' = Some (JStr ''BRL'')"
  then have q: "getitem_key e ''quoteCoin'' = Inr (JStr ''BRL'')"
    by (simp add: getitem_key_field)
  with assms show False
    unfolding coin_pair_def by (cases "getitem_key e ''baseCoin''") simp_all
qed

lemma okx_pair_Some:
  assumes "okx_pair w e = Inr (Some y)"
  shows "field e ''quoteCcy'' = Some (JStr ''BRL'')
         \<and> y = JStr (format_str w (the_field e ''baseCcy'') @ ''-BRL'')"
proof -
  from assms obtain q where q: "field e ''quoteCcy'' = Some q"
    unfolding okx_pair_def by (auto simp: bindE_Inr_iff getitem_key_field)
  with assms have brl: "q = JStr ''BRL''"
    unfolding okx_pair_def by (cases "q = JStr ''BRL''") (simp_all add: getitem_key_field [THEN iffD2])
  with assms q obtain b where "field e ''baseCcy'' = Some b"
    and "y = JStr (format_str w b @ ''-'' @ format_str w q)"
    unfolding okx_pair_def
    by (auto simp: bindE_Inr_iff getitem_key_field getitem_key_field [THEN iffD2])
  with q brl show ?thesis
    by (simp add: the_field_def format_str_def)
qed

lemma okx_pair_None:
  assumes "okx_pair w e = Inr None"
  shows "field e ''quoteCcy'' \<noteq> Some (JStr ''BRL'')"
proof
  assume "field e ''quoteCcy'' = Some (JStr ''BRL'')"
  then have q: "getitem_key e ''quoteCcy'' = Inr (JStr ''BRL'')"
    by (simp add: getitem_key_field)
  with assms show False
    unfolding okx_pair_def by (cases "getitem_key e ''baseCcy''") simp_all
qed

lemma mexc_pair_Some:
  assumes "mexc_pair w e = Inr (Some y)"
  shows "(field e ''status'' = Some (JStr ''1'') \<and> field e ''quoteAsset'' = Some (JStr ''BRL''))
         \<and> y = JStr (format_str w (the_field e ''baseAsset'') @ ''-BRL'')"
proof -
  from assms obtain st where st: "field e ''status'' = Some st"
    unfolding mexc_pair_def by (auto simp: bindE_Inr_iff getitem_key_field)
  with assms have one: "st = JStr ''1''"
    unfolding mexc_pair_def by (cases "st = JStr ''1''") (simp_all add: getitem_key_field [THEN iffD2])
  with assms st obtain q where q: "field e ''quoteAsset'' = Some q"
    unfolding mexc_pair_def
    by (auto simp: bindE_Inr_iff getitem_key_field getitem_key_field [THEN iffD2])
  with assms st one have brl: "q = JStr ''BRL''"
    unfolding mexc_pair_def by (cases "q = JStr ''BRL''") (simp_all add: getitem_key_field [THEN iffD2])
  with assms st one q obtain b where "field e ''baseAsset'' = Some b"
    and "y = JStr (format_str w b @ ''-'' @ format_str w q)"
    unfolding mexc_pair_def
    by (auto simp: bindE_Inr_iff getitem_key_field getitem_key_field [THEN iffD2])
  with st one q brl show ?thesis
    by (simp add: the_field_def format_str_def)
qed

lemma mexc_pair_None:
  assumes "mexc_pair w e = Inr None"
  shows "\<not> (field e ''status'' = Some (JStr ''1'') \<and> field e ''quoteAsset'' = Some (JStr ''BRL''))"
proof
  assume "field e ''status'' = Some (JStr ''1'') \<and> field e ''quoteAsset'' = Some (JStr ''BRL'')"
  then have "getitem_key e ''status'' = Inr (JStr ''1'')"
    and "getitem_key e ''quoteAsset'' = Inr (JStr ''BRL'')"
    by (simp_all add: getitem_key_field)
  with assms show False
    unfolding mexc_pair_def by (cases "getitem_key e ''baseAsset''") simp_all
qed

lemma crypto_com_pair_Some:
  assumes "crypto_com_pair e = Inr (Some y)"
  shows "(case field e ''i'' of Some (JStr s) \<Rightarrow> endswith s ''_BRL'' | _ \<Rightarrow> False)
         \<and> y = JStr (replace (str_of (the_field e ''i'')) ''_BRL'' [] @ ''-BRL'')"
proof -
  from assms obtain i brl where i: "getitem_key e ''i'' = Inr i"
    and b: "py_endswith i ''_BRL'' = Inr brl"
    unfolding crypto_com_pair_def by (auto simp: bindE_Inr_iff)
  from py_endswith_Inr [OF b] obtain s where s: "i = JStr s" and brl: "brl = endswith s ''_BRL''"
    by blast
  from assms i b have "brl"
    unfolding crypto_com_pair_def by (cases brl) simp_all
  with assms i b s have "y = JStr (replace s ''_BRL'' [] @ ''-BRL'')"
    unfolding crypto_com_pair_def by simp
  moreover from i s have "field e ''i'' = Some (JStr s)"
    by (simp add: getitem_key_field)
  ultimately show ?thesis
    using \<open>brl\<close> brl by (simp add: the_field_def)
qed

lemma crypto_com_pair_None:
  assumes "crypto_com_pair e = Inr None"
  shows "\<not> (case field e ''i'' of Some (JStr s) \<Rightarrow> endswith s ''_BRL'' | _ \<Rightarrow> False)"
proof -
  from assms obtain i brl where i: "getitem_key e ''i'' = Inr i"
    and b: "py_endswith i ''_BRL'' = Inr brl"
    unfolding crypto_com_pair_def by (auto simp: bindE_Inr_iff)
  from py_endswith_Inr [OF b] obtain s where s: "i = JStr s" and brl: "brl = endswith s ''_BRL''"
    by blast
  from assms i b s have "\<not> brl"
    unfolding crypto_com_pair_def by (cases brl) simp_all
  moreover from i s have "field e ''i'' = Some (JStr s)"
    by (simp add: getitem_key_field)
  ultimately show ?thesis
    using brl by simp
qed

lemma binance_pair_Some:
  assumes "binance_pair e = Inr (Some y)"
  shows "((case field e ''symbol'' of Some (JStr s) \<Rightarrow> endswith s ''BRL'' | _ \<Rightarrow> False)
          \<and> field e ''status'' = Some (JStr ''TRADING''))
         \<and> y = JStr (replace (str_of (the_field e ''symbol'')) ''BRL'' ''-BRL'')"
proof -
  from assms obtain i brl where i: "getitem_key e ''symbol'' = Inr i"
    and b: "py_endswith i ''BRL'' = Inr brl"
    unfolding binance_pair_def by (auto simp: bindE_Inr_iff)
  from py_endswith_Inr [OF b] obtain s where s: "i = JStr s" and brl: "brl = endswith s ''BRL''"
    by blast
  from assms i b have "brl"
    unfolding binance_pair_def by (cases brl) simp_all
  with assms i b obtain st where st: "getitem_key e ''status'' = Inr st"
    unfolding binance_pair_def by (auto simp: bindE_Inr_iff)
  with assms i b \<open>brl\<close> have tr: "st = JStr ''TRADING''"
    unfolding binance_pair_def by (cases "st = JStr ''TRADING''") simp_all
  with assms i b \<open>brl\<close> st s have "y = JStr (replace s ''BRL'' ''-BRL'')"
    unfolding binance_pair_def by simp
  moreover from i s have "field e ''symbol'' = Some (JStr s)"
    by (simp add: getitem_key_field)
  moreover from st tr have "field e ''status'' = Some (JStr ''TRADING'')"
    by (simp add: getitem_key_field)
  ultimately show ?thesis
    using \<open>brl\<close> brl by (simp add: the_field_def)
qed

lemma binance_pair_None:
  assumes "binance_pair e = Inr None"
  shows "\<not> ((case field e ''symbol'' of Some (JStr s) \<Rightarrow> endswith s ''BRL'' | _ \<Rightarrow> False)
            \<and> field e ''status'' = Some (JStr ''TRADING''))"
proof -
  from assms obtain i brl where i: "getitem_key e ''symbol'' = Inr i"
    and b: "py_endswith i ''BRL'' = Inr brl"
    unfolding binance_pair_def by (auto simp: bindE_Inr_iff)
  from py_endswith_Inr [OF b] obtain s where s: "i = JStr s" and brl: "brl = endswith s ''BRL''"
    by blast
  from i s have f: "field e ''symbol'' = Some (JStr s)"
    by (simp add: getitem_key_field)
  show ?thesis
  proof (cases brl)
    case False
    with f brl show ?thesis by simp
  next
    case True
    with assms i b obtain st where st: "getitem_key e ''status'' = Inr st"
      unfolding binance_pair_def by (auto simp: bindE_Inr_iff)
    have "st \<noteq> JStr ''TRADING''"
    proof
      assume "st = JStr ''TRADING''"
      with assms i b True st s show False
        unfolding binance_pair_def by simp
    qed
    with st show ?thesis
      by (simp add: getitem_key_field)
  qed
qed

lemma novadax_pair_Inr:
  assumes "novadax_pair e = Inr y"
  shows "y = JStr (replace (str_of (the_field e ''symbol'')) ''_'' ''-'')"
proof -
  from assms obtain i t where i: "getitem_key e ''symbol'' = Inr i"
    and r: "py_replace i ''_'' ''-'' = Inr t" and y: "y = JStr t"
    unfolding novadax_pair_def by (auto simp: bindE_Inr_iff)
  from py_replace_Inr [OF r] obtain s where "i = JStr s" and "t = replace s ''_'' ''-''"
    by blast
  with i y show ?thesis
    by (simp add: getitem_key_field the_field_def)
qed

lemma foxbit_symbol_Inr: "getitem_key e ''symbol'' = Inr y \<Longrightarrow> y = the_field e ''symbol''"
  by (simp add: getitem_key_field the_field_def)

subsection \<open>What each adapter returns\<close>

lemma binance_pairs:
  assumes "binance_get_supported_pairs w = (Inr ps, w')"
  shows "\<exists>req payload entries.
           w' = w\<lparr>sent := sent w @ [req]\<rparr> \<and> http w req = Inr payload
           \<and> catalog Binance w' payload = Inr entries
           \<and> py_sorted w' (map (canonical Binance w') (filter (keeps Binance) entries)) = Inr ps"
proof -
  obtain r w1 where mk: "make_request Binance ''https://api.binance.com/api/v3/'' w ''GET'' ''exchangeInfo'' [] = (r, w1)"
    by (cases "make_request Binance ''https://api.binance.com/api/v3/'' w ''GET'' ''exchangeInfo'' []") blast
  with assms have w1: "w1 = w'"
    unfolding binance_get_supported_pairs_def binance_make_request_def by simp
  from assms mk w1 obtain payload entries cands
    where r: "r = Inr payload"
      and cat: "catalog Binance w' payload = Inr entries"
      and loop: "filter_mapE binance_pair entries = Inr cands"
      and srt: "py_sorted w' cands = Inr ps"
    unfolding binance_get_supported_pairs_def binance_make_request_def
    by (auto simp: except_APIError_Inr_iff bindE_Inr_iff)
  from mk r w1 obtain rq where rq: "w' = w\<lparr>sent := sent w @ [rq]\<rparr>" "http w rq = Inr payload"
    by (auto dest: make_request_Inr)
  have "cands = map (canonical Binance w') (filter (keeps Binance) entries)"
    by (rule filter_mapE_characterise [OF loop]) (simp_all add: binance_pair_Some binance_pair_None)
  with rq cat srt show ?thesis
    by blast
qed

lemma bitget_pairs:
  assumes "bitget_get_supported_pairs w = (Inr ps, w')"
  shows "\<exists>req payload entries.
           w' = w\<lparr>sent := sent w @ [req]\<rparr> \<and> http w req = Inr payload
           \<and> catalog Bitget w' payload = Inr entries
           \<and> py_sorted w' (map (canonical Bitget w') (filter (keeps Bitget) entries)) = Inr ps"
proof -
  obtain r w1 where mk: "make_request Bitget ''https://api.bitget.com/api/v2/'' w ''GET'' ''spot/public/symbols'' [] = (r, w1)"
    by (cases "make_request Bitget ''https://api.bitget.com/api/v2/'' w ''GET'' ''spot/public/symbols'' []") blast
  with assms have w1: "w1 = w'"
    unfolding bitget_get_supported_pairs_def bitget_make_request_def by simp
  from assms mk w1 obtain payload entries cands
    where r: "r = Inr payload"
      and cat: "catalog Bitget w' payload = Inr entries"
      and loop: "filter_mapE (coin_pair w') entries = Inr cands"
      and srt: "py_sorted w' cands = Inr ps"
    unfolding bitget_get_supported_pairs_def bitget_make_request_def
    by (auto simp: except_Exception_Inr_iff bindE_Inr_iff)
  from mk r w1 obtain rq where rq: "w' = w\<lparr>sent := sent w @ [rq]\<rparr>" "http w rq = Inr payload"
    by (auto dest: make_request_Inr)
  have "cands = map (canonical Bitget w') (filter (keeps Bitget) entries)"
    by (rule filter_mapE_characterise [OF loop]) (simp_all add: coin_pair_Some coin_pair_None)
  with rq cat srt show ?thesis
    by blast
qed

lemma bybit_pairs:
  assumes "bybit_get_supported_pairs w = (Inr ps, w')"
  shows "\<exists>req payload entries.
           w' = w\<lparr>sent := sent w @ [req]\<rparr> \<and> http w req = Inr payload
           \<and> catalog Bybit w' payload = Inr entries
           \<and> py_sorted w' (map (canonical Bybit w') (filter (keeps Bybit) entries)) = Inr ps"
proof -
  obtain r w1 where mk: "make_request Bybit ''https://api.bybit.com/v5/'' w ''GET'' ''market/instruments-info'' [(''category'', JStr ''spot'')] = (r, w1)"
    by (cases "make_request Bybit ''https://api.bybit.com/v5/'' w ''GET'' ''market/instruments-info'' [(''category'', JStr ''spot'')]") blast
  with assms have w1: "w1 = w'"
    unfolding bybit_get_supported_pairs_def bybit_make_request_def by simp
  from assms mk w1 obtain payload entries cands
    where r: "r = Inr payload"
      and cat: "catalog Bybit w' payload = Inr entries"
      and loop: "filter_mapE (coin_pair w') entries = Inr cands"
      and srt: "py_sorted w' cands = Inr ps"
    unfolding bybit_get_supported_pairs_def bybit_make_request_def
    by (auto simp: except_Exception_Inr_iff bindE_Inr_iff)
  from mk r w1 obtain rq where rq: "w' = w\<lparr>sent := sent w @ [rq]\<rparr>" "http w rq = Inr payload"
    by (auto dest: make_request_Inr)
  have "cands = map (canonical Bybit w') (filter (keeps Bybit) entries)"
    by (rule filter_mapE_characterise [OF loop]) (simp_all add: coin_pair_Some coin_pair_None)
  with rq cat srt show ?thesis
    by blast
qed

lemma crypto_com_pairs:
  assumes "crypto_com_get_supported_pairs w = (Inr ps, w')"
  shows "\<exists>req payload entries.
           w' = w\<lparr>sent := sent w @ [req]\<rparr> \<and> http w req = Inr payload
           \<and> catalog CryptoCom w' payload = Inr entries
           \<and> py_sorted w' (map (canonical CryptoCom w') (filter (keeps CryptoCom) entries)) = Inr ps"
proof -
  obtain r w1 where mk: "make_request CryptoCom ''https://api.crypto.com/v2/'' w ''GET'' ''public/get-ticker'' [] = (r, w1)"
    by (cases "make_request CryptoCom ''https://api.crypto.com/v2/'' w ''GET'' ''public/get-ticker'' []") blast
  with assms have w1: "w1 = w'"
    unfolding crypto_com_get_supported_pairs_def crypto_com_make_request_def by simp
  from assms mk w1 obtain payload entries cands
    where r: "r = Inr payload"
      and cat: "catalog CryptoCom w' payload = Inr entries"
      and loop: "filter_mapE crypto_com_pair entries = Inr cands"
      and srt: "py_sorted w' cands = Inr ps"
    unfolding crypto_com_get_supported_pairs_def crypto_com_make_request_def
    by (auto simp: except_Exception_Inr_iff bindE_Inr_iff)
  from mk r w1 obtain rq where rq: "w' = w\<lparr>sent := sent w @ [rq]\<rparr>" "http w rq = Inr payload"
    by (auto dest: make_request_Inr)
  have "cands = map (canonical CryptoCom w') (filter (keeps CryptoCom) entries)"
    by (rule filter_mapE_characterise [OF loop]) (simp_all add: crypto_com_pair_Some crypto_com_pair_None)
  with rq cat srt show ?thesis
    by blast
qed

lemma mexc_pairs:
  assumes "mexc_get_supported_pairs w = (Inr ps, w')"
  shows "\<exists>req payload entries.
           w' = w\<lparr>sent := sent w @ [req]\<rparr> \<and> http w req = Inr payload
           \<and> catalog MEXC w' payload = Inr entries
           \<and> py_sorted w' (map (canonical MEXC w') (filter (keeps MEXC) entries)) = Inr ps"
proof -
  obtain r w1 where mk: "make_request MEXC ''https://api.mexc.com/api/v3/'' w ''GET'' ''exchangeInfo'' [] = (r, w1)"
    by (cases "make_request MEXC ''https://api.mexc.com/api/v3/'' w ''GET'' ''exchangeInfo'' []") blast
  with assms have w1: "w1 = w'"
    unfolding mexc_get_supported_pairs_def mexc_make_request_def by simp
  from assms mk w1 obtain payload entries cands
    where r: "r = Inr payload"
      and cat: "catalog MEXC w' payload = Inr entries"
      and loop: "filter_mapE (mexc_pair w') entries = Inr cands"
      and srt: "py_sorted w' cands = Inr ps"
    unfolding mexc_get_supported_pairs_def mexc_make_request_def
    by (auto simp: except_Exception_Inr_iff bindE_Inr_iff)
  from mk r w1 obtain rq where rq: "w' = w\<lparr>sent := sent w @ [rq]\<rparr>" "http w rq = Inr payload"
    by (auto dest: make_request_Inr)
  have "cands = map (canonical MEXC w') (filter (keeps MEXC) entries)"
    by (rule filter_mapE_characterise [OF loop]) (simp_all add: mexc_pair_Some mexc_pair_None)
  with rq cat srt show ?thesis
    by blast
qed

lemma okx_pairs:
  assumes "okx_get_supported_pairs w = (Inr ps, w')"
  shows "\<exists>req payload entries.
           w' = w\<lparr>sent := sent w @ [req]\<rparr> \<and> http w req = Inr payload
           \<and> catalog OKX w' payload = Inr entries
           \<and> py_sorted w' (map (canonical OKX w') (filter (keeps OKX) entries)) = Inr ps"
proof -
  obtain r w1 where mk: "make_request OKX ''https://www.okx.com/api/v5/'' w ''GET'' ''public/instruments'' [(''instType'', JStr ''SPOT'')] = (r, w1)"
    by (cases "make_request OKX ''https://www.okx.com/api/v5/'' w ''GET'' ''public/instruments'' [(''instType'', JStr ''SPOT'')]") blast
  with assms have w1: "w1 = w'"
    unfolding okx_get_supported_pairs_def okx_make_request_def by simp
  from assms mk w1 obtain payload entries cands
    where r: "r = Inr payload"
      and cat: "catalog OKX w' payload = Inr entries"
      and loop: "filter_mapE (okx_pair w') entries = Inr cands"
      and srt: "py_sorted w' cands = Inr ps"
    unfolding okx_get_supported_pairs_def okx_make_request_def
    by (auto simp: except_Exception_Inr_iff bindE_Inr_iff)
  from mk r w1 obtain rq where rq: "w' = w\<lparr>sent := sent w @ [rq]\<rparr>" "http w rq = Inr payload"
    by (auto dest: make_request_Inr)
  have "cands = map (canonical OKX w') (filter (keeps OKX) entries)"
    by (rule filter_mapE_characterise [OF loop]) (simp_all add: okx_pair_Some okx_pair_None)
  with rq cat srt show ?thesis
    by blast
qed

lemma novadax_pairs:
  assumes "novadax_get_supported_pairs w = (Inr ps, w')"
  shows "\<exists>req payload entries.
           w' = w\<lparr>sent := sent w @ [req]\<rparr> \<and> http w req = Inr payload
           \<and> catalog Novadax w' payload = Inr entries
           \<and> py_sorted w' (map (canonical Novadax w') (filter (keeps Novadax) entries)) = Inr ps"
proof -
  obtain r w1 where mk: "make_request Novadax ''https://api.novadax.com/v1/'' w ''GET'' ''common/symbols'' [] = (r, w1)"
    by (cases "make_request Novadax ''https://api.novadax.com/v1/'' w ''GET'' ''common/symbols'' []") blast
  with assms have w1: "w1 = w'"
    unfolding novadax_get_supported_pairs_def novadax_make_request_def by simp
  from assms mk w1 obtain payload entries cands
    where r: "r = Inr payload"
      and cat: "catalog Novadax w' payload = Inr entries"
      and loop: "mapE novadax_pair entries = Inr cands"
      and srt: "py_sorted w' cands = Inr ps"
    unfolding novadax_get_supported_pairs_def novadax_make_request_def
    by (auto simp: except_Exception_Inr_iff bindE_Inr_iff)
  from mk r w1 obtain rq where rq: "w' = w\<lparr>sent := sent w @ [rq]\<rparr>" "http w rq = Inr payload"
    by (auto dest: make_request_Inr)
  have "cands = map (canonical Novadax w') (filter (keeps Novadax) entries)"
    using mapE_characterise [OF loop, of "canonical Novadax w'"] by (simp add: novadax_pair_Inr)
  with rq cat srt show ?thesis
    by blast
qed

lemma foxbit_pairs:
  assumes "foxbit_get_supported_pairs w = (Inr ps, w')"
  shows "\<exists>req payload entries.
           w' = w\<lparr>sent := sent w @ [req]\<rparr> \<and> http w req = Inr payload
           \<and> catalog Foxbit w' payload = Inr entries
           \<and> py_sorted w' (map (canonical Foxbit w') (filter (keeps Foxbit) entries)) = Inr ps"
proof -
  obtain r w1 where mk: "make_request Foxbit ''https://api.foxbit.com.br/rest/v3/'' w ''GET'' ''markets'' [] = (r, w1)"
    by (cases "make_request Foxbit ''https://api.foxbit.com.br/rest/v3/'' w ''GET'' ''markets'' []") blast
  with assms have w1: "w1 = w'"
    unfolding foxbit_get_supported_pairs_def foxbit_make_request_def by simp
  from assms mk w1 obtain payload entries cands
    where r: "r = Inr payload"
      and cat: "catalog Foxbit w' payload = Inr entries"
      and loop: "mapE (\<lambda>market. getitem_key market ''symbol'') entries = Inr cands"
      and srt: "py_sorted w' cands = Inr ps"
    unfolding foxbit_get_supported_pairs_def foxbit_make_request_def
    by (auto simp: except_Exception_Inr_iff bindE_Inr_iff)
  from mk r w1 obtain rq where rq: "w' = w\<lparr>sent := sent w @ [rq]\<rparr>" "http w rq = Inr payload"
    by (auto dest: make_request_Inr)
  have "cands = map (canonical Foxbit w') (filter (keeps Foxbit) entries)"
    using mapE_characterise [OF loop, of "canonical Foxbit w'"] by (simp add: foxbit_symbol_Inr)
  with rq cat srt show ?thesis
    by blast
qed

lemma select_rows_as_filter:
  "select_rows (map P ts) ss = map snd (filter (\<lambda>row. P (fst row)) (zip ts ss))"
  by (simp add: select_rows_def zip_map1 filter_map comp_def split_def)

lemma df_column_filtered:
  assumes "df_column (df_filter df msk) name = Inr cells"
  shows "\<exists>col. df_column df name = Inr col \<and> cells = select_rows msk col"
  using assms
  by (cases "map_of df name") (simp_all add: df_column_def df_filter_def map_of_map)

lemma df_rows_filter:
  "map snd (filter (\<lambda>row. fst row = JStr ''CRYPTO'') rows)
     = map (canonical MercadoBitcoin w) (filter (keeps MercadoBitcoin) (map df_row rows))"
  by (induction rows) (simp_all add: df_row_def field_def the_field_def)

lemma mercado_bitcoin_pairs:
  assumes "mercado_bitcoin_get_supported_pairs w = (Inr ps, w')"
  shows "\<exists>req payload entries.
           w' = w\<lparr>sent := sent w @ [req]\<rparr> \<and> http w req = Inr payload
           \<and> catalog MercadoBitcoin w' payload = Inr entries
           \<and> py_sorted w' (map (canonical MercadoBitcoin w') (filter (keeps MercadoBitcoin) entries))
               = Inr ps"
proof -
  obtain r w1 where mk: "make_request MercadoBitcoin ''https://api.mercadobitcoin.net/api/v4/''
                           w ''GET'' ''symbols'' [] = (r, w1)"
    by (cases "make_request MercadoBitcoin ''https://api.mercadobitcoin.net/api/v4/''
                 w ''GET'' ''symbols'' []") blast
  with assms have w1: "w1 = w'"
    unfolding mercado_bitcoin_get_supported_pairs_def mercado_bitcoin_make_request_def by simp
  from assms mk w1 obtain payload df types pairs
    where r: "r = Inr payload"
      and df: "from_records w' payload = Inr df"
      and ty: "df_column df ''type'' = Inr types"
      and sy: "df_column (df_filter df (map (\<lambda>c. c = JStr ''CRYPTO'') types)) ''symbol''
                 = Inr pairs"
      and srt: "py_sorted w' pairs = Inr ps"
    unfolding mercado_bitcoin_get_supported_pairs_def mercado_bitcoin_make_request_def
    by (auto simp: except_Exception_Inr_iff bindE_Inr_iff)
  from mk r w1 obtain rq where rq: "w' = w\<lparr>sent := sent w @ [rq]\<rparr>" "http w rq = Inr payload"
    by (auto dest: make_request_Inr)
  from df_column_filtered [OF sy] obtain symbols
    where col: "df_column df ''symbol'' = Inr symbols"
      and sel: "pairs = select_rows (map (\<lambda>c. c = JStr ''CRYPTO'') types) symbols"
    by blast
  from df ty col have cat: "catalog MercadoBitcoin w' payload = Inr (map df_row (zip types symbols))"
    by simp
  from sel have "pairs = map (canonical MercadoBitcoin w')
                           (filter (keeps MercadoBitcoin) (map df_row (zip types symbols)))"
    by (simp only: select_rows_as_filter df_rows_filter)
  with rq cat srt show ?thesis
    by blast
qed

lemma canonical_is_string:
  "x \<notin> {Foxbit, MercadoBitcoin} \<Longrightarrow> list_all is_JStr (map (canonical x w) entries)"
  by (cases x) (simp_all add: list_all_iff)

lemma py_sorted_strings:
  "py_sorted w xs = Inr ys \<Longrightarrow> list_all is_JStr xs \<Longrightarrow> ys = map JStr (sort (map str_of xs))"
  by (simp add: py_sorted_def)

text \<open>
  Claim C2, as amended. Every adapter returns, sorted, the pairs of the catalog entries it
  keeps. Bitget, Bybit and OKX keep exactly the entries whose quote-currency field equals
  \<open>BRL\<close>, MEXC those whose status is \<open>1\<close> and whose quote asset is \<open>BRL\<close>, and Crypto.com
  those whose instrument name ends with \<open>_BRL\<close>; each returns them as \<open>BASE-BRL\<close> strings.
  Novadax keeps every entry, whatever its quote currency, and returns its symbol with the
  underscore replaced by a hyphen. Binance keeps the entries whose symbol ends with \<open>BRL\<close>
  and whose status is \<open>TRADING\<close>, Foxbit returns the catalog's own symbols untouched, and
  Mercado Bitcoin keeps exactly the rows whose type is \<open>CRYPTO\<close>. Where the pairs are
  strings (always, but for Foxbit and Mercado Bitcoin, which return the catalog's own
  values) the result is in lexicographic order.
\<close>

theorem supported_pairs_filters:
  assumes "get_supported_pairs x w = (Inr ps, w')"
  shows "\<exists>req payload entries.
           w' = w\<lparr>sent := sent w @ [req]\<rparr> \<and> http w req = Inr payload
           \<and> catalog x w' payload = Inr entries
           \<and> py_sorted w' (map (canonical x w') (filter (keeps x) entries)) = Inr ps
           \<and> (x \<notin> {Foxbit, MercadoBitcoin}
                \<or> list_all is_JStr (map (canonical x w') (filter (keeps x) entries))
               \<longrightarrow> ps = map JStr (sort (map str_of
                          (map (canonical x w') (filter (keeps x) entries)))))"
proof -
  have "\<exists>req payload entries.
           w' = w\<lparr>sent := sent w @ [req]\<rparr> \<and> http w req = Inr payload
           \<and> catalog x w' payload = Inr entries
           \<and> py_sorted w' (map (canonical x w') (filter (keeps x) entries)) = Inr ps"
  proof (cases x)
    case Binance
    with assms have "binance_get_supported_pairs w = (Inr ps, w')"
      by simp
    from binance_pairs [OF this] show ?thesis
      by (simp only: Binance)
  next
    case Bitget
    with assms have "bitget_get_supported_pairs w = (Inr ps, w')"
      by simp
    from bitget_pairs [OF this] show ?thesis
      by (simp only: Bitget)
  next
    case Bybit
    with assms have "bybit_get_supported_pairs w = (Inr ps, w')"
      by simp
    from bybit_pairs [OF this] show ?thesis
      by (simp only: Bybit)
  next
    case CryptoCom
    with assms have "crypto_com_get_supported_pairs w = (Inr ps, w')"
      by simp
    from crypto_com_pairs [OF this] show ?thesis
      by (simp only: CryptoCom)
  next
    case Foxbit
    with assms have "foxbit_get_supported_pairs w = (Inr ps, w')"
      by simp
    from foxbit_pairs [OF this] show ?thesis
      by (simp only: Foxbit)
  next
    case MercadoBitcoin
    with assms have "mercado_bitcoin_get_supported_pairs w = (Inr ps, w')"
      by simp
    from mercado_bitcoin_pairs [OF this] show ?thesis
      by (simp only: MercadoBitcoin)
  next
    case MEXC
    with assms have "mexc_get_supported_pairs w = (Inr ps, w')"
      by simp
    from mexc_pairs [OF this] show ?thesis
      by (simp only: MEXC)
  next
    case Novadax
    with assms have "novadax_get_supported_pairs w = (Inr ps, w')"
      by simp
    from novadax_pairs [OF this] show ?thesis
      by (simp only: Novadax)
  next
    case OKX
    with assms have "okx_get_supported_pairs w = (Inr ps, w')"
      by simp
    from okx_pairs [OF this] show ?thesis
      by (simp only: OKX)
  qed
  then obtain req payload entries
    where a: "w' = w\<lparr>sent := sent w @ [req]\<rparr>" "http w req = Inr payload"
      "catalog x w' payload = Inr entries"
      and s: "py_sorted w' (map (canonical x w') (filter (keeps x) entries)) = Inr ps"
    by blast
  have "ps = map JStr (sort (map str_of (map (canonical x w') (filter (keeps x) entries))))"
    if "x \<notin> {Foxbit, MercadoBitcoin}
        \<or> list_all is_JStr (map (canonical x w') (filter (keeps x) entries))"
    using that py_sorted_strings [OF s] canonical_is_string [of x w' "filter (keeps x) entries"]
    by blast
  with a s show ?thesis
    by blast
qed

theorem supported_pairs_filters_witness:
  "get_supported_pairs Bitget bitget_world
     = (Inr [JStr ''BTC-BRL'', JStr ''ETH-BRL''], bitget_world\<lparr>sent := [bitget_pairs_request]\<rparr>)
   \<and> (\<exists>req payload entries.
         bitget_world\<lparr>sent := [bitget_pairs_request]\<rparr>
           = bitget_world\<lparr>sent := sent bitget_world @ [req]\<rparr>
         \<and> http bitget_world req = Inr payload
         \<and> catalog Bitget (bitget_world\<lparr>sent := [bitget_pairs_request]\<rparr>) payload = Inr entries
         \<and> [JStr ''BTC-BRL'', JStr ''ETH-BRL'']
             = map JStr (sort (map str_of
                 (map (canonical Bitget (bitget_world\<lparr>sent := [bitget_pairs_request]\<rparr>))
                    (filter (keeps Bitget) entries)))))"
proof -
  have pairs: "filter_mapE (coin_pair w) bitget_entries = Inr [JStr ''ETH-BRL'', JStr ''BTC-BRL'']"
    for w
    by (simp add: bitget_entries_def coin_pair_def format_str_def)
  have srt: "sort [''ETH-BRL'', ''BTC-BRL''] = [''BTC-BRL'', ''ETH-BRL'']"
    by simp
  have run: "get_supported_pairs Bitget bitget_world
     = (Inr [JStr ''BTC-BRL'', JStr ''ETH-BRL''], bitget_world\<lparr>sent := [bitget_pairs_request]\<rparr>)"
    by (simp add: bitget_get_supported_pairs_def bitget_make_request_def make_request_def
        bitget_world_def bitget_catalog_def pairs py_sorted_def srt bitget_pairs_request_def
        del: filter_mapE.simps)
  let ?w' = "bitget_world\<lparr>sent := [bitget_pairs_request]\<rparr>"
  from supported_pairs_filters [OF run] obtain req payload entries
    where a: "?w' = bitget_world\<lparr>sent := sent bitget_world @ [req]\<rparr>"
      and b: "http bitget_world req = Inr payload"
      and c: "catalog Bitget ?w' payload = Inr entries"
      and imp: "Bitget \<notin> {Foxbit, MercadoBitcoin}
                \<or> list_all is_JStr (map (canonical Bitget ?w') (filter (keeps Bitget) entries))
               \<longrightarrow> [JStr ''BTC-BRL'', JStr ''ETH-BRL'']
                     = map JStr (sort (map str_of
                         (map (canonical Bitget ?w') (filter (keeps Bitget) entries))))"
    by (elim exE conjE)
  have ne: "Bitget \<notin> {Foxbit, MercadoBitcoin}"
    by simp
  have d: "[JStr ''BTC-BRL'', JStr ''ETH-BRL'']
             = map JStr (sort (map str_of
                 (map (canonical Bitget ?w') (filter (keeps Bitget) entries))))"
    by (rule mp [OF imp disjI1 [OF ne]])
  from a b c d have "\<exists>req payload entries.
         ?w' = bitget_world\<lparr>sent := sent bitget_world @ [req]\<rparr>
         \<and> http bitget_world req = Inr payload
         \<and> catalog Bitget ?w' payload = Inr entries
         \<and> [JStr ''BTC-BRL'', JStr ''ETH-BRL'']
             = map JStr (sort (map str_of
                 (map (canonical Bitget ?w') (filter (keeps Bitget) entries))))"
    by (intro exI conjI)
  with run show ?thesis
    by (rule conjI)
qed

text \<open>
  Claim C2, as stated, fails for Novadax: from a catalog with the entries \<open>ETH_BRL\<close> and
  \<open>BTC_USDT\<close> it returns both pairs, also the one whose quote currency is \<open>USDT\<close>.
\<close>

theorem novadax_keeps_usdt_pair:
  "fst (get_supported_pairs Novadax novadax_world) = Inr [JStr ''BTC-USDT'', JStr ''ETH-BRL'']
   \<and> catalog Novadax novadax_world novadax_catalog = Inr [eth_brl_entry, btc_usdt_entry]
   \<and> field btc_usdt_entry ''quoteCurrency'' = Some (JStr ''USDT'')
   \<and> canonical Novadax novadax_world btc_usdt_entry = JStr ''BTC-USDT''"
proof -
  have pairs: "mapE novadax_pair [eth_brl_entry, btc_usdt_entry]
                 = Inr [JStr ''ETH-BRL'', JStr ''BTC-USDT'']"
    by (simp add: eth_brl_entry_def btc_usdt_entry_def novadax_pair_def string_eval)
  have srt: "sort [''ETH-BRL'', ''BTC-USDT''] = [''BTC-USDT'', ''ETH-BRL'']"
    by simp
  have run: "fst (get_supported_pairs Novadax novadax_world)
               = Inr [JStr ''BTC-USDT'', JStr ''ETH-BRL'']"
    by (simp add: novadax_get_supported_pairs_def novadax_make_request_def make_request_def
        novadax_world_def novadax_catalog_def pairs py_sorted_def srt del: mapE.simps)
  have cat: "catalog Novadax novadax_world novadax_catalog = Inr [eth_brl_entry, btc_usdt_entry]"
    by (simp add: novadax_catalog_def)
  have q: "field btc_usdt_entry ''quoteCurrency'' = Some (JStr ''USDT'')"
    by (simp add: btc_usdt_entry_def field_def)
  have c: "canonical Novadax novadax_world btc_usdt_entry = JStr ''BTC-USDT''"
    by (simp add: btc_usdt_entry_def field_def the_field_def string_eval)
  from run cat q c show ?thesis
    by blast
qed

end
